theory Spec2Isabelle
  imports Complex_Main "HOL-Library.Multiset" "HOL-Library.Char_ord" "HOL-Library.List_Lexorder"
begin

section \<open>Python values\<close>

text \<open>
  The dashboard polls three scheduler commands, decodes their JSON output and turns the
  decoded documents into summary tables (file \<^verbatim>\<open>src/stop/slurm.py\<close>). A decoded document
  is a Python value built from \<^verbatim>\<open>None\<close>, booleans, numbers, strings, lists and dictionaries.
  A dictionary is an association list read with \<open>map_of\<close>; a finite float is a rational.
\<close>

datatype json =
    JNull
  | JBool bool
  | JInt int
  | JFloat rat
  | JStr string
  | JList "json list"
  | JObj "(string \<times> json) list"

text \<open>
  The exceptions the code can meet. \<open>CancelledError\<close> stands for the exceptions that are
  not subclasses of Python's \<^verbatim>\<open>Exception\<close> (a clause \<^verbatim>\<open>except Exception\<close> lets them pass).
  \<open>OutsideModel\<close> marks inputs on which the data-frame library is not followed here
  (mixed or missing cells, nulls, integers beyond 64 bits, column-oriented input): no
  statement below says what the program does there.
\<close>

datatype error =
    FileNotFoundError
  | JSONDecodeError
  | UnicodeDecodeError
  | OtherException string
  | CancelledError
  | IndexError
  | KeyError string
  | TypeError
  | ColumnNotFoundError string
  | OutsideModel

fun is_Exception :: "error \<Rightarrow> bool" where
  "is_Exception CancelledError = False"
| "is_Exception _ = True"

definition bindE :: "error + 'a \<Rightarrow> ('a \<Rightarrow> error + 'b) \<Rightarrow> error + 'b" where
  "bindE m f = (case m of Inl e \<Rightarrow> Inl e | Inr x \<Rightarrow> f x)"

fun traverse :: "('a \<Rightarrow> error + 'b) \<Rightarrow> 'a list \<Rightarrow> error + 'b list" where
  "traverse f [] = Inr []"
| "traverse f (x # xs) = bindE (f x) (\<lambda>y. bindE (traverse f xs) (\<lambda>ys. Inr (y # ys)))"

text \<open>Truth value of a Python object, as \<^verbatim>\<open>not x\<close> and \<^verbatim>\<open>x or y\<close> read it.\<close>

fun truthy :: "json \<Rightarrow> bool" where
  "truthy JNull = False"
| "truthy (JBool b) = b"
| "truthy (JInt i) = (i \<noteq> 0)"
| "truthy (JFloat x) = (x \<noteq> 0)"
| "truthy (JStr s) = (s \<noteq> [])"
| "truthy (JList xs) = (xs \<noteq> [])"
| "truthy (JObj kvs) = (kvs \<noteq> [])"

fun is_infix :: "string \<Rightarrow> string \<Rightarrow> bool" where
  "is_infix k [] = (k = [])"
| "is_infix k (c # cs) = (take (length k) (c # cs) = k \<or> is_infix k cs)"

text \<open>
  \<^verbatim>\<open>k in x\<close> for a string \<open>k\<close>: key membership in a dictionary, element membership in a
  list, substring test in a string, and a \<^verbatim>\<open>TypeError\<close> on \<^verbatim>\<open>None\<close>, booleans and numbers.
\<close>

fun py_in :: "string \<Rightarrow> json \<Rightarrow> error + bool" where
  "py_in k (JObj kvs) = Inr (k \<in> set (map fst kvs))"
| "py_in k (JList xs) = Inr (JStr k \<in> set xs)"
| "py_in k (JStr s) = Inr (is_infix k s)"
| "py_in k _ = Inl TypeError"

text \<open>\<^verbatim>\<open>x[k]\<close> for a string \<open>k\<close>: only a dictionary can be subscripted by a string.\<close>

fun py_getitem :: "json \<Rightarrow> string \<Rightarrow> error + json" where
  "py_getitem (JObj kvs) k = (case map_of kvs k of None \<Rightarrow> Inl (KeyError k) | Some v \<Rightarrow> Inr v)"
| "py_getitem _ k = Inl TypeError"

subsection \<open>Strings\<close>

text \<open>
  A \<open>string\<close> is a list of characters with codes 0 to 255. \<^verbatim>\<open>str.strip()\<close> and
  \<^verbatim>\<open>str.split()\<close> without argument work on the characters for which \<^verbatim>\<open>str.isspace\<close> holds.
  Among the codes 0 to 255 these are the space, the controls 9 to 13 (tab, line feed,
  vertical tab, form feed, carriage return) and 28 to 31 (the four separators), the next-line
  control U+0085 and the no-break space U+00A0.
\<close>

definition isspace :: "char \<Rightarrow> bool" where
  "isspace c = (c \<in> set [CHR '' '', CHR 0x09, CHR 0x0A, CHR 0x0B, CHR 0x0C, CHR 0x0D,
                          CHR 0x1C, CHR 0x1D, CHR 0x1E, CHR 0x1F, CHR 0x85, CHR 0xA0])"

text \<open>\<^verbatim>\<open>s.strip()\<close>: \<open>s\<close> without its leading and trailing whitespace.\<close>

definition strip :: "string \<Rightarrow> string" where
  "strip s = rev (dropWhile isspace (rev (dropWhile isspace s)))"

text \<open>\<^verbatim>\<open>s.split()\<close>: the maximal runs of non-whitespace characters, in order.\<close>

fun split_from :: "string \<Rightarrow> string \<Rightarrow> string list" where
  "split_from cur [] = (if cur = [] then [] else [rev cur])"
| "split_from cur (c # cs) =
     (if isspace c then (if cur = [] then split_from [] cs else rev cur # split_from [] cs)
      else split_from (c # cur) cs)"

definition py_split :: "string \<Rightarrow> string list" where
  "py_split s = split_from [] s"

definition digit_char :: "nat \<Rightarrow> char" where
  "digit_char d = ''0123456789'' ! d"

fun str_nat :: "nat \<Rightarrow> string" where
  "str_nat n = (if n < 10 then [digit_char n] else str_nat (n div 10) @ [digit_char (n mod 10)])"

declare str_nat.simps [simp del]

text \<open>\<^verbatim>\<open>str(i)\<close>, which is also how an f-string renders an integer.\<close>

definition str_int :: "int \<Rightarrow> string" where
  "str_int i = (if i < 0 then CHR ''-'' # str_nat (nat (- i)) else str_nat (nat i))"

fun intercalate :: "string \<Rightarrow> string list \<Rightarrow> string" where
  "intercalate sep [] = []"
| "intercalate sep [x] = x"
| "intercalate sep (x # y # ys) = x @ sep @ intercalate sep (y # ys)"

section \<open>Time formatting\<close>

text \<open>
  \<^verbatim>\<open>int(x)\<close> on a number: the identity on integers, truncation towards zero on finite
  floats (on the two infinities and on not-a-number it raises, and they are not rationals).
\<close>

definition py_int :: "rat \<Rightarrow> int" where
  "py_int x = (if 0 \<le> x then \<lfloor>x\<rfloor> else \<lceil>x\<rceil>)"

text \<open>
  \<^verbatim>\<open>format_seconds_to_human_readable(seconds)\<close>. The argument is \<^verbatim>\<open>None\<close> or a number; the
  successive \<^verbatim>\<open>//\<close> and \<^verbatim>\<open>%=\<close> are Python's floor division and modulus, which are \<open>div\<close>
  and \<open>mod\<close> on \<open>int\<close>.
\<close>

definition format_seconds_to_human_readable :: "rat option \<Rightarrow> string" where
  "format_seconds_to_human_readable seconds =
     (case seconds of
        None \<Rightarrow> ''N/A''
      | Some x \<Rightarrow>
          (let seconds0 = py_int x;
               days = seconds0 div (24 * 3600);
               seconds1 = seconds0 mod (24 * 3600);
               hours = seconds1 div 3600;
               seconds2 = seconds1 mod 3600;
               minutes = seconds2 div 60;
               seconds3 = seconds2 mod 60
           in str_int days @ ''d '' @ str_int hours @ ''h '' @ str_int minutes @ ''m ''
              @ str_int seconds3 @ ''s''))"

section \<open>The external data fetcher\<close>

text \<open>
  What running a shell command gives: the exit status and the outcome of decoding each
  captured stream (\<^verbatim>\<open>stdout.decode()\<close>, \<^verbatim>\<open>stderr.decode()\<close>: the text, or the exception the
  decoding raises).
\<close>

record proc =
  returncode :: int
  stdout_text :: "error + string"
  stderr_text :: "error + string"

text \<open>
  The world outside the program: \<open>run_shell\<close> is \<^verbatim>\<open>create_subprocess_shell\<close> followed by
  \<^verbatim>\<open>communicate\<close> (the finished process, or the exception either call raises), and
  \<open>json_loads\<close> is the JSON decoder of the standard library.
\<close>

record env =
  run_shell :: "string \<Rightarrow> error + proc"
  json_loads :: "string \<Rightarrow> error + json"

text \<open>The diagnostics the fetcher prints, one constructor per message template.\<close>

datatype message =
    ErrorRunning string string
  | CommandNotFound string
  | CouldNotDecode string
  | UnexpectedError string error

text \<open>The body of the \<^verbatim>\<open>try\<close> block of \<^verbatim>\<open>get_slurm_data\<close>: printed lines and outcome.\<close>

definition fetch_body :: "env \<Rightarrow> string \<Rightarrow> message list \<times> (error + json)" where
  "fetch_body e command =
     (case run_shell e command of
        Inl ex \<Rightarrow> ([], Inl ex)
      | Inr process \<Rightarrow>
          (if returncode process \<noteq> 0 then
             (case stderr_text process of
                Inl ex \<Rightarrow> ([], Inl ex)
              | Inr err \<Rightarrow> ([ErrorRunning command (strip err)], Inr JNull))
           else
             (case stdout_text process of
                Inl ex \<Rightarrow> ([], Inl ex)
              | Inr out \<Rightarrow>
                  (case json_loads e (strip out) of
                     Inl ex \<Rightarrow> ([], Inl ex)
                   | Inr v \<Rightarrow> ([], Inr v)))))"

text \<open>
  The three \<^verbatim>\<open>except\<close> clauses, tried in the order of the source. The first one formats
  \<^verbatim>\<open>command.split()[0]\<close>, which raises \<^verbatim>\<open>IndexError\<close> inside the handler when the command has
  no word at all.
\<close>

definition get_slurm_data :: "env \<Rightarrow> string \<Rightarrow> message list \<times> (error + json)" where
  "get_slurm_data e command =
     (case fetch_body e command of
        (printed, Inr v) \<Rightarrow> (printed, Inr v)
      | (printed, Inl ex) \<Rightarrow>
          (if ex = FileNotFoundError then
             (case py_split command of
                [] \<Rightarrow> (printed, Inl IndexError)
              | w # ws \<Rightarrow> (printed @ [CommandNotFound w], Inr JNull))
           else if ex = JSONDecodeError then (printed @ [CouldNotDecode command], Inr JNull)
           else if is_Exception ex then (printed @ [UnexpectedError command ex], Inr JNull)
           else (printed, Inl ex)))"

text \<open>
  \<^verbatim>\<open>get_all_slurm_data\<close>: the three fetches are gathered; \<^verbatim>\<open>asyncio.gather\<close> hands back the
  results in the order of its arguments and re-raises the first exception a fetch lets
  through. The printed lines of the three fetches are listed in argument order.
\<close>

definition get_all_slurm_data :: "env \<Rightarrow> message list \<times> (error + json)" where
  "get_all_slurm_data e =
     (let (p0, sinfo_task) = get_slurm_data e ''sinfo --json'';
          (p1, squeue_task) = get_slurm_data e ''squeue --json'';
          (p2, scontrol_task) = get_slurm_data e ''scontrol show nodes --json''
      in (p0 @ p1 @ p2,
          bindE sinfo_task (\<lambda>r0. bindE squeue_task (\<lambda>r1. bindE scontrol_task (\<lambda>r2.
            Inr (JObj [(''sinfo'', r0), (''squeue'', r1), (''scontrol'', r2)]))))))"

section \<open>Data frames\<close>

text \<open>
  The aggregation functions hand the record list of a document to the data-frame library
  (\<^verbatim>\<open>pl.DataFrame(...)\<close>) and work on its columns. A frame is kept here as the list of
  its records; a column is read out of it with the type the operation at hand needs.
  The embedding follows the library on frames whose records all carry the column with
  cells of one type (strings, 64-bit integers, non-empty lists of strings, structs), and on
  the frame without rows and columns that an empty list gives. Reading a column that no
  record carries raises \<^verbatim>\<open>ColumnNotFoundError\<close>. Everything else is \<open>OutsideModel\<close>.
\<close>

type_synonym pyobj = "(string \<times> json) list"

type_synonym frame = "pyobj list"

fun as_obj :: "json \<Rightarrow> error + pyobj" where
  "as_obj (JObj kvs) = Inr kvs"
| "as_obj _ = Inl OutsideModel"

fun DataFrame :: "json \<Rightarrow> error + frame" where
  "DataFrame (JList xs) = traverse as_obj xs"
| "DataFrame _ = Inl OutsideModel"

definition has_key :: "string \<Rightarrow> pyobj \<Rightarrow> bool" where
  "has_key c r = (c \<in> set (map fst r))"

definition cell :: "string \<Rightarrow> pyobj \<Rightarrow> json" where
  "cell c r = (case map_of r c of None \<Rightarrow> JNull | Some v \<Rightarrow> v)"

definition has_column :: "string \<Rightarrow> frame \<Rightarrow> bool" where
  "has_column c df = list_ex (has_key c) df"

definition col :: "string \<Rightarrow> frame \<Rightarrow> error + json list" where
  "col c df =
     (if has_column c df then
        (if list_all (has_key c) df then Inr (map (cell c) df) else Inl OutsideModel)
      else Inl (ColumnNotFoundError c))"

text \<open>
  Integer columns are \<^verbatim>\<open>Int64\<close>: a cell must fit, and sums and differences wrap around.
\<close>

definition int64 :: "int \<Rightarrow> bool" where
  "int64 i = (- (2 ^ 63) \<le> i \<and> i < 2 ^ 63)"

definition wrap64 :: "int \<Rightarrow> int" where
  "wrap64 i = (i + 2 ^ 63) mod 2 ^ 64 - 2 ^ 63"

definition polars_sum :: "int list \<Rightarrow> int" where
  "polars_sum xs = wrap64 (sum_list xs)"

fun as_int :: "json \<Rightarrow> error + int" where
  "as_int (JInt i) = (if int64 i then Inr i else Inl OutsideModel)"
| "as_int _ = Inl OutsideModel"

fun as_str :: "json \<Rightarrow> error + string" where
  "as_str (JStr s) = Inr s"
| "as_str _ = Inl OutsideModel"

fun as_str_list :: "json \<Rightarrow> error + string list" where
  "as_str_list (JList xs) = (if xs = [] then Inl OutsideModel else traverse as_str xs)"
| "as_str_list _ = Inl OutsideModel"

fun struct_field :: "string \<Rightarrow> json \<Rightarrow> error + json" where
  "struct_field f (JObj kvs) = (case map_of kvs f of None \<Rightarrow> Inl OutsideModel | Some v \<Rightarrow> Inr v)"
| "struct_field f _ = Inl OutsideModel"

definition col_int :: "string \<Rightarrow> frame \<Rightarrow> error + int list" where
  "col_int c df = bindE (col c df) (traverse as_int)"

definition col_str :: "string \<Rightarrow> frame \<Rightarrow> error + string list" where
  "col_str c df = bindE (col c df) (traverse as_str)"

definition col_str_list :: "string \<Rightarrow> frame \<Rightarrow> error + string list list" where
  "col_str_list c df = bindE (col c df) (traverse as_str_list)"

definition col_field_int :: "string \<Rightarrow> string \<Rightarrow> frame \<Rightarrow> error + int list" where
  "col_field_int c f df = bindE (col c df) (traverse (\<lambda>v. bindE (struct_field f v) as_int))"

definition col_field_str :: "string \<Rightarrow> string \<Rightarrow> frame \<Rightarrow> error + string list" where
  "col_field_str c f df = bindE (col c df) (traverse (\<lambda>v. bindE (struct_field f v) as_str))"

subsection \<open>Summary tables\<close>

text \<open>The result of an aggregation: named columns in order, and the rows under them.\<close>

record table =
  columns :: "string list"
  rows :: "json list list"

text \<open>\<^verbatim>\<open>pl.DataFrame({name: values, ...})\<close>: a table given column by column.\<close>

definition from_columns :: "nat \<Rightarrow> (string \<times> json list) list \<Rightarrow> table" where
  "from_columns n cs =
     \<lparr>columns = map fst cs, rows = map (\<lambda>i. map (\<lambda>c. snd c ! i) cs) [0..<n]\<rparr>"

definition column_index :: "string \<Rightarrow> table \<Rightarrow> nat" where
  "column_index c t = length (takeWhile (\<lambda>x. x \<noteq> c) (columns t))"

fun cell_int :: "json \<Rightarrow> int" where
  "cell_int (JInt i) = i"
| "cell_int _ = 0"

fun cell_str :: "json \<Rightarrow> string" where
  "cell_str (JStr s) = s"
| "cell_str _ = []"

subsection \<open>Orders the library leaves open\<close>

text \<open>
  \<^verbatim>\<open>group_by\<close> returns its groups in no particular order, and \<^verbatim>\<open>sort\<close> is not stable. The
  functions below take the order as a parameter \<open>ord\<close>: for a list of \<open>n\<close> items, \<open>ord n\<close>
  lists the positions \<open>0..<n\<close> in the order in which the library hands the items on.
  \<open>valid_order\<close> says that \<open>ord\<close> is such a rearrangement; \<open>in_order\<close> keeps every list as
  it is.
\<close>

definition unordered :: "(nat \<Rightarrow> nat list) \<Rightarrow> 'a list \<Rightarrow> 'a list" where
  "unordered ord xs = map (\<lambda>i. xs ! i) (ord (length xs))"

definition valid_order :: "(nat \<Rightarrow> nat list) \<Rightarrow> bool" where
  "valid_order ord = (\<forall>n. mset (ord n) = mset [0..<n])"

definition in_order :: "nat \<Rightarrow> nat list" where
  "in_order n = [0..<n]"

definition backwards :: "nat \<Rightarrow> nat list" where
  "backwards n = rev [0..<n]"

text \<open>The keys of \<^verbatim>\<open>group_by\<close>, and the cells of a column that belong to one key.\<close>

definition group_by :: "(nat \<Rightarrow> nat list) \<Rightarrow> 'k list \<Rightarrow> 'k list" where
  "group_by ord keys = unordered ord (remdups keys)"

definition group :: "'k \<Rightarrow> 'k list \<Rightarrow> 'a list \<Rightarrow> 'a list" where
  "group k keys vals = map snd (filter (\<lambda>p. fst p = k) (zip keys vals))"

text \<open>
  \<^verbatim>\<open>group_by(...).agg(pl.len())\<close>: every key with the number of rows that carry it. The
  library counts in 32 bits, which is also its bound on the number of rows of a frame.
\<close>

definition agg_len :: "(nat \<Rightarrow> nat list) \<Rightarrow> 'k list \<Rightarrow> ('k \<times> nat) list" where
  "agg_len ord keys = map (\<lambda>k. (k, count_list keys k)) (group_by ord keys)"

definition sort_descending :: "(nat \<Rightarrow> nat list) \<Rightarrow> string \<Rightarrow> table \<Rightarrow> table" where
  "sort_descending ord c t =
     t\<lparr>rows := sort_key (\<lambda>r. - cell_int (r ! column_index c t)) (unordered ord (rows t))\<rparr>"

definition sort_by_name :: "(nat \<Rightarrow> nat list) \<Rightarrow> string \<Rightarrow> table \<Rightarrow> table" where
  "sort_by_name ord c t =
     t\<lparr>rows := sort_key (\<lambda>r. cell_str (r ! column_index c t)) (unordered ord (rows t))\<rparr>"

section \<open>The aggregation engine\<close>

subsection \<open>Partition rollup and partition list\<close>

text \<open>
  The six sums of \<^verbatim>\<open>process_partition_summary\<close> and \<^verbatim>\<open>process_partition_list\<close>, in the
  order of the source: each is \<^verbatim>\<open>pl.col(c).struct.field(f).sum()\<close> under a new name.
\<close>

definition partition_aggs :: "(string \<times> string \<times> string) list" where
  "partition_aggs =
     [(''nodes'', ''total'', ''Total Nodes''),
      (''nodes'', ''idle'', ''Idle Nodes''),
      (''nodes'', ''allocated'', ''Allocated Nodes''),
      (''cpus'', ''total'', ''Total CPUs''),
      (''cpus'', ''idle'', ''Free CPUs''),
      (''cpus'', ''allocated'', ''Allocated CPUs'')]"

text \<open>
  \<^verbatim>\<open>df.group_by(partition.name as key_name).agg(aggs)\<close>: one row per partition name, the
  name first, then the six sums over the records of that name.
\<close>

definition partition_rollup :: "(nat \<Rightarrow> nat list) \<Rightarrow> string \<Rightarrow> frame \<Rightarrow> error + table" where
  "partition_rollup ord key_name df =
     bindE (col_field_str ''partition'' ''name'' df) (\<lambda>names.
     bindE (traverse (\<lambda>(c, f, a). col_field_int c f df) partition_aggs) (\<lambda>fields.
       Inr \<lparr>columns = key_name # map (\<lambda>(c, f, a). a) partition_aggs,
            rows = map (\<lambda>k. JStr k # map (\<lambda>vals. JInt (polars_sum (group k names vals))) fields)
                       (group_by ord names)\<rparr>))"

definition process_partition_summary :: "(nat \<Rightarrow> nat list) \<Rightarrow> json \<Rightarrow> error + table option" where
  "process_partition_summary ord sinfo_data =
     (if \<not> truthy sinfo_data then Inr None
      else
        bindE (py_getitem sinfo_data ''sinfo'') (\<lambda>sinfo.
        bindE (DataFrame sinfo) (\<lambda>sinfo_df.
        bindE (partition_rollup ord ''Partition'' sinfo_df) (\<lambda>partition_summary_df.
          Inr (Some (sort_descending ord ''Total Nodes'' partition_summary_df))))))"

text \<open>
  \<^verbatim>\<open>c in df.columns\<close>. A frame built from records has the column when its records carry
  the key; frames in which only some records carry it are outside the embedding.
\<close>

definition in_columns :: "string \<Rightarrow> frame \<Rightarrow> error + bool" where
  "in_columns c df =
     (if has_column c df then (if list_all (has_key c) df then Inr True else Inl OutsideModel)
      else Inr False)"

text \<open>
  \<^verbatim>\<open>process_partition_list\<close> adds an aggregation when the frame has an \<^verbatim>\<open>availability\<close>
  column, and one when it has a \<^verbatim>\<open>state\<close> column. Each is written
  \<^verbatim>\<open>pl.col(...).unique().list().join(", ")\<close>. The attribute \<^verbatim>\<open>list\<close> of an expression is the
  namespace of its list operations, an object that cannot be called: \<^verbatim>\<open>.list()\<close> raises
  \<^verbatim>\<open>TypeError\<close> while the aggregation is being built, before anything is grouped.
\<close>

definition process_partition_list :: "(nat \<Rightarrow> nat list) \<Rightarrow> json \<Rightarrow> error + table option" where
  "process_partition_list ord sinfo_data =
     (if \<not> truthy sinfo_data then Inr None
      else
        bindE (py_in ''sinfo'' sinfo_data) (\<lambda>present.
          if \<not> present then Inr None
          else
            bindE (py_getitem sinfo_data ''sinfo'') (\<lambda>sinfo.
            bindE (DataFrame sinfo) (\<lambda>partitions_df.
            bindE (in_columns ''availability'' partitions_df) (\<lambda>availability.
              if availability then Inl TypeError
              else
                bindE (in_columns ''state'' partitions_df) (\<lambda>state.
                  if state then Inl TypeError
                  else
                    bindE (partition_rollup ord ''Partition Name'' partitions_df)
                      (\<lambda>partition_list_df.
                        Inr (Some (sort_by_name ord ''Partition Name'' partition_list_df)))))))))"

subsection \<open>Job summaries\<close>

text \<open>The tables \<^verbatim>\<open>process_job_summaries\<close> returns when there is no job to count.\<close>

definition empty_job_summary :: "string \<Rightarrow> table" where
  "empty_job_summary key =
     \<lparr>columns = [key, ''Total Jobs'', ''RUNNING'', ''PENDING'', ''COMPLETED''], rows = []\<rparr>"

definition set_cell :: "string \<Rightarrow> json \<Rightarrow> pyobj \<Rightarrow> pyobj" where
  "set_cell c v r = map (\<lambda>(k, x). if k = c then (k, v) else (k, x)) r"

text \<open>
  \<^verbatim>\<open>df.explode(c)\<close>: every record is repeated once for each element of its list in column
  \<open>c\<close>, with that element in place of the list.
\<close>

definition explode :: "string \<Rightarrow> frame \<Rightarrow> error + frame" where
  "explode c df =
     bindE (col_str_list c df) (\<lambda>lists.
       Inr (concat (map (\<lambda>(r, ss). map (\<lambda>s. set_cell c (JStr s) r) ss) (zip df lists))))"

fun fill_null :: "int \<Rightarrow> nat option \<Rightarrow> json" where
  "fill_null d None = JInt d"
| "fill_null d (Some n) = JInt (int n)"

fun joined_cell :: "nat option \<Rightarrow> json" where
  "joined_cell None = JNull"
| "joined_cell (Some n) = JInt (int n)"

text \<open>
  One of the two summaries of \<^verbatim>\<open>process_job_summaries\<close>, for the grouping column \<open>key\<close>
  (\<^verbatim>\<open>account\<close> or \<^verbatim>\<open>user_name\<close>), from the exploded frame:
  \<^item> \<open>counts\<close> is \<^verbatim>\<open>group_by([key, "job_state"]).agg(pl.len())\<close>;
  \<^item> the pivot has one row per key and one column per state, both in the order of first
    appearance in \<open>counts\<close>, holding the first count of the pair, and \<^verbatim>\<open>fill_null(0)\<close> puts 0
    where there is none;
  \<^item> \<open>total_jobs\<close> is \<^verbatim>\<open>squeue_exploded_df.group_by(key).agg(pl.len())\<close>, joined on the key;
  \<^item> the selection puts the key and \<^verbatim>\<open>Total Jobs\<close> first, and the rows are sorted by
    \<^verbatim>\<open>Total Jobs\<close>, largest first.
  A state called like the key column or like \<^verbatim>\<open>Total Jobs\<close> would clash with these columns and
  is left outside the embedding.
\<close>

definition job_summary :: "(nat \<Rightarrow> nat list) \<Rightarrow> string \<Rightarrow> frame \<Rightarrow> error + table" where
  "job_summary ord key squeue_exploded_df =
     bindE (col_str key squeue_exploded_df) (\<lambda>keys.
     bindE (col_str ''job_state'' squeue_exploded_df) (\<lambda>states.
       if key \<in> set states \<or> ''Total Jobs'' \<in> set states then Inl OutsideModel
       else
         (let counts = agg_len ord (zip keys states);
              index = remdups (map (\<lambda>((k, s), n). k) counts);
              on = remdups (map (\<lambda>((k, s), n). s) counts);
              total_jobs = agg_len ord keys;
              summary_df =
                \<lparr>columns = [key, ''Total Jobs''] @ on,
                 rows = map (\<lambda>k. [JStr k, joined_cell (map_of total_jobs k)]
                                  @ map (\<lambda>s. fill_null 0 (map_of counts (k, s))) on) index\<rparr>
          in Inr (sort_descending ord ''Total Jobs'' summary_df))))"

definition process_job_summaries :: "(nat \<Rightarrow> nat list) \<Rightarrow> json \<Rightarrow> error + (table \<times> table)" where
  "process_job_summaries ord squeue_data =
     (if \<not> truthy squeue_data
      then Inr (empty_job_summary ''account'', empty_job_summary ''user_name'')
      else
        bindE (py_in ''jobs'' squeue_data) (\<lambda>present.
          if \<not> present
          then Inr (empty_job_summary ''account'', empty_job_summary ''user_name'')
          else
            bindE (py_getitem squeue_data ''jobs'') (\<lambda>jobs.
              if \<not> truthy jobs
              then Inr (empty_job_summary ''account'', empty_job_summary ''user_name'')
              else
                bindE (DataFrame jobs) (\<lambda>squeue_df.
                bindE (explode ''job_state'' squeue_df) (\<lambda>squeue_exploded_df.
                bindE (job_summary ord ''account'' squeue_exploded_df) (\<lambda>account_summary_df.
                bindE (job_summary ord ''user_name'' squeue_exploded_df) (\<lambda>user_summary_df.
                  Inr (account_summary_df, user_summary_df))))))))"

subsection \<open>Node summary and node list\<close>

definition broken_states :: "string list" where
  "broken_states =
     [''DRAINED'', ''DRAINING'', ''DRAIN'', ''DOWN'', ''FAIL'', ''NO_RESPOND'', ''POWER_DOWN'',
      ''POWER_UP'', ''RESUME'', ''UNKNOWN'']"

text \<open>\<^verbatim>\<open>pl.col("state").list.contains(s)\<close>, as a test on the state list of one node.\<close>

definition list_contains :: "string \<Rightarrow> string list \<Rightarrow> bool" where
  "list_contains s xs = (s \<in> set xs)"

text \<open>
  The loop over \<^verbatim>\<open>broken_states\<close>: the condition starts as \<^verbatim>\<open>None\<close>, becomes the test for
  the first state, and is then joined by \<^verbatim>\<open>|\<close> with the test for each further state.
\<close>

fun broken_nodes_condition ::
  "string list \<Rightarrow> (string list \<Rightarrow> bool) option \<Rightarrow> (string list \<Rightarrow> bool) option" where
  "broken_nodes_condition [] cond = cond"
| "broken_nodes_condition (s # ss) None = broken_nodes_condition ss (Some (list_contains s))"
| "broken_nodes_condition (s # ss) (Some c) =
     broken_nodes_condition ss (Some (\<lambda>xs. c xs \<or> list_contains s xs))"

definition process_node_summary :: "json \<Rightarrow> error + table option" where
  "process_node_summary scontrol_data =
     (if \<not> truthy scontrol_data then Inr None
      else
        bindE (py_in ''nodes'' scontrol_data) (\<lambda>present.
          if \<not> present then Inr None
          else
            bindE (py_getitem scontrol_data ''nodes'') (\<lambda>nodes.
            bindE (DataFrame nodes) (\<lambda>nodes_df.
            bindE (col_int ''cpus'' nodes_df) (\<lambda>cpus.
            bindE (col_int ''real_memory'' nodes_df) (\<lambda>real_memory.
            bindE (col_int ''alloc_cpus'' nodes_df) (\<lambda>alloc_cpus.
            bindE (col_int ''alloc_memory'' nodes_df) (\<lambda>alloc_memory.
            bindE (col_str_list ''state'' nodes_df) (\<lambda>state.
              (case broken_nodes_condition broken_states None of
                 None \<Rightarrow> Inl TypeError
               | Some broken \<Rightarrow>
                   (let total_nodes = length nodes_df;
                        total_cpus = polars_sum cpus;
                        total_memory = polars_sum real_memory;
                        allocated_cpus = polars_sum alloc_cpus;
                        allocated_memory = polars_sum alloc_memory;
                        broken_nodes = length (filter broken state);
                        reservation_nodes = length (filter (list_contains ''RESERVATION'') state);
                        mixed_nodes =
                          length (filter (\<lambda>(a, c). a > 0 \<and> a < c) (zip alloc_cpus cpus))
                    in Inr (Some (from_columns 8
                         [(''Metric'',
                           map JStr [''Total Nodes'', ''Total CPUs'', ''Total Memory (MB)'',
                                     ''Allocated CPUs'', ''Allocated Memory (MB)'',
                                     ''Broken Nodes'', ''Nodes in Reservation'', ''Mixed Nodes'']),
                          (''Value'',
                           map JInt [int total_nodes, total_cpus, total_memory,
                                     allocated_cpus, allocated_memory,
                                     int broken_nodes, int reservation_nodes,
                                     int mixed_nodes])])))))))))))))"

definition process_node_list :: "(nat \<Rightarrow> nat list) \<Rightarrow> json \<Rightarrow> error + table option" where
  "process_node_list ord scontrol_data =
     (if \<not> truthy scontrol_data then Inr None
      else
        bindE (py_in ''nodes'' scontrol_data) (\<lambda>present.
          if \<not> present then Inr None
          else
            bindE (py_getitem scontrol_data ''nodes'') (\<lambda>nodes.
            bindE (DataFrame nodes) (\<lambda>nodes_df.
            bindE (col_str ''name'' nodes_df) (\<lambda>name.
            bindE (col_str_list ''state'' nodes_df) (\<lambda>state.
            bindE (col_int ''cpus'' nodes_df) (\<lambda>cpus.
            bindE (col_int ''alloc_cpus'' nodes_df) (\<lambda>alloc_cpus.
            bindE (col_int ''real_memory'' nodes_df) (\<lambda>real_memory.
            bindE (col_int ''alloc_memory'' nodes_df) (\<lambda>alloc_memory.
            bindE (col_str_list ''partitions'' nodes_df) (\<lambda>partitions.
            bindE (col ''cpu_load'' nodes_df) (\<lambda>cpu_load.
              (let node_list_df = from_columns (length nodes_df)
                     [(''Node Name'', map JStr name),
                      (''State'', map (\<lambda>ss. JStr (intercalate '', '' ss)) state),
                      (''Total Cores'', map JInt cpus),
                      (''Allocated Cores'', map JInt alloc_cpus),
                      (''Total Memory (MB)'', map JInt real_memory),
                      (''Allocated Memory (MB)'', map JInt alloc_memory),
                      (''Free Memory (MB)'',
                       map (\<lambda>(r, a). JInt (wrap64 (r - a))) (zip real_memory alloc_memory)),
                      (''Partitions'', map (\<lambda>ps. JStr (intercalate '', '' ps)) partitions),
                      (''CPU Load'', cpu_load)]
               in Inr (Some (sort_by_name ord ''Node Name'' node_list_df)))))))))))))))"

subsection \<open>Waiting times of pending jobs\<close>

text \<open>
  The three statistics are floats in the program and rationals here: the embedding is
  exact as long as the waiting times and their sum stay below \<open>2 ^ 53\<close> in size, where
  64-bit floats hold every integer and every half.
\<close>

definition median :: "int list \<Rightarrow> rat" where
  "median xs =
     (let s = sort xs; n = length xs
      in if odd n then of_int (s ! (n div 2))
         else (of_int (s ! (n div 2 - 1)) + of_int (s ! (n div 2))) / 2)"

definition mean :: "int list \<Rightarrow> rat" where
  "mean xs = of_int (sum_list xs) / of_int (int (length xs))"

text \<open>\<^verbatim>\<open>float(x or 0.0)\<close>: a zero is replaced by the float zero.\<close>

definition float_or_zero :: "rat \<Rightarrow> rat" where
  "float_or_zero x = (if x = 0 then 0 else x)"

definition waiting_time_table :: "string list \<Rightarrow> table" where
  "waiting_time_table vals =
     from_columns 3
       [(''Metric'', map JStr [''Max Waiting Time'', ''Median Waiting Time'', ''Mean Waiting Time'']),
        (''Value'', map JStr vals)]"

definition no_waiting_times :: table where
  "no_waiting_times = waiting_time_table (replicate 3 ''0d 0h 0m 0s'')"

text \<open>
  The column \<^verbatim>\<open>waiting_time_seconds\<close> of \<^verbatim>\<open>pending_jobs_df\<close>: the frame is filtered on the
  three conditions, and the difference of start and eligible time is added as a column.
\<close>

definition waiting_time_seconds :: "string list list \<Rightarrow> int list \<Rightarrow> int list \<Rightarrow> int list" where
  "waiting_time_seconds job_state eligible start =
     map (\<lambda>(st, el, sta). wrap64 (sta - el))
       (filter (\<lambda>(st, el, sta). list_contains ''PENDING'' st \<and> el \<noteq> 0 \<and> sta \<noteq> 0)
          (zip job_state (zip eligible start)))"

definition process_pending_job_waiting_times_summary :: "json \<Rightarrow> error + table" where
  "process_pending_job_waiting_times_summary squeue_data =
     (if \<not> truthy squeue_data then Inr no_waiting_times
      else
        bindE (py_in ''jobs'' squeue_data) (\<lambda>present.
          if \<not> present then Inr no_waiting_times
          else
            bindE (py_getitem squeue_data ''jobs'') (\<lambda>jobs.
              if \<not> truthy jobs then Inr no_waiting_times
              else
                bindE (DataFrame jobs) (\<lambda>squeue_df.
                bindE (col_str_list ''job_state'' squeue_df) (\<lambda>job_state.
                bindE (col_field_int ''eligible_time'' ''number'' squeue_df) (\<lambda>eligible.
                bindE (col_field_int ''start_time'' ''number'' squeue_df) (\<lambda>start.
                  (let pending_jobs_df = waiting_time_seconds job_state eligible start
                   in if pending_jobs_df = [] then Inr no_waiting_times
                      else
                        (let max_waiting_time =
                               float_or_zero (of_int (Max (set pending_jobs_df)));
                             median_waiting_time = float_or_zero (median pending_jobs_df);
                             mean_waiting_time = float_or_zero (mean pending_jobs_df)
                         in Inr (waiting_time_table
                              (map (\<lambda>v. format_seconds_to_human_readable (Some v))
                                 [max_waiting_time, median_waiting_time, mean_waiting_time])))))))))))"

section \<open>Well-formed documents\<close>

text \<open>
  What the scheduler's documents look like, field by field: the predicates say that a
  record carries a field with the expected type, the accessors read it.
\<close>

fun is_int64 :: "json \<Rightarrow> bool" where
  "is_int64 (JInt i) = int64 i"
| "is_int64 _ = False"

fun is_str :: "json \<Rightarrow> bool" where
  "is_str (JStr s) = True"
| "is_str _ = False"

fun is_str_list :: "json \<Rightarrow> bool" where
  "is_str_list (JList xs) = (xs \<noteq> [] \<and> list_all is_str xs)"
| "is_str_list _ = False"

fun cell_strs :: "json \<Rightarrow> string list" where
  "cell_strs (JList xs) = map cell_str xs"
| "cell_strs _ = []"

fun cell_field :: "string \<Rightarrow> json \<Rightarrow> json" where
  "cell_field f (JObj kvs) = cell f kvs"
| "cell_field f _ = JNull"

fun is_struct_with :: "string \<Rightarrow> json \<Rightarrow> bool" where
  "is_struct_with f (JObj kvs) = has_key f kvs"
| "is_struct_with f _ = False"

definition int_at :: "string \<Rightarrow> pyobj \<Rightarrow> bool" where
  "int_at c r = (has_key c r \<and> is_int64 (cell c r))"

definition str_at :: "string \<Rightarrow> pyobj \<Rightarrow> bool" where
  "str_at c r = (has_key c r \<and> is_str (cell c r))"

definition strs_at :: "string \<Rightarrow> pyobj \<Rightarrow> bool" where
  "strs_at c r = (has_key c r \<and> is_str_list (cell c r))"

definition int_in :: "string \<Rightarrow> string \<Rightarrow> pyobj \<Rightarrow> bool" where
  "int_in c f r = (has_key c r \<and> is_struct_with f (cell c r) \<and> is_int64 (cell_field f (cell c r)))"

definition str_in :: "string \<Rightarrow> string \<Rightarrow> pyobj \<Rightarrow> bool" where
  "str_in c f r = (has_key c r \<and> is_struct_with f (cell c r) \<and> is_str (cell_field f (cell c r)))"

definition get_int :: "string \<Rightarrow> pyobj \<Rightarrow> int" where
  "get_int c r = cell_int (cell c r)"

definition get_str :: "string \<Rightarrow> pyobj \<Rightarrow> string" where
  "get_str c r = cell_str (cell c r)"

definition get_strs :: "string \<Rightarrow> pyobj \<Rightarrow> string list" where
  "get_strs c r = cell_strs (cell c r)"

definition get_field_int :: "string \<Rightarrow> string \<Rightarrow> pyobj \<Rightarrow> int" where
  "get_field_int c f r = cell_int (cell_field f (cell c r))"

definition get_field_str :: "string \<Rightarrow> string \<Rightarrow> pyobj \<Rightarrow> string" where
  "get_field_str c f r = cell_str (cell_field f (cell c r))"

text \<open>A node record as \<^verbatim>\<open>process_node_summary\<close> reads it.\<close>

definition wf_node :: "pyobj \<Rightarrow> bool" where
  "wf_node r = (int_at ''cpus'' r \<and> int_at ''real_memory'' r \<and> int_at ''alloc_cpus'' r
                \<and> int_at ''alloc_memory'' r \<and> strs_at ''state'' r)"

text \<open>A node record as \<^verbatim>\<open>process_node_list\<close> reads it.\<close>

definition wf_listed_node :: "pyobj \<Rightarrow> bool" where
  "wf_listed_node r = (wf_node r \<and> str_at ''name'' r \<and> strs_at ''partitions'' r
                       \<and> int_at ''cpu_load'' r)"

text \<open>A partition record: the name and the six counts.\<close>

definition wf_partition :: "pyobj \<Rightarrow> bool" where
  "wf_partition r = (str_in ''partition'' ''name'' r
                     \<and> list_all (\<lambda>(c, f, a). int_in c f r) partition_aggs)"

text \<open>
  A partition record on which \<^verbatim>\<open>process_partition_list\<close> builds the six sums only: one
  without the fields \<^verbatim>\<open>availability\<close> and \<^verbatim>\<open>state\<close>.
\<close>

definition wf_listed_partition :: "pyobj \<Rightarrow> bool" where
  "wf_listed_partition r = (wf_partition r \<and> \<not> has_key ''availability'' r \<and> \<not> has_key ''state'' r)"

text \<open>
  A job record as \<^verbatim>\<open>process_job_summaries\<close> reads it; no state is called like one of the
  columns the summaries add.
\<close>

definition wf_job :: "pyobj \<Rightarrow> bool" where
  "wf_job r = (str_at ''account'' r \<and> str_at ''user_name'' r \<and> strs_at ''job_state'' r
               \<and> list_all (\<lambda>s. s \<noteq> ''account'' \<and> s \<noteq> ''user_name'' \<and> s \<noteq> ''Total Jobs'')
                     (get_strs ''job_state'' r))"

text \<open>A job record as \<^verbatim>\<open>process_pending_job_waiting_times_summary\<close> reads it.\<close>

definition wf_timed_job :: "pyobj \<Rightarrow> bool" where
  "wf_timed_job r = (strs_at ''job_state'' r \<and> int_in ''eligible_time'' ''number'' r
                     \<and> int_in ''start_time'' ''number'' r)"

text \<open>
  The exploded frame of a list of job records, and the states it lists: one entry for every
  state of every job.
\<close>

definition exploded :: "pyobj list \<Rightarrow> pyobj list" where
  "exploded jobs =
     concat (map (\<lambda>r. map (\<lambda>s. set_cell ''job_state'' (JStr s) r) (get_strs ''job_state'' r)) jobs)"

definition job_states :: "pyobj list \<Rightarrow> string list" where
  "job_states jobs = concat (map (get_strs ''job_state'') jobs)"

text \<open>
  Counts that cannot overflow: none is negative and their total fits a signed 64-bit
  integer, so every partial sum does.
\<close>

definition fits_int64 :: "('a \<Rightarrow> int) \<Rightarrow> 'a list \<Rightarrow> bool" where
  "fits_int64 g xs = (list_all (\<lambda>x. 0 \<le> g x) xs \<and> sum_list (map g xs) < 2 ^ 63)"

text \<open>The sum of one count over the partition records that carry the name \<open>k\<close>.\<close>

definition raw_sum :: "string \<Rightarrow> string \<Rightarrow> string \<Rightarrow> pyobj list \<Rightarrow> int" where
  "raw_sum c f k recs =
     sum_list (map (get_field_int c f)
       (filter (\<lambda>r. get_field_str ''partition'' ''name'' r = k) recs))"

text \<open>
  The jobs that count for the waiting-time statistics, in the words of the specification:
  the state list contains PENDING, and the eligible time and the start time are both set.
  The waiting time of such a job is its start time minus its eligible time.
\<close>

definition qualifying_job :: "pyobj \<Rightarrow> bool" where
  "qualifying_job j = (''PENDING'' \<in> set (get_strs ''job_state'' j)
                       \<and> get_field_int ''eligible_time'' ''number'' j \<noteq> 0
                       \<and> get_field_int ''start_time'' ''number'' j \<noteq> 0)"

definition waits_of :: "pyobj list \<Rightarrow> int list" where
  "waits_of jobs =
     map (\<lambda>j. get_field_int ''start_time'' ''number'' j - get_field_int ''eligible_time'' ''number'' j)
         (filter qualifying_job jobs)"

text \<open>
  Waiting times on which the program's arithmetic is exact: their sizes and their number
  add up to less than \<open>2 ^ 53\<close>, so no difference wraps around and every float involved is
  the number it stands for.
\<close>

definition exact_waits :: "int list \<Rightarrow> bool" where
  "exact_waits ws = (sum_list (map abs ws) + int (length ws) < 2 ^ 53)"

section \<open>The words of the specification\<close>

text \<open>
  The notions the claims about the time formatting and the waiting-time statistics are
  stated with. None of them is used by the embedding of the program above.

  Truncation: \<open>t\<close> is \<open>x\<close> truncated to an integer when it is no larger than \<open>x\<close> in size
  and less than one away from it.
\<close>

definition truncated_to :: "rat \<Rightarrow> int \<Rightarrow> bool" where
  "truncated_to x t = (\<bar>of_int t\<bar> \<le> \<bar>x\<bar> \<and> \<bar>x - of_int t\<bar> < 1)"

text \<open>
  Decimal notation: a numeral is a non-empty row of digits without a leading zero, except
  for the numeral \<open>0\<close> itself; its value is read digit by digit from the left. A negative
  integer is written as a minus sign before the numeral of its size.
\<close>

definition is_digit :: "char \<Rightarrow> bool" where
  "is_digit c = (c \<in> set ''0123456789'')"

definition digit_value :: "char \<Rightarrow> nat" where
  "digit_value c = of_char c - of_char (CHR ''0'')"

definition decimal_value :: "string \<Rightarrow> nat" where
  "decimal_value ds = foldl (\<lambda>v c. 10 * v + digit_value c) 0 ds"

definition decimal_numeral :: "string \<Rightarrow> nat \<Rightarrow> bool" where
  "decimal_numeral ds n =
     (ds \<noteq> [] \<and> list_all is_digit ds \<and> (hd ds = CHR ''0'') = (ds = ''0'')
      \<and> decimal_value ds = n)"

definition decimal_of :: "string \<Rightarrow> int \<Rightarrow> bool" where
  "decimal_of s i =
     (0 \<le> i \<and> decimal_numeral s (nat i)
      \<or> i < 0 \<and> s \<noteq> [] \<and> hd s = CHR ''-'' \<and> decimal_numeral (tl s) (nat (- i)))"

text \<open>
  The text \<^verbatim>\<open>{days}d {hours}h {minutes}m {seconds}s\<close> for \<open>t\<close> seconds: the hours stay within
  a day, the minutes within an hour, the seconds within a minute, and the four parts make
  up \<open>t\<close>. \<open>formatted_seconds out x\<close> says that \<open>out\<close> is this text for \<open>x\<close> truncated to
  an integer.
\<close>

definition days_hours_minutes_seconds :: "string \<Rightarrow> int \<Rightarrow> bool" where
  "days_hours_minutes_seconds out t =
     (\<exists>days hours minutes seconds sd sh sm ss.
        t = 86400 * days + 3600 * hours + 60 * minutes + seconds
        \<and> 0 \<le> hours \<and> hours < 24 \<and> 0 \<le> minutes \<and> minutes < 60
        \<and> 0 \<le> seconds \<and> seconds < 60
        \<and> decimal_of sd days \<and> decimal_of sh hours \<and> decimal_of sm minutes
        \<and> decimal_of ss seconds
        \<and> out = sd @ ''d '' @ sh @ ''h '' @ sm @ ''m '' @ ss @ ''s'')"

definition formatted_seconds :: "string \<Rightarrow> rat \<Rightarrow> bool" where
  "formatted_seconds out x = (\<exists>t. truncated_to x t \<and> days_hours_minutes_seconds out t)"

text \<open>
  The median of a list of numbers is the midpoint of its two middle values. The lower middle
  value has fewer than half of the numbers below it and at least half of them at or below
  it; the upper middle value has at most half of the numbers below it and more than half of
  them at or below it. For an odd number of numbers both are the one in the middle.
\<close>

definition lower_middle :: "int list \<Rightarrow> int \<Rightarrow> bool" where
  "lower_middle ws v =
     (v \<in> set ws \<and> 2 * length (filter (\<lambda>w. w < v) ws) < length ws
      \<and> length ws \<le> 2 * length (filter (\<lambda>w. w \<le> v) ws))"

definition upper_middle :: "int list \<Rightarrow> int \<Rightarrow> bool" where
  "upper_middle ws v =
     (v \<in> set ws \<and> 2 * length (filter (\<lambda>w. w < v) ws) \<le> length ws
      \<and> length ws < 2 * length (filter (\<lambda>w. w \<le> v) ws))"

section \<open>Test data\<close>

text \<open>The mock documents of \<^verbatim>\<open>tests/test_main.py\<close>.\<close>

definition mock_partition :: "string \<Rightarrow> int \<Rightarrow> int \<Rightarrow> int \<Rightarrow> int \<Rightarrow> int \<Rightarrow> int \<Rightarrow> pyobj" where
  "mock_partition name nodes_total nodes_idle nodes_allocated cpus_total cpus_idle cpus_allocated =
     [(''partition'', JObj [(''name'', JStr name)]),
      (''nodes'', JObj [(''total'', JInt nodes_total), (''idle'', JInt nodes_idle),
                        (''allocated'', JInt nodes_allocated)]),
      (''cpus'', JObj [(''total'', JInt cpus_total), (''idle'', JInt cpus_idle),
                       (''allocated'', JInt cpus_allocated)])]"

definition MOCK_SINFO :: "pyobj list" where
  "MOCK_SINFO = [mock_partition ''debug'' 1 1 0 4 4 0, mock_partition ''normal'' 2 1 1 8 4 4]"

definition MOCK_SINFO_JSON :: json where
  "MOCK_SINFO_JSON = JObj [(''sinfo'', JList (map JObj MOCK_SINFO))]"

definition mock_job :: "string \<Rightarrow> string list \<Rightarrow> string \<Rightarrow> int \<Rightarrow> int \<Rightarrow> pyobj" where
  "mock_job account job_state user_name eligible start =
     [(''account'', JStr account), (''job_state'', JList (map JStr job_state)),
      (''user_name'', JStr user_name), (''eligible_time'', JObj [(''number'', JInt eligible)]),
      (''start_time'', JObj [(''number'', JInt start)])]"

definition MOCK_SQUEUE :: "pyobj list" where
  "MOCK_SQUEUE =
     [mock_job ''test_account_1'' [''RUNNING''] ''user1'' 1678886400 1678886400,
      mock_job ''test_account_1'' [''PENDING''] ''user1'' 1678886000 1678886400,
      mock_job ''test_account_2'' [''RUNNING''] ''user2'' 1678886400 1678886400,
      mock_job ''test_account_2'' [''PENDING''] ''user2'' 1678885000 1678886400,
      mock_job ''test_account_1'' [''COMPLETED''] ''user1'' 0 0]"

definition MOCK_SQUEUE_JSON :: json where
  "MOCK_SQUEUE_JSON = JObj [(''jobs'', JList (map JObj MOCK_SQUEUE))]"

text \<open>
  Seven jobs of which four count for the waiting-time statistics, with waiting times of
  100, 5000, 201 and 1000 seconds: one job is running, one has no eligible time and one no
  start time.
\<close>

definition EXAMPLE_JOBS :: "pyobj list" where
  "EXAMPLE_JOBS =
     [mock_job ''a'' [''PENDING''] ''u'' 1000 1100,
      mock_job ''a'' [''PENDING'', ''REQUEUED''] ''u'' 1000 6000,
      mock_job ''b'' [''RUNNING''] ''v'' 1000 9000,
      mock_job ''b'' [''PENDING''] ''v'' 0 7000,
      mock_job ''b'' [''PENDING''] ''v'' 1000 1201,
      mock_job ''c'' [''PENDING''] ''w'' 1000 0,
      mock_job ''c'' [''PENDING''] ''w'' 1000 2000]"

definition mock_node :: "int \<Rightarrow> int \<Rightarrow> int \<Rightarrow> int \<Rightarrow> string list \<Rightarrow> pyobj" where
  "mock_node cpus real_memory alloc_cpus alloc_memory state =
     [(''cpus'', JInt cpus), (''real_memory'', JInt real_memory),
      (''alloc_cpus'', JInt alloc_cpus), (''alloc_memory'', JInt alloc_memory),
      (''state'', JList (map JStr state))]"

definition MOCK_SCONTROL :: "pyobj list" where
  "MOCK_SCONTROL =
     [mock_node 4 16000 0 0 [''IDLE''],
      mock_node 8 32000 4 16000 [''ALLOCATED''],
      mock_node 4 16000 0 0 [''DRAINED''],
      mock_node 8 32000 4 16000 [''RESERVATION'', ''ALLOCATED''],
      mock_node 8 32000 2 8000 [''MIXED'']]"

definition MOCK_SCONTROL_JSON :: json where
  "MOCK_SCONTROL_JSON = JObj [(''nodes'', JList (map JObj MOCK_SCONTROL))]"

text \<open>
  Two nodes as the node list needs them: the records above do not carry a name, partitions
  or a load.
\<close>

definition listed_node :: "string \<Rightarrow> string list \<Rightarrow> json \<Rightarrow> pyobj \<Rightarrow> pyobj" where
  "listed_node name partitions cpu_load node =
     (''name'', JStr name) # node
     @ [(''partitions'', JList (map JStr partitions)), (''cpu_load'', cpu_load)]"

definition EXAMPLE_NODES :: "pyobj list" where
  "EXAMPLE_NODES =
     [listed_node ''node2'' [''normal''] (JInt 250) (mock_node 8 32000 4 16000 [''MIXED'']),
      listed_node ''node1'' [''debug'', ''normal''] (JInt 0) (mock_node 4 16000 0 0 [''IDLE''])]"

text \<open>
  The mocked process of the fetcher's tests: every command meets the same outcome, and the
  decoder knows one document.
\<close>

definition mock_process :: "int \<Rightarrow> string \<Rightarrow> string \<Rightarrow> proc" where
  "mock_process rc out err = \<lparr>returncode = rc, stdout_text = Inr out, stderr_text = Inr err\<rparr>"

definition mock_loads :: "string \<Rightarrow> error + json" where
  "mock_loads s = (if s = ''{}'' then Inr (JObj []) else Inl JSONDecodeError)"

definition mock_env :: "error + proc \<Rightarrow> env" where
  "mock_env outcome = \<lparr>run_shell = (\<lambda>command. outcome), json_loads = mock_loads\<rparr>"

section \<open>Properties of the time formatting\<close>

lemma mod_mod_3600:
  fixes t :: int
  shows "(t mod 86400) mod 3600 = t mod 3600"
  by (simp add: mod_mod_cancel)

lemma mod_mod_60:
  fixes t :: int
  shows "(t mod 3600) mod 60 = t mod 60"
  by (simp add: mod_mod_cancel)

lemma decompose_seconds:
  fixes t :: int
  shows "86400 * (t div 86400) + 3600 * ((t mod 86400) div 3600)
         + 60 * ((t mod 3600) div 60) + t mod 60 = t"
proof -
  have a: "t = 86400 * (t div 86400) + t mod 86400" by simp
  have b: "t mod 86400 = 3600 * ((t mod 86400) div 3600) + (t mod 86400) mod 3600" by simp
  have c: "t mod 3600 = 60 * ((t mod 3600) div 60) + (t mod 3600) mod 60" by simp
  from a b c show ?thesis
    unfolding mod_mod_3600 mod_mod_60 by linarith
qed

lemma hours_in_day:
  fixes t :: int
  shows "0 \<le> (t mod 86400) div 3600 \<and> (t mod 86400) div 3600 < 24"
proof -
  have "0 \<le> t mod 86400" "t mod 86400 < 86400" by simp_all
  then show ?thesis by arith
qed

lemma minutes_in_hour:
  fixes t :: int
  shows "0 \<le> (t mod 3600) div 60 \<and> (t mod 3600) div 60 < 60"
proof -
  have "0 \<le> t mod 3600" "t mod 3600 < 3600" by simp_all
  then show ?thesis by arith
qed

text \<open>
  The formatted text has the shape the specification asks for, and nothing else has.
\<close>

lemma py_int_truncated: "truncated_to x (py_int x)"
proof (cases "0 \<le> x")
  case True
  then have "0 \<le> \<lfloor>x\<rfloor>" by simp
  moreover have "of_int \<lfloor>x\<rfloor> \<le> x" "x - of_int \<lfloor>x\<rfloor> < 1" by linarith+
  ultimately show ?thesis
    using True by (simp add: truncated_to_def py_int_def)
next
  case False
  then have "\<lceil>x\<rceil> \<le> 0" by (simp add: ceiling_le_zero)
  moreover have "x \<le> of_int \<lceil>x\<rceil>" "of_int \<lceil>x\<rceil> - x < 1" by linarith+
  ultimately show ?thesis
    using False by (simp add: truncated_to_def py_int_def)
qed

lemma truncated_to_unique:
  assumes "truncated_to x t" and "truncated_to x u"
  shows "t = u"
proof -
  have "\<bar>(of_int t :: rat) - of_int u\<bar> < 1" if "truncated_to x t" "truncated_to x u" for t u
  proof (cases "0 \<le> x")
    case True
    with that have "(of_int t :: rat) \<le> x" "x < of_int t + 1" "(of_int u :: rat) \<le> x" "x < of_int u + 1"
      by (auto simp: truncated_to_def abs_if split: if_splits)
    then show ?thesis by linarith
  next
    case False
    with that have "x \<le> (of_int t :: rat)" "of_int t - 1 < x" "x \<le> (of_int u :: rat)" "of_int u - 1 < x"
      by (auto simp: truncated_to_def abs_if split: if_splits)
    then show ?thesis by linarith
  qed
  from this [OF assms] have "\<bar>(of_int (t - u) :: rat)\<bar> < 1" by simp
  then have "\<bar>t - u\<bar> < 1"
    by (metis of_int_abs of_int_less_1_iff)
  then show ?thesis by simp
qed

lemma digit_chars:
  "\<forall>n \<in> set [0..<10]. is_digit (digit_char n) \<and> digit_value (digit_char n) = n
      \<and> (digit_char n = CHR ''0'') = (n = 0)"
  by code_simp

lemma digit_char_props:
  assumes "n < 10"
  shows "is_digit (digit_char n)" and "digit_value (digit_char n) = n"
    and "(digit_char n = CHR ''0'') = (n = 0)"
  using digit_chars assms by auto

lemma decimal_value_snoc:
  "decimal_value (ds @ [c]) = 10 * decimal_value ds + digit_value c"
  by (simp add: decimal_value_def)

lemma str_nat_props:
  "str_nat n \<noteq> [] \<and> list_all is_digit (str_nat n) \<and> decimal_value (str_nat n) = n
     \<and> (hd (str_nat n) = CHR ''0'') = (n = 0)"
proof (induction n rule: str_nat.induct)
  case (1 n)
  show ?case
  proof (cases "n < 10")
    case True
    then have "str_nat n = [digit_char n]"
      by (simp add: str_nat.simps)
    with True show ?thesis
      by (simp add: digit_char_props decimal_value_def)
  next
    case False
    then have eq: "str_nat n = str_nat (n div 10) @ [digit_char (n mod 10)]"
      by (subst str_nat.simps) simp
    from False have nz: "n div 10 \<noteq> 0" by simp
    from 1 [OF False] nz have ih: "str_nat (n div 10) \<noteq> []"
      "list_all is_digit (str_nat (n div 10))" "decimal_value (str_nat (n div 10)) = n div 10"
      "hd (str_nat (n div 10)) \<noteq> CHR ''0''"
      by simp_all
    have "n mod 10 < 10" by simp
    note d = digit_char_props [OF this]
    from False have "n \<noteq> 0" by simp
    with ih d show ?thesis
      unfolding eq by (simp add: decimal_value_snoc)
  qed
qed

lemma str_nat_numeral: "decimal_numeral (str_nat n) n"
proof -
  note p = str_nat_props [of n]
  have "(hd (str_nat n) = CHR ''0'') = (str_nat n = ''0'')"
  proof
    assume "hd (str_nat n) = CHR ''0''"
    with p have "n = 0" by simp
    then show "str_nat n = ''0''" by (simp add: str_nat.simps digit_char_def)
  next
    assume "str_nat n = ''0''"
    then show "hd (str_nat n) = CHR ''0''" by simp
  qed
  with p show ?thesis by (simp add: decimal_numeral_def)
qed

lemma str_int_decimal: "decimal_of (str_int i) i"
  by (simp add: decimal_of_def str_int_def str_nat_numeral)

lemma format_seconds_formatted:
  "formatted_seconds (format_seconds_to_human_readable (Some x)) x"
proof -
  define t where "t = py_int x"
  have shape: "format_seconds_to_human_readable (Some x) =
       str_int (t div 86400) @ ''d '' @ str_int ((t mod 86400) div 3600) @ ''h ''
       @ str_int ((t mod 3600) div 60) @ ''m '' @ str_int (t mod 60) @ ''s''"
    by (simp add: format_seconds_to_human_readable_def Let_def mod_mod_cancel t_def)
  have total: "t = 86400 * (t div 86400) + 3600 * ((t mod 86400) div 3600)
       + 60 * ((t mod 3600) div 60) + t mod 60"
    using decompose_seconds [of t] by simp
  have "days_hours_minutes_seconds (format_seconds_to_human_readable (Some x)) t"
    unfolding days_hours_minutes_seconds_def
  proof (intro exI conjI)
    show "t = 86400 * (t div 86400) + 3600 * ((t mod 86400) div 3600)
            + 60 * ((t mod 3600) div 60) + t mod 60"
      by (rule total)
    show "0 \<le> (t mod 86400) div 3600" "(t mod 86400) div 3600 < 24"
      using hours_in_day [of t] by simp_all
    show "0 \<le> (t mod 3600) div 60" "(t mod 3600) div 60 < 60"
      using minutes_in_hour [of t] by simp_all
    show "0 \<le> t mod 60" "t mod 60 < 60"
      by simp_all
    show "decimal_of (str_int (t div 86400)) (t div 86400)"
      "decimal_of (str_int ((t mod 86400) div 3600)) ((t mod 86400) div 3600)"
      "decimal_of (str_int ((t mod 3600) div 60)) ((t mod 3600) div 60)"
      "decimal_of (str_int (t mod 60)) (t mod 60)"
      by (rule str_int_decimal)+
    show "format_seconds_to_human_readable (Some x) =
       str_int (t div 86400) @ ''d '' @ str_int ((t mod 86400) div 3600) @ ''h ''
       @ str_int ((t mod 3600) div 60) @ ''m '' @ str_int (t mod 60) @ ''s''"
      by (rule shape)
  qed
  moreover have "truncated_to x t"
    unfolding t_def by (rule py_int_truncated)
  ultimately show ?thesis
    unfolding formatted_seconds_def by blast
qed

lemma digit_round_trip:
  "\<forall>c \<in> set ''0123456789''. digit_value c < 10 \<and> digit_char (digit_value c) = c"
  by code_simp

lemma is_digit_props:
  assumes "is_digit c"
  shows "digit_value c < 10" and "digit_char (digit_value c) = c"
  using digit_round_trip assms unfolding is_digit_def by blast+

lemma decimal_numeral_str_nat:
  assumes "decimal_numeral s n"
  shows "s = str_nat n"
  using assms
proof (induction s arbitrary: n rule: rev_induct)
  case Nil
  then show ?case by (simp add: decimal_numeral_def)
next
  case (snoc c ds)
  from snoc.prems have c: "is_digit c" and all: "list_all is_digit ds"
    and n: "n = 10 * decimal_value ds + digit_value c"
    and canon: "(hd (ds @ [c]) = CHR ''0'') = (ds @ [c] = ''0'')"
    by (simp_all add: decimal_numeral_def decimal_value_snoc)
  note d = is_digit_props [OF c]
  show ?case
  proof (cases "ds = []")
    case True
    with n d show ?thesis
      by (simp add: decimal_value_def str_nat.simps)
  next
    case False
    with canon have hd: "hd ds \<noteq> CHR ''0''"
      by auto
    then have "ds \<noteq> ''0''" by auto
    with False all hd have "decimal_numeral ds (decimal_value ds)"
      by (simp add: decimal_numeral_def)
    then have ds: "ds = str_nat (decimal_value ds)"
      by (rule snoc.IH)
    have "decimal_value ds \<noteq> 0"
    proof
      assume "decimal_value ds = 0"
      with ds have "ds = ''0''"
        by (simp add: str_nat.simps digit_char_def)
      with hd show False by simp
    qed
    with n d(1) have "\<not> n < 10" "n div 10 = decimal_value ds" "n mod 10 = digit_value c"
      by simp_all
    then have "str_nat n = str_nat (decimal_value ds) @ [digit_char (digit_value c)]"
      by (subst str_nat.simps) simp
    with ds d(2) show ?thesis by simp
  qed
qed

lemma decimal_of_str_int:
  assumes "decimal_of s i"
  shows "s = str_int i"
proof (cases "0 \<le> i")
  case True
  with assms have "decimal_numeral s (nat i)"
    by (auto simp: decimal_of_def)
  then have "s = str_nat (nat i)"
    by (rule decimal_numeral_str_nat)
  with True show ?thesis
    by (simp add: str_int_def)
next
  case False
  with assms have s: "s \<noteq> []" "hd s = CHR ''-''" and "decimal_numeral (tl s) (nat (- i))"
    by (auto simp: decimal_of_def)
  then have "tl s = str_nat (nat (- i))"
    by (simp add: decimal_numeral_str_nat)
  with s have "s = CHR ''-'' # str_nat (nat (- i))"
    by (cases s) simp_all
  with False show ?thesis
    by (simp add: str_int_def)
qed

lemma mixed_radix_unique:
  fixes t :: int
  assumes "t = 86400 * d + 3600 * h + 60 * m + s"
    and "0 \<le> h" "h < 24" "0 \<le> m" "m < 60" "0 \<le> s" "s < 60"
  shows "d = t div 86400" and "h = (t mod 86400) div 3600" and "m = (t mod 3600) div 60"
    and "s = t mod 60"
proof -
  define r where "r = 3600 * h + 60 * m + s"
  have r: "0 \<le> r" "r < 86400" and t: "t = d * 86400 + r"
    using assms by (simp_all add: r_def)
  from r show d: "d = t div 86400"
    unfolding t by simp
  from r have tm: "t mod 86400 = r"
    unfolding t by simp
  define q where "q = 60 * m + s"
  have q: "0 \<le> q" "q < 3600" and rq: "r = h * 3600 + q"
    using assms by (simp_all add: r_def q_def)
  from q show "h = (t mod 86400) div 3600"
    unfolding tm rq by simp
  have "t mod 3600 = (t mod 86400) mod 3600"
    by (simp add: mod_mod_cancel)
  also from q have "\<dots> = q"
    unfolding tm rq by simp
  finally have t3: "t mod 3600 = q" .
  have qs: "q = m * 60 + s" by (simp add: q_def)
  from assms show "m = (t mod 3600) div 60"
    unfolding t3 qs by simp
  have "t mod 60 = (t mod 3600) mod 60"
    by (simp add: mod_mod_cancel)
  also from assms have "\<dots> = s"
    unfolding t3 qs by simp
  finally show "s = t mod 60" by simp
qed

lemma formatted_seconds_iff:
  "formatted_seconds out x \<longleftrightarrow> out = format_seconds_to_human_readable (Some x)"
proof
  assume "formatted_seconds out x"
  then obtain t d h m s sd sh sm ss where tr: "truncated_to x t"
    and t: "t = 86400 * d + 3600 * h + 60 * m + s"
    and b: "0 \<le> h" "h < 24" "0 \<le> m" "m < 60" "0 \<le> s" "s < 60"
    and dec: "decimal_of sd d" "decimal_of sh h" "decimal_of sm m" "decimal_of ss s"
    and out: "out = sd @ ''d '' @ sh @ ''h '' @ sm @ ''m '' @ ss @ ''s''"
    unfolding formatted_seconds_def days_hours_minutes_seconds_def by blast
  from tr have tp: "t = py_int x"
    using py_int_truncated by (rule truncated_to_unique)
  note mr = mixed_radix_unique [OF t b]
  have "out = str_int (t div 86400) @ ''d '' @ str_int ((t mod 86400) div 3600) @ ''h ''
       @ str_int ((t mod 3600) div 60) @ ''m '' @ str_int (t mod 60) @ ''s''"
    unfolding out decimal_of_str_int [OF dec(1)] decimal_of_str_int [OF dec(2)]
      decimal_of_str_int [OF dec(3)] decimal_of_str_int [OF dec(4)]
    using mr by simp
  then show "out = format_seconds_to_human_readable (Some x)"
    by (simp add: format_seconds_to_human_readable_def Let_def mod_mod_cancel tp)
next
  assume "out = format_seconds_to_human_readable (Some x)"
  then show "formatted_seconds out x"
    by (simp add: format_seconds_formatted)
qed

text \<open>
  C8. \<open>format_seconds_to_human_readable\<close> gives \<open>N/A\<close> for \<^verbatim>\<open>None\<close>. For a number \<open>x\<close> it
  gives the text \<^verbatim>\<open>{days}d {hours}h {minutes}m {seconds}s\<close> of \<open>x\<close> truncated to an integer
  \<open>t\<close>: \<open>t\<close> is no larger than \<open>x\<close> in size and less than one away from it, the four
  parts are written as decimal numerals, hours, minutes and seconds stay within a day, an
  hour and a minute, and the parts make up \<open>t\<close>, which is what successive integer division
  by 86400, 3600 and 60 yields. It maps 0, 60, 3600, 86400 and 90061 to the five strings of
  the specification; 59.9 is cut to 59 seconds, \<open>-0.5\<close> to none, and \<open>-1.5\<close> to minus one
  second, which is one second before the end of day \<open>-1\<close>.
\<close>

theorem format_seconds_decomposition:
  "format_seconds_to_human_readable None = ''N/A''
   \<and> formatted_seconds (format_seconds_to_human_readable (Some x)) x
   \<and> format_seconds_to_human_readable (Some 0) = ''0d 0h 0m 0s''
   \<and> format_seconds_to_human_readable (Some 60) = ''0d 0h 1m 0s''
   \<and> format_seconds_to_human_readable (Some 3600) = ''0d 1h 0m 0s''
   \<and> format_seconds_to_human_readable (Some 86400) = ''1d 0h 0m 0s''
   \<and> format_seconds_to_human_readable (Some 90061) = ''1d 1h 1m 1s''
   \<and> format_seconds_to_human_readable (Some (599 / 10)) = ''0d 0h 0m 59s''
   \<and> format_seconds_to_human_readable (Some (- 3 / 2)) = ''-1d 23h 59m 59s''
   \<and> format_seconds_to_human_readable (Some (- 1 / 2)) = ''0d 0h 0m 0s''
   \<and> format_seconds_to_human_readable (Some (58743189 / 10)) = ''67d 23h 45m 18s''"
proof -
  have none: "format_seconds_to_human_readable None = ''N/A''"
    by (simp add: format_seconds_to_human_readable_def)
  have general: "formatted_seconds (format_seconds_to_human_readable (Some x)) x"
    by (rule format_seconds_formatted)
  have e0: "format_seconds_to_human_readable (Some 0) = ''0d 0h 0m 0s''"
    by code_simp
  have e1: "format_seconds_to_human_readable (Some 60) = ''0d 0h 1m 0s''"
    by code_simp
  have e2: "format_seconds_to_human_readable (Some 3600) = ''0d 1h 0m 0s''"
    by code_simp
  have e3: "format_seconds_to_human_readable (Some 86400) = ''1d 0h 0m 0s''"
    by code_simp
  have e4: "format_seconds_to_human_readable (Some 90061) = ''1d 1h 1m 1s''"
    by code_simp
  have e5: "format_seconds_to_human_readable (Some (599 / 10)) = ''0d 0h 0m 59s''"
    by code_simp
  have e6: "format_seconds_to_human_readable (Some (- 3 / 2)) = ''-1d 23h 59m 59s''"
    by code_simp
  have e7: "format_seconds_to_human_readable (Some (- 1 / 2)) = ''0d 0h 0m 0s''"
    by code_simp
  have e8: "format_seconds_to_human_readable (Some (58743189 / 10)) = ''67d 23h 45m 18s''"
    by code_simp
  from none general e0 e1 e2 e3 e4 e5 e6 e7 e8 show ?thesis
    by blast
qed

section \<open>Properties of the fetcher\<close>

lemma bindE_Inr [simp]: "bindE (Inr x) f = f x"
  by (simp add: bindE_def)

lemma bindE_Inl [simp]: "bindE (Inl e) f = Inl e"
  by (simp add: bindE_def)

lemma get_slurm_data_caught:
  assumes "py_split command \<noteq> []" and "snd (fetch_body e command) = Inl ex" and "is_Exception ex"
  shows "snd (get_slurm_data e command) = Inr JNull"
proof -
  obtain printed where fb: "fetch_body e command = (printed, Inl ex)"
    using assms(2) by (cases "fetch_body e command") auto
  obtain w ws where sp: "py_split command = w # ws"
    using assms(1) by (cases "py_split command") auto
  show ?thesis
    using assms(3) by (simp add: get_slurm_data_def fb sp)
qed

lemma get_slurm_data_uncaught:
  assumes "snd (fetch_body e command) = Inl ex" and "\<not> is_Exception ex"
  shows "snd (get_slurm_data e command) = Inl ex"
proof -
  obtain printed where fb: "fetch_body e command = (printed, Inl ex)"
    using assms(1) by (cases "fetch_body e command") auto
  from assms(2) have "ex = CancelledError"
    by (cases ex) simp_all
  then show ?thesis
    by (simp add: get_slurm_data_def fb)
qed

lemma get_slurm_data_passes:
  assumes "snd (fetch_body e command) = Inr v"
  shows "snd (get_slurm_data e command) = Inr v"
proof -
  obtain printed where fb: "fetch_body e command = (printed, Inr v)"
    using assms by (cases "fetch_body e command") auto
  show ?thesis by (simp add: get_slurm_data_def fb)
qed

lemma get_slurm_data_value:
  assumes "snd (get_slurm_data e command) = Inr v" and "v \<noteq> JNull"
  shows "snd (fetch_body e command) = Inr v"
proof -
  obtain printed r where fb: "fetch_body e command = (printed, r)"
    by (cases "fetch_body e command") auto
  show ?thesis
    using assms by (cases r) (auto simp: get_slurm_data_def fb split: if_splits list.splits)
qed

lemma fetch_body_value:
  assumes "snd (fetch_body e command) = Inr v" and "v \<noteq> JNull"
  shows "\<exists>p out. run_shell e command = Inr p \<and> returncode p = 0 \<and> stdout_text p = Inr out
           \<and> json_loads e (strip out) = Inr v"
  using assms by (auto simp: fetch_body_def split: sum.splits if_splits)

text \<open>
  C9, as the code has it. The fetcher does let exceptions through: the clause
  \<^verbatim>\<open>except Exception\<close> does not catch what is not an \<^verbatim>\<open>Exception\<close>, such as the
  \<^verbatim>\<open>CancelledError\<close> of a cancelled fetch. What holds for a command with at least one word:
  \<open>get_slurm_data\<close> returns \<^verbatim>\<open>None\<close> on a non-zero exit status, when the executable is not
  found, when the output is not JSON, and on any other \<^verbatim>\<open>Exception\<close> raised while the command
  is run and its output decoded; an exception that is not an \<^verbatim>\<open>Exception\<close> reaches the
  caller; on exit status zero with decodable output the decoded value is returned, and a
  value other than \<^verbatim>\<open>None\<close> is only ever returned in that case.
\<close>

theorem get_slurm_data_returns:
  assumes "py_split command \<noteq> []"
  shows "(run_shell e command = Inr p \<and> returncode p \<noteq> 0 \<and> stderr_text p = Inr err
            \<longrightarrow> snd (get_slurm_data e command) = Inr JNull)
       \<and> (run_shell e command = Inl FileNotFoundError
            \<longrightarrow> snd (get_slurm_data e command) = Inr JNull)
       \<and> (run_shell e command = Inr p \<and> returncode p = 0 \<and> stdout_text p = Inr out
            \<and> json_loads e (strip out) = Inl JSONDecodeError
            \<longrightarrow> snd (get_slurm_data e command) = Inr JNull)
       \<and> (snd (fetch_body e command) = Inl ex \<and> is_Exception ex
            \<longrightarrow> snd (get_slurm_data e command) = Inr JNull)
       \<and> (snd (fetch_body e command) = Inl ex \<and> \<not> is_Exception ex
            \<longrightarrow> snd (get_slurm_data e command) = Inl ex)
       \<and> (run_shell e command = Inr p \<and> returncode p = 0 \<and> stdout_text p = Inr out
            \<and> json_loads e (strip out) = Inr v
            \<longrightarrow> snd (get_slurm_data e command) = Inr v)
       \<and> (snd (get_slurm_data e command) = Inr v \<and> v \<noteq> JNull
            \<longrightarrow> (\<exists>q txt. run_shell e command = Inr q \<and> returncode q = 0
                   \<and> stdout_text q = Inr txt \<and> json_loads e (strip txt) = Inr v))"
proof (intro conjI impI)
  assume "run_shell e command = Inr p \<and> returncode p \<noteq> 0 \<and> stderr_text p = Inr err"
  then have "snd (fetch_body e command) = Inr JNull"
    by (simp add: fetch_body_def)
  then show "snd (get_slurm_data e command) = Inr JNull"
    by (rule get_slurm_data_passes)
next
  assume "run_shell e command = Inl FileNotFoundError"
  then have "snd (fetch_body e command) = Inl FileNotFoundError"
    by (simp add: fetch_body_def)
  with assms show "snd (get_slurm_data e command) = Inr JNull"
    by (simp add: get_slurm_data_caught)
next
  assume "run_shell e command = Inr p \<and> returncode p = 0 \<and> stdout_text p = Inr out
            \<and> json_loads e (strip out) = Inl JSONDecodeError"
  then have "snd (fetch_body e command) = Inl JSONDecodeError"
    by (simp add: fetch_body_def)
  with assms show "snd (get_slurm_data e command) = Inr JNull"
    by (simp add: get_slurm_data_caught)
next
  assume "snd (fetch_body e command) = Inl ex \<and> is_Exception ex"
  with assms show "snd (get_slurm_data e command) = Inr JNull"
    by (simp add: get_slurm_data_caught)
next
  assume "snd (fetch_body e command) = Inl ex \<and> \<not> is_Exception ex"
  then show "snd (get_slurm_data e command) = Inl ex"
    by (simp add: get_slurm_data_uncaught)
next
  assume "run_shell e command = Inr p \<and> returncode p = 0 \<and> stdout_text p = Inr out
            \<and> json_loads e (strip out) = Inr v"
  then have "snd (fetch_body e command) = Inr v"
    by (simp add: fetch_body_def)
  then show "snd (get_slurm_data e command) = Inr v"
    by (rule get_slurm_data_passes)
next
  assume a: "snd (get_slurm_data e command) = Inr v \<and> v \<noteq> JNull"
  then have "snd (fetch_body e command) = Inr v"
    by (simp add: get_slurm_data_value)
  with a show "\<exists>q txt. run_shell e command = Inr q \<and> returncode q = 0
                   \<and> stdout_text q = Inr txt \<and> json_loads e (strip txt) = Inr v"
    by (blast dest: fetch_body_value)
qed

lemma py_split_sinfo: "py_split ''sinfo --json'' = [''sinfo'', ''--json'']"
  by (simp add: py_split_def isspace_def)
lemma py_split_squeue: "py_split ''squeue --json'' = [''squeue'', ''--json'']"
  by (simp add: py_split_def isspace_def)
lemma py_split_scontrol: "py_split ''scontrol show nodes --json'' = [''scontrol'', ''show'', ''nodes'', ''--json'']"
  by (simp add: py_split_def isspace_def)

theorem get_slurm_data_returns_witness:
  "py_split ''sinfo --json'' \<noteq> []
   \<and> snd (get_slurm_data (mock_env (Inr (mock_process 1 [] ''Slurm error message'')))
          ''sinfo --json'') = Inr JNull
   \<and> snd (get_slurm_data (mock_env (Inl FileNotFoundError)) ''sinfo --json'') = Inr JNull
   \<and> snd (get_slurm_data (mock_env (Inr (mock_process 0 ''invalid json'' [])))
          ''sinfo --json'') = Inr JNull
   \<and> snd (get_slurm_data (mock_env (Inl (OtherException ''boom''))) ''sinfo --json'') = Inr JNull
   \<and> snd (get_slurm_data (mock_env (Inl CancelledError)) ''sinfo --json'') = Inl CancelledError
   \<and> snd (get_slurm_data (mock_env (Inr (mock_process 0 ''{}'' []))) ''sinfo --json'')
       = Inr (JObj [])
   \<and> strip (CHR 0xA0 # ''{}'' @ [CHR 0x85, CHR 0x0A]) = ''{}''
   \<and> snd (get_slurm_data
            (mock_env (Inr (mock_process 0 (CHR 0xA0 # ''{}'' @ [CHR 0x85, CHR 0x0A]) [])))
            ''sinfo --json'') = Inr (JObj [])"
proof -
  have w: "py_split ''sinfo --json'' \<noteq> []"
    by (simp add: py_split_sinfo)
  have s3: "strip (CHR 0xA0 # ''{}'' @ [CHR 0x85, CHR 0x0A]) = ''{}''"
    by (simp add: strip_def isspace_def)
  have g: "snd (get_slurm_data
            (mock_env (Inr (mock_process 0 (CHR 0xA0 # ''{}'' @ [CHR 0x85, CHR 0x0A]) [])))
            ''sinfo --json'') = Inr (JObj [])"
    using get_slurm_data_returns [OF w,
        where e = "mock_env (Inr (mock_process 0 (CHR 0xA0 # ''{}'' @ [CHR 0x85, CHR 0x0A]) []))"
          and p = "mock_process 0 (CHR 0xA0 # ''{}'' @ [CHR 0x85, CHR 0x0A]) []"
          and out = "CHR 0xA0 # ''{}'' @ [CHR 0x85, CHR 0x0A]" and v = "JObj []"]
    unfolding s3 by (simp add: mock_env_def mock_process_def mock_loads_def)
  have s1: "strip ''invalid json'' = ''invalid json''"
    by (simp add: strip_def isspace_def)
  have s2: "strip ''{}'' = ''{}''"
    by (simp add: strip_def isspace_def)
  have a: "snd (get_slurm_data (mock_env (Inr (mock_process 1 [] ''Slurm error message'')))
          ''sinfo --json'') = Inr JNull"
    using get_slurm_data_returns [OF w,
        where e = "mock_env (Inr (mock_process 1 [] ''Slurm error message''))"
          and p = "mock_process 1 [] ''Slurm error message''" and err = "''Slurm error message''"]
    by (simp add: mock_env_def mock_process_def)
  have b: "snd (get_slurm_data (mock_env (Inl FileNotFoundError)) ''sinfo --json'') = Inr JNull"
    using get_slurm_data_returns [OF w, where e = "mock_env (Inl FileNotFoundError)"]
    by (simp add: mock_env_def)
  have c: "snd (get_slurm_data (mock_env (Inr (mock_process 0 ''invalid json'' [])))
          ''sinfo --json'') = Inr JNull"
    using get_slurm_data_returns [OF w,
        where e = "mock_env (Inr (mock_process 0 ''invalid json'' []))"
          and p = "mock_process 0 ''invalid json'' []" and out = "''invalid json''"]
    by (simp add: mock_env_def mock_process_def mock_loads_def s1)
  have d: "snd (get_slurm_data (mock_env (Inl (OtherException ''boom''))) ''sinfo --json'')
           = Inr JNull"
    using get_slurm_data_returns [OF w, where e = "mock_env (Inl (OtherException ''boom''))"
          and ex = "OtherException ''boom''"]
    by (simp add: mock_env_def fetch_body_def)
  have x: "snd (get_slurm_data (mock_env (Inl CancelledError)) ''sinfo --json'')
           = Inl CancelledError"
    using get_slurm_data_returns [OF w, where e = "mock_env (Inl CancelledError)"
          and ex = CancelledError]
    by (simp add: mock_env_def fetch_body_def)
  have e: "snd (get_slurm_data (mock_env (Inr (mock_process 0 ''{}'' []))) ''sinfo --json'')
           = Inr (JObj [])"
    using get_slurm_data_returns [OF w,
        where e = "mock_env (Inr (mock_process 0 ''{}'' []))"
          and p = "mock_process 0 ''{}'' []" and out = "''{}''" and v = "JObj []"]
    by (simp add: mock_env_def mock_process_def mock_loads_def s2)
  from w a b c d x e s3 g show ?thesis by simp
qed

theorem get_slurm_data_cancelled_counterexample:
  "snd (get_slurm_data (mock_env (Inl CancelledError)) ''sinfo --json'') = Inl CancelledError"
  by (simp add: get_slurm_data_def fetch_body_def mock_env_def)

text \<open>
  A command without any word, such as the empty one or one made of no-break spaces, has no
  first word to report: when it is not found, the handler itself raises \<^verbatim>\<open>IndexError\<close>.
\<close>

lemma get_slurm_data_blank_command:
  assumes "py_split command = []" and "run_shell e command = Inl FileNotFoundError"
  shows "snd (get_slurm_data e command) = Inl IndexError"
  using assms by (simp add: get_slurm_data_def fetch_body_def)

lemma blank_commands: "py_split [] = [] \<and> py_split [CHR 0xA0, CHR '' '', CHR 0x85] = []"
  by (simp add: py_split_def isspace_def)

lemma get_slurm_data_fixed_command:
  assumes "py_split command \<noteq> []"
    and "snd (get_slurm_data e command) = Inl ex"
  shows "\<not> is_Exception ex \<and> snd (fetch_body e command) = Inl ex"
proof -
  obtain printed r where fb: "fetch_body e command = (printed, r)"
    by (cases "fetch_body e command") auto
  obtain w ws where sp: "py_split command = w # ws"
    using assms(1) by (cases "py_split command") auto
  show ?thesis
    using assms(2) by (cases r) (auto simp: get_slurm_data_def fb sp split: if_splits)
qed

lemma get_all_slurm_data_shape:
  assumes "snd (get_all_slurm_data e) = Inr d"
  shows "\<exists>r0 r1 r2. d = JObj [(''sinfo'', r0), (''squeue'', r1), (''scontrol'', r2)]
           \<and> snd (get_slurm_data e ''sinfo --json'') = Inr r0
           \<and> snd (get_slurm_data e ''squeue --json'') = Inr r1
           \<and> snd (get_slurm_data e ''scontrol show nodes --json'') = Inr r2"
  using assms
  by (auto simp: get_all_slurm_data_def bindE_def split: prod.splits sum.splits)

lemma get_all_slurm_data_total:
  assumes "\<forall>c ex. snd (fetch_body e c) = Inl ex \<longrightarrow> is_Exception ex"
  shows "\<exists>d. snd (get_all_slurm_data e) = Inr d"
proof -
  have ok: "\<exists>r. snd (get_slurm_data e c) = Inr r" if "py_split c \<noteq> []" for c
  proof (cases "snd (get_slurm_data e c)")
    case (Inl ex)
    with that have "\<not> is_Exception ex \<and> snd (fetch_body e c) = Inl ex"
      by (rule get_slurm_data_fixed_command)
    with assms show ?thesis by blast
  next
    case (Inr r)
    then show ?thesis by blast
  qed
  obtain r0 where r0: "snd (get_slurm_data e ''sinfo --json'') = Inr r0"
    using ok [of "''sinfo --json''"] by (auto simp: py_split_sinfo)
  obtain r1 where r1: "snd (get_slurm_data e ''squeue --json'') = Inr r1"
    using ok [of "''squeue --json''"] by (auto simp: py_split_squeue)
  obtain r2 where r2: "snd (get_slurm_data e ''scontrol show nodes --json'') = Inr r2"
    using ok [of "''scontrol show nodes --json''"] by (auto simp: py_split_scontrol)
  show ?thesis
    using r0 r1 r2 by (auto simp: get_all_slurm_data_def split: prod.splits)
qed

text \<open>
  C10. Whatever \<open>get_all_slurm_data\<close> returns is a dictionary with exactly the keys
  \<^verbatim>\<open>sinfo\<close>, \<^verbatim>\<open>squeue\<close> and \<^verbatim>\<open>scontrol\<close>, in this order, each bound to the result of its
  fetch; \<^verbatim>\<open>current_time\<close> is not a key of it, so the lookup \<^verbatim>\<open>all_data["current_time"]\<close> of
  the home view raises \<^verbatim>\<open>KeyError\<close>. The function does return whenever the fetches raise
  nothing but \<^verbatim>\<open>Exception\<close>s.
\<close>

theorem get_all_slurm_data_keys:
  "(snd (get_all_slurm_data e) = Inr d \<longrightarrow>
      (\<exists>r0 r1 r2. d = JObj [(''sinfo'', r0), (''squeue'', r1), (''scontrol'', r2)]
           \<and> snd (get_slurm_data e ''sinfo --json'') = Inr r0
           \<and> snd (get_slurm_data e ''squeue --json'') = Inr r1
           \<and> snd (get_slurm_data e ''scontrol show nodes --json'') = Inr r2)
      \<and> py_in ''current_time'' d = Inr False
      \<and> py_getitem d ''current_time'' = Inl (KeyError ''current_time''))
   \<and> ((\<forall>c ex. snd (fetch_body e c) = Inl ex \<longrightarrow> is_Exception ex)
        \<longrightarrow> (\<exists>m. snd (get_all_slurm_data e) = Inr m))"
proof (intro conjI impI)
  assume a: "snd (get_all_slurm_data e) = Inr d"
  then obtain r0 r1 r2 where d: "d = JObj [(''sinfo'', r0), (''squeue'', r1), (''scontrol'', r2)]"
    and r: "snd (get_slurm_data e ''sinfo --json'') = Inr r0"
           "snd (get_slurm_data e ''squeue --json'') = Inr r1"
           "snd (get_slurm_data e ''scontrol show nodes --json'') = Inr r2"
    using get_all_slurm_data_shape by blast
  from d r show "\<exists>r0 r1 r2. d = JObj [(''sinfo'', r0), (''squeue'', r1), (''scontrol'', r2)]
           \<and> snd (get_slurm_data e ''sinfo --json'') = Inr r0
           \<and> snd (get_slurm_data e ''squeue --json'') = Inr r1
           \<and> snd (get_slurm_data e ''scontrol show nodes --json'') = Inr r2"
    by blast
  from d show "py_in ''current_time'' d = Inr False" by simp
  from d show "py_getitem d ''current_time'' = Inl (KeyError ''current_time'')" by simp
next
  assume "\<forall>c ex. snd (fetch_body e c) = Inl ex \<longrightarrow> is_Exception ex"
  then show "\<exists>m. snd (get_all_slurm_data e) = Inr m"
    by (rule get_all_slurm_data_total)
qed

theorem get_all_slurm_data_keys_witness:
  "snd (get_all_slurm_data (mock_env (Inl FileNotFoundError)))
     = Inr (JObj [(''sinfo'', JNull), (''squeue'', JNull), (''scontrol'', JNull)])
   \<and> py_in ''current_time'' (JObj [(''sinfo'', JNull), (''squeue'', JNull), (''scontrol'', JNull)])
       = Inr False
   \<and> py_getitem (JObj [(''sinfo'', JNull), (''squeue'', JNull), (''scontrol'', JNull)])
         ''current_time'' = Inl (KeyError ''current_time'')"
proof -
  have f: "get_slurm_data (mock_env (Inl FileNotFoundError)) c
           = (case py_split c of [] \<Rightarrow> ([], Inl IndexError)
              | w # ws \<Rightarrow> ([CommandNotFound w], Inr JNull))" for c
    by (simp add: get_slurm_data_def fetch_body_def mock_env_def split: list.splits)
  have r: "snd (get_all_slurm_data (mock_env (Inl FileNotFoundError)))
     = Inr (JObj [(''sinfo'', JNull), (''squeue'', JNull), (''scontrol'', JNull)])"
    by (simp add: get_all_slurm_data_def f py_split_sinfo py_split_squeue py_split_scontrol)
  with get_all_slurm_data_keys [of "mock_env (Inl FileNotFoundError)"
      "JObj [(''sinfo'', JNull), (''squeue'', JNull), (''scontrol'', JNull)]"]
  show ?thesis by blast
qed

section \<open>Job summaries without jobs\<close>

text \<open>
  C7. When the queue document is \<^verbatim>\<open>None\<close>, a dictionary without the key \<^verbatim>\<open>jobs\<close>, or a
  dictionary whose job list is empty, \<open>process_job_summaries\<close> returns two tables without
  rows whose columns are \<^verbatim>\<open>account\<close> (respectively \<^verbatim>\<open>user_name\<close>), \<^verbatim>\<open>Total Jobs\<close>,
  \<^verbatim>\<open>RUNNING\<close>, \<^verbatim>\<open>PENDING\<close> and \<^verbatim>\<open>COMPLETED\<close>.
\<close>

theorem process_job_summaries_no_jobs:
  assumes "squeue_data = JNull
           \<or> squeue_data = JObj doc \<and> (map_of doc ''jobs'' = None \<or> map_of doc ''jobs'' = Some (JList []))"
  shows "process_job_summaries ord squeue_data =
           Inr (\<lparr>columns = [''account'', ''Total Jobs'', ''RUNNING'', ''PENDING'', ''COMPLETED''],
                 rows = []\<rparr>,
                \<lparr>columns = [''user_name'', ''Total Jobs'', ''RUNNING'', ''PENDING'', ''COMPLETED''],
                 rows = []\<rparr>)"
proof -
  consider (none) "squeue_data = JNull"
    | (missing) "squeue_data = JObj doc" "map_of doc ''jobs'' = None"
    | (empty) "squeue_data = JObj doc" "map_of doc ''jobs'' = Some (JList [])"
    using assms by auto
  then show ?thesis
  proof cases
    case none
    then show ?thesis
      by (simp add: process_job_summaries_def empty_job_summary_def)
  next
    case missing
    then have "''jobs'' \<notin> set (map fst doc)"
      by (simp add: map_of_eq_None_iff)
    with missing show ?thesis
      by (simp add: process_job_summaries_def empty_job_summary_def)
  next
    case empty
    then have "''jobs'' \<in> set (map fst doc)"
      by (metis map_of_eq_None_iff option.distinct(1) set_map)
    with empty show ?thesis
      by (simp add: process_job_summaries_def empty_job_summary_def)
  qed
qed

theorem process_job_summaries_no_jobs_witness:
  "process_job_summaries in_order JNull =
     Inr (\<lparr>columns = [''account'', ''Total Jobs'', ''RUNNING'', ''PENDING'', ''COMPLETED''],
           rows = []\<rparr>,
          \<lparr>columns = [''user_name'', ''Total Jobs'', ''RUNNING'', ''PENDING'', ''COMPLETED''],
           rows = []\<rparr>)
   \<and> process_job_summaries in_order (JObj [(''errors'', JList [])]) =
     Inr (\<lparr>columns = [''account'', ''Total Jobs'', ''RUNNING'', ''PENDING'', ''COMPLETED''],
           rows = []\<rparr>,
          \<lparr>columns = [''user_name'', ''Total Jobs'', ''RUNNING'', ''PENDING'', ''COMPLETED''],
           rows = []\<rparr>)
   \<and> process_job_summaries in_order (JObj [(''jobs'', JList [])]) =
     Inr (\<lparr>columns = [''account'', ''Total Jobs'', ''RUNNING'', ''PENDING'', ''COMPLETED''],
           rows = []\<rparr>,
          \<lparr>columns = [''user_name'', ''Total Jobs'', ''RUNNING'', ''PENDING'', ''COMPLETED''],
           rows = []\<rparr>)"
  using process_job_summaries_no_jobs [of JNull _ in_order]
    process_job_summaries_no_jobs [of "JObj [(''errors'', JList [])]" "[(''errors'', JList [])]" in_order]
    process_job_summaries_no_jobs [of "JObj [(''jobs'', JList [])]" "[(''jobs'', JList [])]" in_order]
  by simp

section \<open>Reading well-formed documents\<close>

lemma traverse_map:
  assumes "\<And>x. x \<in> set xs \<Longrightarrow> f x = Inr (g x)"
  shows "traverse f xs = Inr (map g xs)"
  using assms by (induction xs) simp_all

lemma DataFrame_records: "DataFrame (JList (map JObj recs)) = Inr recs"
  by (induction recs) simp_all

lemma has_key_map_of: "has_key k r \<Longrightarrow> map_of r k = Some (cell k r)"
  unfolding has_key_def cell_def
  by (cases "map_of r k") (simp_all add: map_of_eq_None_iff)

lemma col_present:
  assumes "df \<noteq> []" and "list_all (has_key c) df"
  shows "col c df = Inr (map (cell c) df)"
proof -
  from assms have "has_column c df"
    by (cases df) (simp_all add: has_column_def)
  with assms(2) show ?thesis by (simp add: col_def)
qed

lemma as_int_cell: "is_int64 v \<Longrightarrow> as_int v = Inr (cell_int v)"
  by (cases v) simp_all

lemma as_str_cell: "is_str v \<Longrightarrow> as_str v = Inr (cell_str v)"
  by (cases v) simp_all

lemma as_str_list_cell: "is_str_list v \<Longrightarrow> as_str_list v = Inr (cell_strs v)"
  by (cases v) (auto simp: list_all_iff intro!: traverse_map as_str_cell)

lemma struct_field_cell: "is_struct_with f v \<Longrightarrow> struct_field f v = Inr (cell_field f v)"
  by (cases v) (simp_all add: has_key_map_of)

lemma col_int_present:
  assumes "df \<noteq> []" and "list_all (int_at c) df"
  shows "col_int c df = Inr (map (get_int c) df)"
proof -
  from assms(2) have k: "list_all (has_key c) df"
    by (simp add: list_all_iff int_at_def)
  have "traverse as_int (map (cell c) df) = Inr (map cell_int (map (cell c) df))"
    using assms(2) by (intro traverse_map as_int_cell) (auto simp: list_all_iff int_at_def)
  then show ?thesis
    by (simp add: col_int_def col_present [OF assms(1) k] get_int_def comp_def)
qed

lemma col_str_present:
  assumes "df \<noteq> []" and "list_all (str_at c) df"
  shows "col_str c df = Inr (map (get_str c) df)"
proof -
  from assms(2) have k: "list_all (has_key c) df"
    by (simp add: list_all_iff str_at_def)
  have "traverse as_str (map (cell c) df) = Inr (map cell_str (map (cell c) df))"
    using assms(2) by (intro traverse_map as_str_cell) (auto simp: list_all_iff str_at_def)
  then show ?thesis
    by (simp add: col_str_def col_present [OF assms(1) k] get_str_def comp_def)
qed

lemma col_str_list_present:
  assumes "df \<noteq> []" and "list_all (strs_at c) df"
  shows "col_str_list c df = Inr (map (get_strs c) df)"
proof -
  from assms(2) have k: "list_all (has_key c) df"
    by (simp add: list_all_iff strs_at_def)
  have "traverse as_str_list (map (cell c) df) = Inr (map cell_strs (map (cell c) df))"
    using assms(2) by (intro traverse_map as_str_list_cell) (auto simp: list_all_iff strs_at_def)
  then show ?thesis
    by (simp add: col_str_list_def col_present [OF assms(1) k] get_strs_def comp_def)
qed

lemma col_field_int_present:
  assumes "df \<noteq> []" and "list_all (int_in c f) df"
  shows "col_field_int c f df = Inr (map (get_field_int c f) df)"
proof -
  from assms(2) have k: "list_all (has_key c) df"
    by (simp add: list_all_iff int_in_def)
  have "traverse (\<lambda>v. bindE (struct_field f v) as_int) (map (cell c) df)
        = Inr (map (\<lambda>v. cell_int (cell_field f v)) (map (cell c) df))"
    using assms(2)
    by (intro traverse_map) (auto simp: list_all_iff int_in_def struct_field_cell as_int_cell)
  then show ?thesis
    by (simp add: col_field_int_def col_present [OF assms(1) k] get_field_int_def comp_def)
qed

lemma col_field_str_present:
  assumes "df \<noteq> []" and "list_all (str_in c f) df"
  shows "col_field_str c f df = Inr (map (get_field_str c f) df)"
proof -
  from assms(2) have k: "list_all (has_key c) df"
    by (simp add: list_all_iff str_in_def)
  have "traverse (\<lambda>v. bindE (struct_field f v) as_str) (map (cell c) df)
        = Inr (map (\<lambda>v. cell_str (cell_field f v)) (map (cell c) df))"
    using assms(2)
    by (intro traverse_map) (auto simp: list_all_iff str_in_def struct_field_cell as_str_cell)
  then show ?thesis
    by (simp add: col_field_str_def col_present [OF assms(1) k] get_field_str_def comp_def)
qed

lemma py_in_present: "map_of doc k = Some v \<Longrightarrow> py_in k (JObj doc) = Inr True"
  by (force dest: map_of_SomeD)

lemma py_getitem_present: "map_of doc k = Some v \<Longrightarrow> py_getitem (JObj doc) k = Inr v"
  by simp

lemma truthy_doc: "map_of doc k = Some v \<Longrightarrow> truthy (JObj doc)"
  by (cases doc) simp_all

section \<open>Properties of the node summary\<close>

lemma broken_nodes_condition_Some:
  "\<exists>c'. broken_nodes_condition ss (Some c) = Some c'
        \<and> (\<forall>xs. c' xs = (c xs \<or> set ss \<inter> set xs \<noteq> {}))"
proof (induction ss arbitrary: c)
  case Nil
  then show ?case by simp
next
  case (Cons s ss)
  from Cons [of "\<lambda>xs. c xs \<or> list_contains s xs"]
  show ?case by (auto simp: list_contains_def)
qed

lemma broken_nodes_condition_None:
  assumes "ss \<noteq> []"
  shows "\<exists>c'. broken_nodes_condition ss None = Some c'
        \<and> (\<forall>xs. c' xs = (set ss \<inter> set xs \<noteq> {}))"
proof -
  obtain s rest where ss: "ss = s # rest"
    using assms by (cases ss) auto
  from broken_nodes_condition_Some [of rest "list_contains s"]
  show ?thesis by (auto simp: ss list_contains_def)
qed

lemma zip_map_same: "zip (map f xs) (map g xs) = map (\<lambda>x. (f x, g x)) xs"
  by (induction xs) simp_all

lemma length_filter_map: "length (filter P (map f xs)) = length (filter (\<lambda>x. P (f x)) xs)"
  by (induction xs) simp_all

lemma upt_8: "[0..<8] = [0, 1, 2, 3, 4, 5, 6, 7]"
  by (simp add: upt_rec)

lemma upt_3: "[0..<3] = [0, 1, 2]"
  by (simp add: upt_rec)

text \<open>
  C6. For a node document with at least one node, the node summary reports as
  \<^verbatim>\<open>Broken Nodes\<close> the number of nodes whose state list meets the set DRAINED, DRAINING,
  DRAIN, DOWN, FAIL, NO_RESPOND, POWER_DOWN, POWER_UP, RESUME, UNKNOWN, as
  \<^verbatim>\<open>Nodes in Reservation\<close> the number of nodes whose state list contains RESERVATION, and as
  \<^verbatim>\<open>Mixed Nodes\<close> the number of nodes with \<open>0 < alloc_cpus < cpus\<close>. On the five nodes of the
  tests it reports one broken node and three mixed nodes.
\<close>

theorem process_node_summary_counts:
  "(map_of doc ''nodes'' = Some (JList (map JObj nodes)) \<and> nodes \<noteq> [] \<and> list_all wf_node nodes
     \<longrightarrow> process_node_summary (JObj doc) =
          Inr (Some \<lparr>columns = [''Metric'', ''Value''],
             rows =
               [[JStr ''Total Nodes'', JInt (int (length nodes))],
                [JStr ''Total CPUs'', JInt (wrap64 (sum_list (map (get_int ''cpus'') nodes)))],
                [JStr ''Total Memory (MB)'',
                 JInt (wrap64 (sum_list (map (get_int ''real_memory'') nodes)))],
                [JStr ''Allocated CPUs'',
                 JInt (wrap64 (sum_list (map (get_int ''alloc_cpus'') nodes)))],
                [JStr ''Allocated Memory (MB)'',
                 JInt (wrap64 (sum_list (map (get_int ''alloc_memory'') nodes)))],
                [JStr ''Broken Nodes'',
                 JInt (int (length (filter
                   (\<lambda>n. {''DRAINED'', ''DRAINING'', ''DRAIN'', ''DOWN'', ''FAIL'', ''NO_RESPOND'',
                         ''POWER_DOWN'', ''POWER_UP'', ''RESUME'', ''UNKNOWN''}
                        \<inter> set (get_strs ''state'' n) \<noteq> {}) nodes)))],
                [JStr ''Nodes in Reservation'',
                 JInt (int (length (filter
                   (\<lambda>n. ''RESERVATION'' \<in> set (get_strs ''state'' n)) nodes)))],
                [JStr ''Mixed Nodes'',
                 JInt (int (length (filter
                   (\<lambda>n. 0 < get_int ''alloc_cpus'' n
                        \<and> get_int ''alloc_cpus'' n < get_int ''cpus'' n) nodes)))]]\<rparr>))
   \<and> process_node_summary MOCK_SCONTROL_JSON =
       Inr (Some \<lparr>columns = [''Metric'', ''Value''],
          rows = [[JStr ''Total Nodes'', JInt 5], [JStr ''Total CPUs'', JInt 32],
                  [JStr ''Total Memory (MB)'', JInt 128000], [JStr ''Allocated CPUs'', JInt 10],
                  [JStr ''Allocated Memory (MB)'', JInt 40000], [JStr ''Broken Nodes'', JInt 1],
                  [JStr ''Nodes in Reservation'', JInt 1], [JStr ''Mixed Nodes'', JInt 3]]\<rparr>)"
proof (intro conjI impI)
  assume a: "map_of doc ''nodes'' = Some (JList (map JObj nodes)) \<and> nodes \<noteq> []
             \<and> list_all wf_node nodes"
  then have doc: "map_of doc ''nodes'' = Some (JList (map JObj nodes))"
    and ne: "nodes \<noteq> []" and wf: "list_all wf_node nodes"
    by simp_all
  have cpus: "col_int ''cpus'' nodes = Inr (map (get_int ''cpus'') nodes)"
    using wf by (intro col_int_present ne) (simp add: list_all_iff wf_node_def)
  have real_memory: "col_int ''real_memory'' nodes = Inr (map (get_int ''real_memory'') nodes)"
    using wf by (intro col_int_present ne) (simp add: list_all_iff wf_node_def)
  have alloc_cpus: "col_int ''alloc_cpus'' nodes = Inr (map (get_int ''alloc_cpus'') nodes)"
    using wf by (intro col_int_present ne) (simp add: list_all_iff wf_node_def)
  have alloc_memory: "col_int ''alloc_memory'' nodes = Inr (map (get_int ''alloc_memory'') nodes)"
    using wf by (intro col_int_present ne) (simp add: list_all_iff wf_node_def)
  have state: "col_str_list ''state'' nodes = Inr (map (get_strs ''state'') nodes)"
    using wf by (intro col_str_list_present ne) (simp add: list_all_iff wf_node_def)
  obtain broken where b: "broken_nodes_condition broken_states None = Some broken"
    and bc: "\<And>xs. broken xs = (set broken_states \<inter> set xs \<noteq> {})"
    using broken_nodes_condition_None [of broken_states] by (auto simp: broken_states_def)
  have bs: "set broken_states = {''DRAINED'', ''DRAINING'', ''DRAIN'', ''DOWN'', ''FAIL'',
      ''NO_RESPOND'', ''POWER_DOWN'', ''POWER_UP'', ''RESUME'', ''UNKNOWN''}"
    by (simp add: broken_states_def)
  show "process_node_summary (JObj doc) =
          Inr (Some \<lparr>columns = [''Metric'', ''Value''],
             rows =
               [[JStr ''Total Nodes'', JInt (int (length nodes))],
                [JStr ''Total CPUs'', JInt (wrap64 (sum_list (map (get_int ''cpus'') nodes)))],
                [JStr ''Total Memory (MB)'',
                 JInt (wrap64 (sum_list (map (get_int ''real_memory'') nodes)))],
                [JStr ''Allocated CPUs'',
                 JInt (wrap64 (sum_list (map (get_int ''alloc_cpus'') nodes)))],
                [JStr ''Allocated Memory (MB)'',
                 JInt (wrap64 (sum_list (map (get_int ''alloc_memory'') nodes)))],
                [JStr ''Broken Nodes'',
                 JInt (int (length (filter
                   (\<lambda>n. {''DRAINED'', ''DRAINING'', ''DRAIN'', ''DOWN'', ''FAIL'', ''NO_RESPOND'',
                         ''POWER_DOWN'', ''POWER_UP'', ''RESUME'', ''UNKNOWN''}
                        \<inter> set (get_strs ''state'' n) \<noteq> {}) nodes)))],
                [JStr ''Nodes in Reservation'',
                 JInt (int (length (filter
                   (\<lambda>n. ''RESERVATION'' \<in> set (get_strs ''state'' n)) nodes)))],
                [JStr ''Mixed Nodes'',
                 JInt (int (length (filter
                   (\<lambda>n. 0 < get_int ''alloc_cpus'' n
                        \<and> get_int ''alloc_cpus'' n < get_int ''cpus'' n) nodes)))]]\<rparr>)"
    unfolding process_node_summary_def
    by (simp add: truthy_doc [OF doc] py_in_present [OF doc] py_getitem_present [OF doc]
        DataFrame_records cpus real_memory alloc_cpus alloc_memory state b bc [abs_def] bs
        from_columns_def upt_8 polars_sum_def zip_map_same length_filter_map
        list_contains_def [abs_def] Let_def comp_def
        del: py_in.simps py_getitem.simps truthy.simps DataFrame.simps)
next
  show "process_node_summary MOCK_SCONTROL_JSON =
       Inr (Some \<lparr>columns = [''Metric'', ''Value''],
          rows = [[JStr ''Total Nodes'', JInt 5], [JStr ''Total CPUs'', JInt 32],
                  [JStr ''Total Memory (MB)'', JInt 128000], [JStr ''Allocated CPUs'', JInt 10],
                  [JStr ''Allocated Memory (MB)'', JInt 40000], [JStr ''Broken Nodes'', JInt 1],
                  [JStr ''Nodes in Reservation'', JInt 1], [JStr ''Mixed Nodes'', JInt 3]]\<rparr>)"
    by code_simp
qed

theorem process_node_summary_counts_witness:
  "map_of [(''nodes'', JList (map JObj MOCK_SCONTROL))] ''nodes''
     = Some (JList (map JObj MOCK_SCONTROL))
   \<and> MOCK_SCONTROL \<noteq> [] \<and> list_all wf_node MOCK_SCONTROL
   \<and> length (filter
         (\<lambda>n. {''DRAINED'', ''DRAINING'', ''DRAIN'', ''DOWN'', ''FAIL'', ''NO_RESPOND'',
               ''POWER_DOWN'', ''POWER_UP'', ''RESUME'', ''UNKNOWN''}
              \<inter> set (get_strs ''state'' n) \<noteq> {}) MOCK_SCONTROL) = 1
   \<and> length (filter (\<lambda>n. ''RESERVATION'' \<in> set (get_strs ''state'' n)) MOCK_SCONTROL) = 1
   \<and> length (filter (\<lambda>n. 0 < get_int ''alloc_cpus'' n
                         \<and> get_int ''alloc_cpus'' n < get_int ''cpus'' n) MOCK_SCONTROL) = 3
   \<and> process_node_summary (JObj [(''nodes'', JList (map JObj MOCK_SCONTROL))]) =
       Inr (Some \<lparr>columns = [''Metric'', ''Value''],
          rows = [[JStr ''Total Nodes'', JInt 5], [JStr ''Total CPUs'', JInt 32],
                  [JStr ''Total Memory (MB)'', JInt 128000], [JStr ''Allocated CPUs'', JInt 10],
                  [JStr ''Allocated Memory (MB)'', JInt 40000], [JStr ''Broken Nodes'', JInt 1],
                  [JStr ''Nodes in Reservation'', JInt 1], [JStr ''Mixed Nodes'', JInt 3]]\<rparr>)"
proof -
  have h1: "map_of [(''nodes'', JList (map JObj MOCK_SCONTROL))] ''nodes''
     = Some (JList (map JObj MOCK_SCONTROL))"
    by simp
  have h2: "MOCK_SCONTROL \<noteq> []"
    by (simp add: MOCK_SCONTROL_def)
  have h3: "list_all wf_node MOCK_SCONTROL"
    by code_simp
  have b: "length (filter
         (\<lambda>n. {''DRAINED'', ''DRAINING'', ''DRAIN'', ''DOWN'', ''FAIL'', ''NO_RESPOND'',
               ''POWER_DOWN'', ''POWER_UP'', ''RESUME'', ''UNKNOWN''}
              \<inter> set (get_strs ''state'' n) \<noteq> {}) MOCK_SCONTROL) = 1"
    by code_simp
  have r: "length (filter (\<lambda>n. ''RESERVATION'' \<in> set (get_strs ''state'' n)) MOCK_SCONTROL) = 1"
    by code_simp
  have m: "length (filter (\<lambda>n. 0 < get_int ''alloc_cpus'' n
                         \<and> get_int ''alloc_cpus'' n < get_int ''cpus'' n) MOCK_SCONTROL) = 3"
    by code_simp
  have n: "length MOCK_SCONTROL = 5"
    by (simp add: MOCK_SCONTROL_def)
  have s1: "wrap64 (sum_list (map (get_int ''cpus'') MOCK_SCONTROL)) = 32"
    by code_simp
  have s2: "wrap64 (sum_list (map (get_int ''real_memory'') MOCK_SCONTROL)) = 128000"
    by code_simp
  have s3: "wrap64 (sum_list (map (get_int ''alloc_cpus'') MOCK_SCONTROL)) = 10"
    by code_simp
  have s4: "wrap64 (sum_list (map (get_int ''alloc_memory'') MOCK_SCONTROL)) = 40000"
    by code_simp
  note eq = process_node_summary_counts [THEN conjunct1, THEN mp,
      OF conjI [OF h1 conjI [OF h2 h3]]]
  have "process_node_summary (JObj [(''nodes'', JList (map JObj MOCK_SCONTROL))]) =
       Inr (Some \<lparr>columns = [''Metric'', ''Value''],
          rows = [[JStr ''Total Nodes'', JInt 5], [JStr ''Total CPUs'', JInt 32],
                  [JStr ''Total Memory (MB)'', JInt 128000], [JStr ''Allocated CPUs'', JInt 10],
                  [JStr ''Allocated Memory (MB)'', JInt 40000], [JStr ''Broken Nodes'', JInt 1],
                  [JStr ''Nodes in Reservation'', JInt 1], [JStr ''Mixed Nodes'', JInt 3]]\<rparr>)"
    unfolding eq b r m n s1 s2 s3 s4 by simp
  with h1 h2 h3 b r m show ?thesis by blast
qed

section \<open>Orders, sums and sorting\<close>

lemma wrap64_id: "int64 i \<Longrightarrow> wrap64 i = i"
  by (simp add: wrap64_def int64_def)

lemma sum_list_filter_bounds:
  fixes g :: "'a \<Rightarrow> int"
  assumes "list_all (\<lambda>x. 0 \<le> g x) xs"
  shows "0 \<le> sum_list (map g (filter P xs)) \<and> sum_list (map g (filter P xs)) \<le> sum_list (map g xs)"
  using assms by (induction xs) auto

lemma fits_int64_filter:
  assumes "fits_int64 g xs"
  shows "int64 (sum_list (map g (filter P xs)))"
proof -
  from assms have "list_all (\<lambda>x. 0 \<le> g x) xs" and "sum_list (map g xs) < 2 ^ 63"
    by (simp_all add: fits_int64_def)
  with sum_list_filter_bounds [of g xs P] show ?thesis
    by (simp add: int64_def)
qed

lemma valid_order_bound:
  assumes "valid_order ord" and "i \<in> set (ord n)"
  shows "i < n"
proof -
  from assms(1) have "set (ord n) = set [0..<n]"
    unfolding valid_order_def by (metis mset_eq_setD)
  with assms(2) show ?thesis by simp
qed

lemma mset_unordered:
  assumes "valid_order ord"
  shows "mset (unordered ord xs) = mset xs"
proof -
  have "mset (map (\<lambda>i. xs ! i) (ord (length xs))) = image_mset (\<lambda>i. xs ! i) (mset [0..<length xs])"
    using assms by (simp add: valid_order_def)
  also have "\<dots> = mset (map (\<lambda>i. xs ! i) [0..<length xs])"
    by simp
  also have "\<dots> = mset xs"
    by (simp add: map_nth)
  finally show ?thesis by (simp add: unordered_def)
qed

lemma unordered_map:
  assumes "valid_order ord"
  shows "unordered ord (map f xs) = map f (unordered ord xs)"
  using valid_order_bound [OF assms] by (simp add: unordered_def)

lemma unordered_in_order: "unordered in_order xs = xs"
  by (simp add: unordered_def in_order_def map_nth)

lemma valid_in_order: "valid_order in_order"
  by (simp add: valid_order_def in_order_def)

lemma valid_backwards: "valid_order backwards"
  by (simp add: valid_order_def backwards_def)

lemma insort_key_map: "insort_key f (g x) (map g xs) = map g (insort_key (\<lambda>y. f (g y)) x xs)"
  by (induction xs) simp_all

lemma sort_key_map: "sort_key f (map g xs) = map g (sort_key (\<lambda>y. f (g y)) xs)"
  by (induction xs) (simp_all add: insort_key_map)

lemma sorted_uminus_rev:
  fixes h :: "'a \<Rightarrow> int"
  assumes "sorted (map (\<lambda>x. - h x) xs)"
  shows "sorted (rev (map h xs))"
proof -
  have "sorted_wrt (\<lambda>x y. h y \<le> h x) xs"
    using assms by (simp add: sorted_map sorted_wrt_iff_nth_less)
  then show ?thesis
    by (simp add: sorted_wrt_rev sorted_wrt_map flip: rev_map)
qed

lemma group_map:
  "group k (map key xs) (map g xs) = map g (filter (\<lambda>x. key x = k) xs)"
  by (induction xs) (simp_all add: group_def)

section \<open>Properties of the partition rollup\<close>

lemma wf_partition_name:
  "list_all wf_partition recs \<Longrightarrow> list_all (str_in ''partition'' ''name'') recs"
  by (simp add: list_all_iff wf_partition_def)

lemma wf_partition_field:
  assumes "list_all wf_partition recs" and "(c, f, a) \<in> set partition_aggs"
  shows "list_all (int_in c f) recs"
  using assms by (fastforce simp: list_all_iff wf_partition_def)

lemma partition_rollup_rows:
  assumes "recs \<noteq> []" and "list_all wf_partition recs"
    and "list_all (\<lambda>(c, f, a). fits_int64 (get_field_int c f) recs) partition_aggs"
  shows "partition_rollup ord key_name recs =
     Inr \<lparr>columns = [key_name, ''Total Nodes'', ''Idle Nodes'', ''Allocated Nodes'',
                     ''Total CPUs'', ''Free CPUs'', ''Allocated CPUs''],
          rows = map (\<lambda>k. [JStr k,
                           JInt (raw_sum ''nodes'' ''total'' k recs),
                           JInt (raw_sum ''nodes'' ''idle'' k recs),
                           JInt (raw_sum ''nodes'' ''allocated'' k recs),
                           JInt (raw_sum ''cpus'' ''total'' k recs),
                           JInt (raw_sum ''cpus'' ''idle'' k recs),
                           JInt (raw_sum ''cpus'' ''allocated'' k recs)])
                     (group_by ord (map (get_field_str ''partition'' ''name'') recs))\<rparr>"
proof -
  have names: "col_field_str ''partition'' ''name'' recs
               = Inr (map (get_field_str ''partition'' ''name'') recs)"
    using assms(1) wf_partition_name [OF assms(2)] by (rule col_field_str_present)
  have fields: "traverse (\<lambda>(c, f, a). col_field_int c f recs) partition_aggs
                = Inr (map (\<lambda>(c, f, a). map (get_field_int c f) recs) partition_aggs)"
  proof (rule traverse_map)
    fix x assume x: "x \<in> set partition_aggs"
    obtain c f a where cfa: "x = (c, f, a)" by (cases x) auto
    from x have "list_all (int_in c f) recs"
      unfolding cfa by (rule wf_partition_field [OF assms(2)])
    with assms(1) have "col_field_int c f recs = Inr (map (get_field_int c f) recs)"
      by (rule col_field_int_present)
    then show "(case x of (c, f, a) \<Rightarrow> col_field_int c f recs)
               = Inr (case x of (c, f, a) \<Rightarrow> map (get_field_int c f) recs)"
      by (simp add: cfa)
  qed
  have sums: "polars_sum (group k (map (get_field_str ''partition'' ''name'') recs)
                 (map (get_field_int c f) recs)) = raw_sum c f k recs"
    if "(c, f, a) \<in> set partition_aggs" for c f a k
  proof -
    from that assms(3) have "fits_int64 (get_field_int c f) recs"
      by (auto simp: list_all_iff)
    then have "int64 (raw_sum c f k recs)"
      unfolding raw_sum_def by (rule fits_int64_filter)
    then show ?thesis
      by (simp add: polars_sum_def group_map raw_sum_def wrap64_id)
  qed
  show ?thesis
    unfolding partition_rollup_def names fields
    by (simp add: sums [unfolded partition_aggs_def] partition_aggs_def)
qed

lemma sort_descending_rows:
  assumes "valid_order ord" and "column_index c \<lparr>columns = cs, rows = map mk ks\<rparr> = i"
  shows "sort_descending ord c \<lparr>columns = cs, rows = map mk ks\<rparr> =
     \<lparr>columns = cs,
      rows = map mk (sort_key (\<lambda>k. - cell_int (mk k ! i)) (unordered ord ks))\<rparr>"
  using assms(2)
  by (simp add: sort_descending_def unordered_map [OF assms(1)] sort_key_map)

lemma sorted_keys:
  fixes tot :: "'k \<Rightarrow> int" and names :: "'k list" and ord :: "nat \<Rightarrow> nat list"
  assumes "valid_order ord"
  defines "ks \<equiv> sort_key (\<lambda>k. - tot k) (unordered ord (group_by ord names))"
  shows "distinct ks \<and> set ks = set names \<and> sorted (rev (map tot ks))"
proof -
  have m: "mset ks = mset (remdups names)"
    by (simp add: ks_def group_by_def mset_unordered [OF assms(1)])
  have d: "distinct ks"
    using mset_eq_imp_distinct_iff [OF m] by simp
  have s: "set ks = set names"
    using mset_eq_setD [OF m] by simp
  have "sorted (map (\<lambda>k. - tot k) ks)"
    unfolding ks_def by (rule sorted_sort_key)
  then have "sorted (rev (map tot ks))"
    by (rule sorted_uminus_rev)
  with d s show ?thesis by simp
qed

text \<open>
  C5. For a partition document with at least one record, whose counts cannot overflow, the
  rollup of \<open>process_partition_summary\<close> has one row per distinct partition name; each of
  its six numeric columns is the sum of the corresponding raw count over the records of that
  name (\<^verbatim>\<open>Free CPUs\<close> being the sum of the idle cpu counts); and the rows are sorted by
  \<^verbatim>\<open>Total Nodes\<close>, largest first. This holds in whatever order the library returns groups
  and equal rows.
\<close>

theorem process_partition_summary_rollup:
  assumes "valid_order ord"
    and "map_of doc ''sinfo'' = Some (JList (map JObj recs))"
    and "recs \<noteq> []"
    and "list_all wf_partition recs"
    and "list_all (\<lambda>(c, f, a). fits_int64 (get_field_int c f) recs) partition_aggs"
  shows "\<exists>ks. process_partition_summary ord (JObj doc) =
           Inr (Some \<lparr>columns = [''Partition'', ''Total Nodes'', ''Idle Nodes'',
                                 ''Allocated Nodes'', ''Total CPUs'', ''Free CPUs'',
                                 ''Allocated CPUs''],
                rows = map (\<lambda>k. [JStr k,
                                 JInt (raw_sum ''nodes'' ''total'' k recs),
                                 JInt (raw_sum ''nodes'' ''idle'' k recs),
                                 JInt (raw_sum ''nodes'' ''allocated'' k recs),
                                 JInt (raw_sum ''cpus'' ''total'' k recs),
                                 JInt (raw_sum ''cpus'' ''idle'' k recs),
                                 JInt (raw_sum ''cpus'' ''allocated'' k recs)]) ks\<rparr>)
         \<and> distinct ks
         \<and> set ks = set (map (get_field_str ''partition'' ''name'') recs)
         \<and> sorted (rev (map (\<lambda>k. raw_sum ''nodes'' ''total'' k recs) ks))"
proof -
  define ks where "ks = sort_key (\<lambda>k. - raw_sum ''nodes'' ''total'' k recs)
      (unordered ord (group_by ord (map (get_field_str ''partition'' ''name'') recs)))"
  have i: "column_index ''Total Nodes''
             \<lparr>columns = [''Partition'', ''Total Nodes'', ''Idle Nodes'', ''Allocated Nodes'',
                          ''Total CPUs'', ''Free CPUs'', ''Allocated CPUs''],
              rows = rs\<rparr> = 1" for rs
    by (simp add: column_index_def)
  have "process_partition_summary ord (JObj doc) =
           Inr (Some \<lparr>columns = [''Partition'', ''Total Nodes'', ''Idle Nodes'',
                                 ''Allocated Nodes'', ''Total CPUs'', ''Free CPUs'',
                                 ''Allocated CPUs''],
                rows = map (\<lambda>k. [JStr k,
                                 JInt (raw_sum ''nodes'' ''total'' k recs),
                                 JInt (raw_sum ''nodes'' ''idle'' k recs),
                                 JInt (raw_sum ''nodes'' ''allocated'' k recs),
                                 JInt (raw_sum ''cpus'' ''total'' k recs),
                                 JInt (raw_sum ''cpus'' ''idle'' k recs),
                                 JInt (raw_sum ''cpus'' ''allocated'' k recs)]) ks\<rparr>)"
    unfolding process_partition_summary_def
    by (simp add: truthy_doc [OF assms(2)] py_getitem_present [OF assms(2)] DataFrame_records
        partition_rollup_rows [OF assms(3,4,5)] sort_descending_rows [OF assms(1) i] ks_def
        del: py_getitem.simps truthy.simps DataFrame.simps)
  moreover have "distinct ks
         \<and> set ks = set (map (get_field_str ''partition'' ''name'') recs)
         \<and> sorted (rev (map (\<lambda>k. raw_sum ''nodes'' ''total'' k recs) ks))"
    unfolding ks_def by (rule sorted_keys [OF assms(1)])
  ultimately show ?thesis by blast
qed

theorem process_partition_summary_rollup_witness:
  "valid_order backwards
   \<and> map_of [(''sinfo'', JList (map JObj MOCK_SINFO))] ''sinfo'' = Some (JList (map JObj MOCK_SINFO))
   \<and> MOCK_SINFO \<noteq> []
   \<and> list_all wf_partition MOCK_SINFO
   \<and> list_all (\<lambda>(c, f, a). fits_int64 (get_field_int c f) MOCK_SINFO) partition_aggs
   \<and> (\<exists>ks. process_partition_summary backwards MOCK_SINFO_JSON =
           Inr (Some \<lparr>columns = [''Partition'', ''Total Nodes'', ''Idle Nodes'',
                                 ''Allocated Nodes'', ''Total CPUs'', ''Free CPUs'',
                                 ''Allocated CPUs''],
                rows = map (\<lambda>k. [JStr k,
                                 JInt (raw_sum ''nodes'' ''total'' k MOCK_SINFO),
                                 JInt (raw_sum ''nodes'' ''idle'' k MOCK_SINFO),
                                 JInt (raw_sum ''nodes'' ''allocated'' k MOCK_SINFO),
                                 JInt (raw_sum ''cpus'' ''total'' k MOCK_SINFO),
                                 JInt (raw_sum ''cpus'' ''idle'' k MOCK_SINFO),
                                 JInt (raw_sum ''cpus'' ''allocated'' k MOCK_SINFO)]) ks\<rparr>)
         \<and> distinct ks
         \<and> set ks = set (map (get_field_str ''partition'' ''name'') MOCK_SINFO)
         \<and> sorted (rev (map (\<lambda>k. raw_sum ''nodes'' ''total'' k MOCK_SINFO) ks)))
   \<and> process_partition_summary backwards MOCK_SINFO_JSON =
       Inr (Some \<lparr>columns = [''Partition'', ''Total Nodes'', ''Idle Nodes'', ''Allocated Nodes'',
                             ''Total CPUs'', ''Free CPUs'', ''Allocated CPUs''],
            rows = [[JStr ''normal'', JInt 2, JInt 1, JInt 1, JInt 8, JInt 4, JInt 4],
                    [JStr ''debug'', JInt 1, JInt 1, JInt 0, JInt 4, JInt 4, JInt 0]]\<rparr>)"
proof -
  have h2: "map_of [(''sinfo'', JList (map JObj MOCK_SINFO))] ''sinfo''
            = Some (JList (map JObj MOCK_SINFO))"
    by simp
  have h3: "MOCK_SINFO \<noteq> []"
    by (simp add: MOCK_SINFO_def)
  have h4: "list_all wf_partition MOCK_SINFO"
    by code_simp
  have h5: "list_all (\<lambda>(c, f, a). fits_int64 (get_field_int c f) MOCK_SINFO) partition_aggs"
    by code_simp
  have ev: "process_partition_summary backwards MOCK_SINFO_JSON =
       Inr (Some \<lparr>columns = [''Partition'', ''Total Nodes'', ''Idle Nodes'', ''Allocated Nodes'',
                             ''Total CPUs'', ''Free CPUs'', ''Allocated CPUs''],
            rows = [[JStr ''normal'', JInt 2, JInt 1, JInt 1, JInt 8, JInt 4, JInt 4],
                    [JStr ''debug'', JInt 1, JInt 1, JInt 0, JInt 4, JInt 4, JInt 0]]\<rparr>)"
    by code_simp
  from process_partition_summary_rollup [OF valid_backwards h2 h3 h4 h5]
    valid_backwards h2 h3 h4 h5 ev
  show ?thesis
    unfolding MOCK_SINFO_JSON_def by blast
qed

section \<open>Properties of the waiting-time summary\<close>

lemma abs_le_sum_list_abs:
  fixes ws :: "int list"
  shows "w \<in> set ws \<Longrightarrow> \<bar>w\<bar> \<le> sum_list (map abs ws)"
proof (induction ws)
  case Nil
  then show ?case by simp
next
  case (Cons a ws)
  have "0 \<le> sum_list (map abs ws)"
    by (induction ws) auto
  with Cons show ?case by auto
qed

lemma exact_waits_int64:
  assumes "exact_waits ws" and "w \<in> set ws"
  shows "int64 w"
proof -
  from assms(2) have "\<bar>w\<bar> \<le> sum_list (map abs ws)"
    by (rule abs_le_sum_list_abs)
  moreover from assms(1) have "sum_list (map abs ws) < 2 ^ 53"
    by (simp add: exact_waits_def)
  ultimately show ?thesis
    by (simp add: int64_def, linarith)
qed

lemma map_wrap64:
  assumes "\<And>x. x \<in> set xs \<Longrightarrow> int64 (f x)"
  shows "map (\<lambda>x. wrap64 (f x)) xs = map f xs"
  using assms by (simp add: wrap64_id)

lemma zip3_map_same:
  "zip (map f xs) (zip (map g xs) (map h xs)) = map (\<lambda>x. (f x, g x, h x)) xs"
  by (induction xs) simp_all

lemma waiting_time_table_rows:
  "waiting_time_table [a, b, c] =
     \<lparr>columns = [''Metric'', ''Value''],
      rows = [[JStr ''Max Waiting Time'', JStr a], [JStr ''Median Waiting Time'', JStr b],
              [JStr ''Mean Waiting Time'', JStr c]]\<rparr>"
  by (simp add: waiting_time_table_def from_columns_def upt_3)

lemma no_waiting_times_rows:
  "no_waiting_times =
     \<lparr>columns = [''Metric'', ''Value''],
      rows = [[JStr ''Max Waiting Time'', JStr ''0d 0h 0m 0s''],
              [JStr ''Median Waiting Time'', JStr ''0d 0h 0m 0s''],
              [JStr ''Mean Waiting Time'', JStr ''0d 0h 0m 0s'']]\<rparr>"
proof -
  have "replicate 3 ''0d 0h 0m 0s'' = [''0d 0h 0m 0s'', ''0d 0h 0m 0s'', ''0d 0h 0m 0s'']"
    by (simp add: numeral_3_eq_3)
  then show ?thesis
    by (simp add: no_waiting_times_def waiting_time_table_rows)
qed

lemma waiting_time_seconds_jobs:
  assumes "exact_waits (waits_of jobs)"
  shows "waiting_time_seconds (map (get_strs ''job_state'') jobs)
           (map (get_field_int ''eligible_time'' ''number'') jobs)
           (map (get_field_int ''start_time'' ''number'') jobs) = waits_of jobs"
proof -
  have "waiting_time_seconds (map (get_strs ''job_state'') jobs)
           (map (get_field_int ''eligible_time'' ''number'') jobs)
           (map (get_field_int ''start_time'' ''number'') jobs)
        = map (\<lambda>j. wrap64 (get_field_int ''start_time'' ''number'' j
                          - get_field_int ''eligible_time'' ''number'' j))
             (filter qualifying_job jobs)"
    by (simp add: waiting_time_seconds_def zip3_map_same filter_map comp_def
        qualifying_job_def [abs_def] list_contains_def)
  also have "\<dots> = waits_of jobs"
    unfolding waits_of_def
    by (rule map_wrap64) (auto intro!: exact_waits_int64 [OF assms] simp: waits_of_def)
  finally show ?thesis .
qed

lemma pending_jobs_frame:
  assumes "jobs \<noteq> []" and "list_all wf_timed_job jobs" and "exact_waits (waits_of jobs)"
    and "map_of doc ''jobs'' = Some (JList (map JObj jobs))"
  shows "process_pending_job_waiting_times_summary (JObj doc) =
     (if waits_of jobs = [] then Inr no_waiting_times
      else Inr (waiting_time_table
        [format_seconds_to_human_readable (Some (of_int (Max (set (waits_of jobs))))),
         format_seconds_to_human_readable (Some (median (waits_of jobs))),
         format_seconds_to_human_readable (Some (mean (waits_of jobs)))]))"
proof -
  have js: "col_str_list ''job_state'' jobs = Inr (map (get_strs ''job_state'') jobs)"
    using assms(2) by (intro col_str_list_present assms(1)) (simp add: list_all_iff wf_timed_job_def)
  have el: "col_field_int ''eligible_time'' ''number'' jobs
            = Inr (map (get_field_int ''eligible_time'' ''number'') jobs)"
    using assms(2) by (intro col_field_int_present assms(1)) (simp add: list_all_iff wf_timed_job_def)
  have st: "col_field_int ''start_time'' ''number'' jobs
            = Inr (map (get_field_int ''start_time'' ''number'') jobs)"
    using assms(2) by (intro col_field_int_present assms(1)) (simp add: list_all_iff wf_timed_job_def)
  have tr: "truthy (JList (map JObj jobs))"
    using assms(1) by simp
  show ?thesis
    unfolding process_pending_job_waiting_times_summary_def
    by (simp add: tr truthy_doc [OF assms(4)] py_in_present [OF assms(4)]
        py_getitem_present [OF assms(4)] DataFrame_records js el st
        waiting_time_seconds_jobs [OF assms(3)] Let_def float_or_zero_def
        del: DataFrame.simps py_in.simps py_getitem.simps truthy.simps)
qed

lemma pending_jobs_degraded:
  assumes "squeue_data = JNull
           \<or> squeue_data = JObj doc \<and> (map_of doc ''jobs'' = None \<or> map_of doc ''jobs'' = Some (JList []))"
  shows "process_pending_job_waiting_times_summary squeue_data = Inr no_waiting_times"
proof -
  consider (none) "squeue_data = JNull"
    | (missing) "squeue_data = JObj doc" "map_of doc ''jobs'' = None"
    | (empty) "squeue_data = JObj doc" "map_of doc ''jobs'' = Some (JList [])"
    using assms by auto
  then show ?thesis
  proof cases
    case none
    then show ?thesis
      by (simp add: process_pending_job_waiting_times_summary_def)
  next
    case missing
    then have "''jobs'' \<notin> set (map fst doc)"
      by (simp add: map_of_eq_None_iff)
    with missing show ?thesis
      by (simp add: process_pending_job_waiting_times_summary_def)
  next
    case empty
    then have "''jobs'' \<in> set (map fst doc)"
      by (metis map_of_eq_None_iff option.distinct(1) set_map)
    with empty show ?thesis
      by (simp add: process_pending_job_waiting_times_summary_def)
  qed
qed

lemma sorted_rank_below:
  fixes s :: "int list"
  assumes "sorted s" and "k < length s"
  shows "length (filter (\<lambda>w. w < s ! k) s) \<le> k"
proof -
  have "\<not> x < s ! k" if "x \<in> set (drop k s)" for x
  proof -
    from that obtain i where "i < length s - k" "x = s ! (k + i)"
      by (auto simp: in_set_conv_nth)
    with assms(1) have "s ! k \<le> x"
      by (simp add: sorted_nth_mono)
    then show ?thesis by simp
  qed
  then have "filter (\<lambda>w. w < s ! k) (drop k s) = []"
    by (simp add: filter_empty_conv)
  then have "filter (\<lambda>w. w < s ! k) s = filter (\<lambda>w. w < s ! k) (take k s)"
    by (metis append_Nil2 append_take_drop_id filter_append)
  then have "length (filter (\<lambda>w. w < s ! k) s) \<le> length (take k s)"
    by (simp add: length_filter_le del: length_take)
  with assms(2) show ?thesis by simp
qed

lemma sorted_rank_upto:
  fixes s :: "int list"
  assumes "sorted s" and "k < length s"
  shows "k < length (filter (\<lambda>w. w \<le> s ! k) s)"
proof -
  have "x \<le> s ! k" if "x \<in> set (take (Suc k) s)" for x
  proof -
    from that obtain i where "i < Suc k" "i < length s" "x = s ! i"
      by (auto simp: in_set_conv_nth)
    with assms show ?thesis
      by (simp add: sorted_nth_mono)
  qed
  then have "filter (\<lambda>w. w \<le> s ! k) (take (Suc k) s) = take (Suc k) s"
    by (simp add: filter_id_conv)
  moreover have "filter (\<lambda>w. w \<le> s ! k) s
                 = filter (\<lambda>w. w \<le> s ! k) (take (Suc k) s) @ filter (\<lambda>w. w \<le> s ! k) (drop (Suc k) s)"
    by (metis append_take_drop_id filter_append)
  ultimately have "length (take (Suc k) s) \<le> length (filter (\<lambda>w. w \<le> s ! k) s)"
    by simp
  with assms(2) show ?thesis by simp
qed

lemma length_filter_sort:
  fixes xs :: "int list"
  shows "length (filter P (sort xs)) = length (filter P xs)"
proof -
  have "mset (filter P (sort xs)) = mset (filter P xs)"
    by simp
  then show ?thesis
    by (rule mset_eq_length)
qed

lemma median_middle:
  assumes "ws \<noteq> []"
  shows "\<exists>lo hi. lower_middle ws lo \<and> upper_middle ws hi
           \<and> median ws = (of_int lo + of_int hi) / 2"
proof -
  define s where "s = sort ws"
  define n where "n = length ws"
  have sorted: "sorted s" and len: "length s = n" and set: "set s = set ws"
    by (simp_all add: s_def n_def)
  have pos: "0 < n"
    using assms by (simp add: n_def)
  define lo where "lo = s ! ((n - 1) div 2)"
  define hi where "hi = s ! (n div 2)"
  have klo: "(n - 1) div 2 < length s" and khi: "n div 2 < length s"
    using pos by (simp_all add: len)
  have below: "length (filter (\<lambda>w. w < v) ws) = length (filter (\<lambda>w. w < v) s)"
    and upto: "length (filter (\<lambda>w. w \<le> v) ws) = length (filter (\<lambda>w. w \<le> v) s)" for v
    by (simp_all add: s_def length_filter_sort)
  have "lo \<in> set ws" "hi \<in> set ws"
    using klo khi by (simp_all add: lo_def hi_def flip: set)
  moreover have "2 * length (filter (\<lambda>w. w < lo) ws) < n"
    using sorted_rank_below [OF sorted klo] pos unfolding below lo_def by arith
  moreover have "n \<le> 2 * length (filter (\<lambda>w. w \<le> lo) ws)"
    using sorted_rank_upto [OF sorted klo] unfolding upto lo_def by arith
  moreover have "2 * length (filter (\<lambda>w. w < hi) ws) \<le> n"
    using sorted_rank_below [OF sorted khi] unfolding below hi_def by arith
  moreover have "n < 2 * length (filter (\<lambda>w. w \<le> hi) ws)"
    using sorted_rank_upto [OF sorted khi] unfolding upto hi_def by arith
  moreover have "median ws = (of_int lo + of_int hi) / 2"
  proof (cases "odd n")
    case True
    then have "(n - 1) div 2 = n div 2"
      by (auto elim: oddE)
    with True show ?thesis
      by (simp add: median_def Let_def lo_def hi_def flip: s_def n_def)
  next
    case False
    then have "(n - 1) div 2 = n div 2 - 1"
      using pos by (auto elim!: evenE)
    with False show ?thesis
      by (simp add: median_def Let_def lo_def hi_def flip: s_def n_def)
  qed
  ultimately show ?thesis
    unfolding lower_middle_def upper_middle_def n_def by blast
qed

lemma lower_middle_unique:
  assumes "lower_middle ws a" and "lower_middle ws b"
  shows "a = b"
proof -
  have False if "lower_middle ws a" "lower_middle ws b" "a < b" for a b
  proof -
    have "length (filter (\<lambda>w. w \<le> a) ws) \<le> length (filter (\<lambda>w. w < b) ws)"
    proof -
      have "filter (\<lambda>w. w \<le> a) ws = filter (\<lambda>w. w \<le> a) (filter (\<lambda>w. w < b) ws)"
        using that(3) by (auto intro: filter_cong)
      then show ?thesis
        by (metis length_filter_le)
    qed
    with that(1,2) show False
      by (simp add: lower_middle_def)
  qed
  from this [of a b] this [of b a] assms show ?thesis
    by (cases a b rule: linorder_cases) auto
qed

lemma upper_middle_unique:
  assumes "upper_middle ws a" and "upper_middle ws b"
  shows "a = b"
proof -
  have False if "upper_middle ws a" "upper_middle ws b" "a < b" for a b
  proof -
    have "length (filter (\<lambda>w. w \<le> a) ws) \<le> length (filter (\<lambda>w. w < b) ws)"
    proof -
      have "filter (\<lambda>w. w \<le> a) ws = filter (\<lambda>w. w \<le> a) (filter (\<lambda>w. w < b) ws)"
        using that(3) by (auto intro: filter_cong)
      then show ?thesis
        by (metis length_filter_le)
    qed
    with that(1,2) show False
      by (simp add: upper_middle_def)
  qed
  from this [of a b] this [of b a] assms show ?thesis
    by (cases a b rule: linorder_cases) auto
qed

lemma pending_jobs_statistics:
  assumes "map_of doc ''jobs'' = Some (JList (map JObj jobs))" and "list_all wf_timed_job jobs"
    and "exact_waits (waits_of jobs)" and "waits_of jobs \<noteq> []"
  shows "\<exists>longest middle average lo hi.
           process_pending_job_waiting_times_summary (JObj doc) =
             Inr \<lparr>columns = [''Metric'', ''Value''],
                  rows = [[JStr ''Max Waiting Time'', JStr longest],
                          [JStr ''Median Waiting Time'', JStr middle],
                          [JStr ''Mean Waiting Time'', JStr average]]\<rparr>
           \<and> formatted_seconds longest (of_int (Max (set (waits_of jobs))))
           \<and> lower_middle (waits_of jobs) lo \<and> upper_middle (waits_of jobs) hi
           \<and> formatted_seconds middle ((of_int lo + of_int hi) / 2)
           \<and> formatted_seconds average
                (of_int (sum_list (waits_of jobs)) / of_int (int (length (waits_of jobs))))"
proof -
  from assms(4) have ne: "jobs \<noteq> []"
    by (auto simp: waits_of_def)
  have table: "process_pending_job_waiting_times_summary (JObj doc) =
      Inr (waiting_time_table
        [format_seconds_to_human_readable (Some (of_int (Max (set (waits_of jobs))))),
         format_seconds_to_human_readable (Some (median (waits_of jobs))),
         format_seconds_to_human_readable (Some (mean (waits_of jobs)))])"
    using pending_jobs_frame [OF ne assms(2) assms(3) assms(1)] assms(4) by simp
  obtain lo hi where lo: "lower_middle (waits_of jobs) lo" and hi: "upper_middle (waits_of jobs) hi"
    and med: "median (waits_of jobs) = (of_int lo + of_int hi) / 2"
    using median_middle [OF assms(4)] by blast
  have mean: "mean (waits_of jobs)
              = of_int (sum_list (waits_of jobs)) / of_int (int (length (waits_of jobs)))"
    by (simp add: mean_def)
  show ?thesis
  proof (intro exI conjI)
    show "process_pending_job_waiting_times_summary (JObj doc) =
             Inr \<lparr>columns = [''Metric'', ''Value''],
                  rows = [[JStr ''Max Waiting Time'',
                           JStr (format_seconds_to_human_readable
                                   (Some (of_int (Max (set (waits_of jobs))))))],
                          [JStr ''Median Waiting Time'',
                           JStr (format_seconds_to_human_readable (Some (median (waits_of jobs))))],
                          [JStr ''Mean Waiting Time'',
                           JStr (format_seconds_to_human_readable (Some (mean (waits_of jobs))))]]\<rparr>"
      unfolding table by (simp add: waiting_time_table_rows)
    show "formatted_seconds (format_seconds_to_human_readable
             (Some (of_int (Max (set (waits_of jobs)))))) (of_int (Max (set (waits_of jobs))))"
      by (rule format_seconds_formatted)
    show "lower_middle (waits_of jobs) lo" by (rule lo)
    show "upper_middle (waits_of jobs) hi" by (rule hi)
    show "formatted_seconds (format_seconds_to_human_readable (Some (median (waits_of jobs))))
            ((of_int lo + of_int hi) / 2)"
      unfolding med by (rule format_seconds_formatted)
    show "formatted_seconds (format_seconds_to_human_readable (Some (mean (waits_of jobs))))
            (of_int (sum_list (waits_of jobs)) / of_int (int (length (waits_of jobs))))"
      unfolding mean by (rule format_seconds_formatted)
  qed
qed

lemma pending_jobs_none_qualifies:
  assumes "map_of doc ''jobs'' = Some (JList (map JObj jobs))" and "list_all wf_timed_job jobs"
    and "waits_of jobs = []"
  shows "process_pending_job_waiting_times_summary (JObj doc) = Inr no_waiting_times"
proof (cases "jobs = []")
  case True
  with assms(1) show ?thesis
    using pending_jobs_degraded [of "JObj doc" doc] by simp
next
  case False
  have "exact_waits (waits_of jobs)"
    by (simp add: assms(3) exact_waits_def)
  from pending_jobs_frame [OF False assms(2) this assms(1)] assms(3) show ?thesis
    by simp
qed


text \<open>
  C4. The waiting-time summary is computed from exactly the jobs whose state list contains
  PENDING and whose eligible and start times are both non-zero, the waiting time being start
  minus eligible. When no job qualifies, which includes a document that is \<^verbatim>\<open>None\<close>, has no
  \<^verbatim>\<open>jobs\<close> key or has no jobs, all three values are \<open>0d 0h 0m 0s\<close>. Otherwise the three rows
  show the largest waiting time, the median (the midpoint of the lower and the upper middle
  waiting time) and the arithmetic mean (the sum of the waiting times divided by their
  number), each truncated to an integer and written as days, hours, minutes and seconds.
\<close>

theorem pending_job_waiting_times:
  "(squeue_data = JNull
      \<or> squeue_data = JObj doc \<and> (map_of doc ''jobs'' = None \<or> map_of doc ''jobs'' = Some (JList []))
    \<longrightarrow> process_pending_job_waiting_times_summary squeue_data =
        Inr \<lparr>columns = [''Metric'', ''Value''],
             rows = [[JStr ''Max Waiting Time'', JStr ''0d 0h 0m 0s''],
                     [JStr ''Median Waiting Time'', JStr ''0d 0h 0m 0s''],
                     [JStr ''Mean Waiting Time'', JStr ''0d 0h 0m 0s'']]\<rparr>)
   \<and> (map_of doc ''jobs'' = Some (JList (map JObj jobs)) \<and> list_all wf_timed_job jobs
        \<and> waits_of jobs = []
    \<longrightarrow> process_pending_job_waiting_times_summary (JObj doc) =
        Inr \<lparr>columns = [''Metric'', ''Value''],
             rows = [[JStr ''Max Waiting Time'', JStr ''0d 0h 0m 0s''],
                     [JStr ''Median Waiting Time'', JStr ''0d 0h 0m 0s''],
                     [JStr ''Mean Waiting Time'', JStr ''0d 0h 0m 0s'']]\<rparr>)
   \<and> (map_of doc ''jobs'' = Some (JList (map JObj jobs)) \<and> list_all wf_timed_job jobs
        \<and> exact_waits (waits_of jobs) \<and> waits_of jobs \<noteq> []
    \<longrightarrow> (\<exists>longest middle average lo hi.
           process_pending_job_waiting_times_summary (JObj doc) =
             Inr \<lparr>columns = [''Metric'', ''Value''],
                  rows = [[JStr ''Max Waiting Time'', JStr longest],
                          [JStr ''Median Waiting Time'', JStr middle],
                          [JStr ''Mean Waiting Time'', JStr average]]\<rparr>
           \<and> formatted_seconds longest (of_int (Max (set (waits_of jobs))))
           \<and> lower_middle (waits_of jobs) lo \<and> upper_middle (waits_of jobs) hi
           \<and> formatted_seconds middle ((of_int lo + of_int hi) / 2)
           \<and> formatted_seconds average
                (of_int (sum_list (waits_of jobs)) / of_int (int (length (waits_of jobs))))))"
proof (intro conjI impI)
  assume "squeue_data = JNull
      \<or> squeue_data = JObj doc \<and> (map_of doc ''jobs'' = None \<or> map_of doc ''jobs'' = Some (JList []))"
  then have "process_pending_job_waiting_times_summary squeue_data = Inr no_waiting_times"
    by (rule pending_jobs_degraded)
  then show "process_pending_job_waiting_times_summary squeue_data =
        Inr \<lparr>columns = [''Metric'', ''Value''],
             rows = [[JStr ''Max Waiting Time'', JStr ''0d 0h 0m 0s''],
                     [JStr ''Median Waiting Time'', JStr ''0d 0h 0m 0s''],
                     [JStr ''Mean Waiting Time'', JStr ''0d 0h 0m 0s'']]\<rparr>"
    by (simp add: no_waiting_times_rows)
next
  assume "map_of doc ''jobs'' = Some (JList (map JObj jobs)) \<and> list_all wf_timed_job jobs
        \<and> waits_of jobs = []"
  then have "process_pending_job_waiting_times_summary (JObj doc) = Inr no_waiting_times"
    using pending_jobs_none_qualifies [of doc jobs] by simp
  then show "process_pending_job_waiting_times_summary (JObj doc) =
        Inr \<lparr>columns = [''Metric'', ''Value''],
             rows = [[JStr ''Max Waiting Time'', JStr ''0d 0h 0m 0s''],
                     [JStr ''Median Waiting Time'', JStr ''0d 0h 0m 0s''],
                     [JStr ''Mean Waiting Time'', JStr ''0d 0h 0m 0s'']]\<rparr>"
    by (simp add: no_waiting_times_rows)
next
  assume "map_of doc ''jobs'' = Some (JList (map JObj jobs)) \<and> list_all wf_timed_job jobs
        \<and> exact_waits (waits_of jobs) \<and> waits_of jobs \<noteq> []"
  then show "\<exists>longest middle average lo hi.
           process_pending_job_waiting_times_summary (JObj doc) =
             Inr \<lparr>columns = [''Metric'', ''Value''],
                  rows = [[JStr ''Max Waiting Time'', JStr longest],
                          [JStr ''Median Waiting Time'', JStr middle],
                          [JStr ''Mean Waiting Time'', JStr average]]\<rparr>
           \<and> formatted_seconds longest (of_int (Max (set (waits_of jobs))))
           \<and> lower_middle (waits_of jobs) lo \<and> upper_middle (waits_of jobs) hi
           \<and> formatted_seconds middle ((of_int lo + of_int hi) / 2)
           \<and> formatted_seconds average
                (of_int (sum_list (waits_of jobs)) / of_int (int (length (waits_of jobs))))"
    using pending_jobs_statistics [of doc jobs] by simp
qed

theorem pending_job_waiting_times_witness:
  "map_of [(''jobs'', JList (map JObj EXAMPLE_JOBS))] ''jobs'' = Some (JList (map JObj EXAMPLE_JOBS))
   \<and> list_all wf_timed_job EXAMPLE_JOBS
   \<and> waits_of EXAMPLE_JOBS = [100, 5000, 201, 1000]
   \<and> exact_waits (waits_of EXAMPLE_JOBS)
   \<and> process_pending_job_waiting_times_summary (JObj [(''jobs'', JList (map JObj EXAMPLE_JOBS))]) =
        Inr \<lparr>columns = [''Metric'', ''Value''],
             rows = [[JStr ''Max Waiting Time'', JStr ''0d 1h 23m 20s''],
                     [JStr ''Median Waiting Time'', JStr ''0d 0h 10m 0s''],
                     [JStr ''Mean Waiting Time'', JStr ''0d 0h 26m 15s'']]\<rparr>
   \<and> formatted_seconds ''0d 1h 23m 20s'' 5000
   \<and> lower_middle [100, 5000, 201, 1000] 201
   \<and> upper_middle [100, 5000, 201, 1000] 1000
   \<and> formatted_seconds ''0d 0h 10m 0s'' (1201 / 2)
   \<and> formatted_seconds ''0d 0h 26m 15s'' (6301 / 4)
   \<and> list_all wf_timed_job MOCK_SQUEUE
   \<and> waits_of MOCK_SQUEUE = [400, 1400]
   \<and> process_pending_job_waiting_times_summary MOCK_SQUEUE_JSON =
        Inr \<lparr>columns = [''Metric'', ''Value''],
             rows = [[JStr ''Max Waiting Time'', JStr ''0d 0h 23m 20s''],
                     [JStr ''Median Waiting Time'', JStr ''0d 0h 15m 0s''],
                     [JStr ''Mean Waiting Time'', JStr ''0d 0h 15m 0s'']]\<rparr>
   \<and> formatted_seconds ''0d 0h 23m 20s'' 1400
   \<and> formatted_seconds ''0d 0h 15m 0s'' 900
   \<and> waits_of [mock_job ''a'' [''RUNNING''] ''u'' 1000 2000, mock_job ''a'' [''PENDING''] ''u'' 0 2000] = []
   \<and> process_pending_job_waiting_times_summary
        (JObj [(''jobs'', JList (map JObj [mock_job ''a'' [''RUNNING''] ''u'' 1000 2000,
                                          mock_job ''a'' [''PENDING''] ''u'' 0 2000]))]) =
        Inr \<lparr>columns = [''Metric'', ''Value''],
             rows = [[JStr ''Max Waiting Time'', JStr ''0d 0h 0m 0s''],
                     [JStr ''Median Waiting Time'', JStr ''0d 0h 0m 0s''],
                     [JStr ''Mean Waiting Time'', JStr ''0d 0h 0m 0s'']]\<rparr>
   \<and> process_pending_job_waiting_times_summary (JObj [(''jobs'', JList [])]) =
        Inr \<lparr>columns = [''Metric'', ''Value''],
             rows = [[JStr ''Max Waiting Time'', JStr ''0d 0h 0m 0s''],
                     [JStr ''Median Waiting Time'', JStr ''0d 0h 0m 0s''],
                     [JStr ''Mean Waiting Time'', JStr ''0d 0h 0m 0s'']]\<rparr>"
proof -
  have h1: "map_of [(''jobs'', JList (map JObj EXAMPLE_JOBS))] ''jobs''
            = Some (JList (map JObj EXAMPLE_JOBS))"
    by simp
  have h2: "list_all wf_timed_job EXAMPLE_JOBS"
    by code_simp
  have w: "waits_of EXAMPLE_JOBS = [100, 5000, 201, 1000]"
    by code_simp
  have h3: "exact_waits (waits_of EXAMPLE_JOBS)"
    by code_simp
  have h4: "waits_of EXAMPLE_JOBS \<noteq> []"
    by (simp add: w)
  have run: "process_pending_job_waiting_times_summary
               (JObj [(''jobs'', JList (map JObj EXAMPLE_JOBS))]) =
        Inr \<lparr>columns = [''Metric'', ''Value''],
             rows = [[JStr ''Max Waiting Time'', JStr ''0d 1h 23m 20s''],
                     [JStr ''Median Waiting Time'', JStr ''0d 0h 10m 0s''],
                     [JStr ''Mean Waiting Time'', JStr ''0d 0h 26m 15s'']]\<rparr>"
    by code_simp
  have lo: "lower_middle [100, 5000, 201, 1000] 201"
    by code_simp
  have hi: "upper_middle [100, 5000, 201, 1000] 1000"
    by code_simp
  have mx: "Max (set [100, 5000, 201, 1000 :: int]) = 5000"
    by simp
  from pending_job_waiting_times [THEN conjunct2, THEN conjunct2, THEN mp,
      OF conjI [OF h1 conjI [OF h2 conjI [OF h3 h4]]]]
  obtain longest middle average l h where
    t: "process_pending_job_waiting_times_summary
          (JObj [(''jobs'', JList (map JObj EXAMPLE_JOBS))]) =
             Inr \<lparr>columns = [''Metric'', ''Value''],
                  rows = [[JStr ''Max Waiting Time'', JStr longest],
                          [JStr ''Median Waiting Time'', JStr middle],
                          [JStr ''Mean Waiting Time'', JStr average]]\<rparr>"
    and f1: "formatted_seconds longest (of_int (Max (set (waits_of EXAMPLE_JOBS))))"
    and l: "lower_middle (waits_of EXAMPLE_JOBS) l" and h: "upper_middle (waits_of EXAMPLE_JOBS) h"
    and f2: "formatted_seconds middle ((of_int l + of_int h) / 2)"
    and f3: "formatted_seconds average
                (of_int (sum_list (waits_of EXAMPLE_JOBS)) / of_int (int (length (waits_of EXAMPLE_JOBS))))"
    by blast
  from t run have s: "longest = ''0d 1h 23m 20s''" "middle = ''0d 0h 10m 0s''"
    "average = ''0d 0h 26m 15s''"
    by auto
  from l lo have l201: "l = 201"
    unfolding w by (rule lower_middle_unique)
  from h hi have h1000: "h = 1000"
    unfolding w by (rule upper_middle_unique)
  from f1 have g1: "formatted_seconds ''0d 1h 23m 20s'' 5000"
    unfolding s w mx by simp
  from f2 have g2: "formatted_seconds ''0d 0h 10m 0s'' (1201 / 2)"
    unfolding s l201 h1000 by simp
  from f3 have g3: "formatted_seconds ''0d 0h 26m 15s'' (6301 / 4)"
    unfolding s w by simp
  have m2: "list_all wf_timed_job MOCK_SQUEUE"
    by code_simp
  have mw: "waits_of MOCK_SQUEUE = [400, 1400]"
    by code_simp
  have m3: "exact_waits (waits_of MOCK_SQUEUE)"
    by code_simp
  have m1: "map_of [(''jobs'', JList (map JObj MOCK_SQUEUE))] ''jobs''
            = Some (JList (map JObj MOCK_SQUEUE))"
    by simp
  have m4: "waits_of MOCK_SQUEUE \<noteq> []"
    by (simp add: mw)
  have mrun: "process_pending_job_waiting_times_summary MOCK_SQUEUE_JSON =
        Inr \<lparr>columns = [''Metric'', ''Value''],
             rows = [[JStr ''Max Waiting Time'', JStr ''0d 0h 23m 20s''],
                     [JStr ''Median Waiting Time'', JStr ''0d 0h 15m 0s''],
                     [JStr ''Mean Waiting Time'', JStr ''0d 0h 15m 0s'']]\<rparr>"
    by code_simp
  from pending_job_waiting_times [THEN conjunct2, THEN conjunct2, THEN mp,
      OF conjI [OF m1 conjI [OF m2 conjI [OF m3 m4]]], folded MOCK_SQUEUE_JSON_def]
  obtain longest' middle' average' l' h' where
    t': "process_pending_job_waiting_times_summary MOCK_SQUEUE_JSON =
             Inr \<lparr>columns = [''Metric'', ''Value''],
                  rows = [[JStr ''Max Waiting Time'', JStr longest'],
                          [JStr ''Median Waiting Time'', JStr middle'],
                          [JStr ''Mean Waiting Time'', JStr average']]\<rparr>"
    and f1': "formatted_seconds longest' (of_int (Max (set (waits_of MOCK_SQUEUE))))"
    and f3': "formatted_seconds average'
                (of_int (sum_list (waits_of MOCK_SQUEUE)) / of_int (int (length (waits_of MOCK_SQUEUE))))"
    by blast
  from t' mrun have s': "longest' = ''0d 0h 23m 20s''" "average' = ''0d 0h 15m 0s''"
    by auto
  from f1' have g1': "formatted_seconds ''0d 0h 23m 20s'' 1400"
    unfolding s' mw by simp
  from f3' have g3': "formatted_seconds ''0d 0h 15m 0s'' 900"
    unfolding s' mw by simp
  have n1: "map_of [(''jobs'', JList (map JObj [mock_job ''a'' [''RUNNING''] ''u'' 1000 2000,
                                          mock_job ''a'' [''PENDING''] ''u'' 0 2000]))] ''jobs''
            = Some (JList (map JObj [mock_job ''a'' [''RUNNING''] ''u'' 1000 2000,
                                          mock_job ''a'' [''PENDING''] ''u'' 0 2000]))"
    by simp
  have n2: "list_all wf_timed_job [mock_job ''a'' [''RUNNING''] ''u'' 1000 2000,
                                   mock_job ''a'' [''PENDING''] ''u'' 0 2000]"
    by code_simp
  have n3: "waits_of [mock_job ''a'' [''RUNNING''] ''u'' 1000 2000,
                      mock_job ''a'' [''PENDING''] ''u'' 0 2000] = []"
    by code_simp
  note none = pending_job_waiting_times [THEN conjunct2, THEN conjunct1, THEN mp,
      OF conjI [OF n1 conjI [OF n2 n3]]]
  have empty: "process_pending_job_waiting_times_summary (JObj [(''jobs'', JList [])]) =
        Inr \<lparr>columns = [''Metric'', ''Value''],
             rows = [[JStr ''Max Waiting Time'', JStr ''0d 0h 0m 0s''],
                     [JStr ''Median Waiting Time'', JStr ''0d 0h 0m 0s''],
                     [JStr ''Mean Waiting Time'', JStr ''0d 0h 0m 0s'']]\<rparr>"
    using pending_job_waiting_times [THEN conjunct1, THEN mp,
        of "JObj [(''jobs'', JList [])]" "[(''jobs'', JList [])]"]
    by simp
  from h1 h2 w h3 run g1 lo hi g2 g3 m2 mw mrun g1' g3' n3 none empty show ?thesis
    by blast
qed

section \<open>Schemas and normal return of the aggregation functions\<close>

lemma has_key_set_cell [simp]: "has_key c (set_cell c' v r) = has_key c r"
  by (induction r) (auto simp: has_key_def set_cell_def)

lemma map_of_set_cell:
  "map_of (set_cell c' v r) c = (if c = c' then map_option (\<lambda>x. v) (map_of r c) else map_of r c)"
  by (induction r) (auto simp: set_cell_def)

lemma cell_set_cell:
  "cell c (set_cell c' v r) = (if c = c' \<and> has_key c r then v else cell c r)"
proof (cases "map_of r c")
  case None
  then have "\<not> has_key c r"
    by (simp add: has_key_def map_of_eq_None_iff)
  with None show ?thesis
    by (auto simp: cell_def map_of_set_cell)
next
  case (Some x)
  then have "has_key c r"
    by (simp add: has_key_map_of has_key_def) (metis map_of_eq_None_iff option.distinct(1))
  with Some show ?thesis
    by (auto simp: cell_def map_of_set_cell)
qed

lemma zip_map_id: "zip xs (map f xs) = map (\<lambda>x. (x, f x)) xs"
  by (induction xs) simp_all

lemma explode_jobs:
  assumes "jobs \<noteq> []" and "list_all (strs_at ''job_state'') jobs"
  shows "explode ''job_state'' jobs = Inr (exploded jobs)"
  by (simp add: explode_def col_str_list_present [OF assms] zip_map_id exploded_def comp_def)

lemma is_str_list_nonempty: "is_str_list v \<Longrightarrow> cell_strs v \<noteq> []"
  by (cases v) simp_all

lemma exploded_nonempty:
  assumes "jobs \<noteq> []" and "list_all (strs_at ''job_state'') jobs"
  shows "exploded jobs \<noteq> []"
proof -
  obtain r rest where j: "jobs = r # rest"
    using assms(1) by (cases jobs) auto
  with assms(2) have "get_strs ''job_state'' r \<noteq> []"
    by (simp add: strs_at_def get_strs_def is_str_list_nonempty)
  then show ?thesis
    by (simp add: exploded_def j)
qed

lemma exploded_str_at:
  assumes "list_all (str_at c) jobs" and "list_all (strs_at ''job_state'') jobs"
  shows "list_all (str_at c) (exploded jobs)"
  using assms
  by (auto simp: list_all_iff exploded_def str_at_def strs_at_def cell_set_cell)

lemma exploded_get_str:
  assumes "c \<noteq> ''job_state''"
  shows "map (get_str c) (exploded jobs)
         = concat (map (\<lambda>r. map (\<lambda>s. get_str c r) (get_strs ''job_state'' r)) jobs)"
  using assms
  by (simp add: exploded_def map_concat comp_def get_str_def cell_set_cell)

lemma exploded_states:
  assumes "list_all (strs_at ''job_state'') jobs"
  shows "map (get_str ''job_state'') (exploded jobs) = job_states jobs"
proof -
  have "map (get_str ''job_state'') (map (\<lambda>s. set_cell ''job_state'' (JStr s) r) (get_strs ''job_state'' r))
        = get_strs ''job_state'' r" if "r \<in> set jobs" for r
  proof -
    from that assms have "has_key ''job_state'' r"
      by (simp add: list_all_iff strs_at_def)
    then show ?thesis
      by (simp add: comp_def get_str_def cell_set_cell)
  qed
  then show ?thesis
    by (simp add: exploded_def job_states_def map_concat comp_def cong: map_cong)
qed

lemma set_group_by:
  assumes "valid_order ord"
  shows "set (group_by ord xs) = set xs"
  using mset_eq_setD [OF mset_unordered [OF assms, of "remdups xs"]]
  by (simp add: group_by_def)

lemma set_agg_len_states:
  assumes "valid_order ord" and "length keys = length states"
  shows "set (map (\<lambda>((k, s), n). s) (agg_len ord (zip keys states))) = set states"
proof -
  have "set (map (\<lambda>((k, s), n). s) (agg_len ord (zip keys states)))
        = snd ` set (group_by ord (zip keys states))"
    by (auto simp: agg_len_def image_iff split_def)
  also have "\<dots> = snd ` set (zip keys states)"
    by (simp add: set_group_by [OF assms(1)])
  also have "\<dots> = set states"
    using assms(2) by (metis map_snd_zip set_map)
  finally show ?thesis .
qed

lemma columns_sort_descending [simp]: "columns (sort_descending ord c t) = columns t"
  by (simp add: sort_descending_def)

lemma columns_sort_by_name [simp]: "columns (sort_by_name ord c t) = columns t"
  by (simp add: sort_by_name_def)

lemma job_summary_columns:
  assumes "df \<noteq> []" and "list_all (str_at key) df" and "list_all (str_at ''job_state'') df"
    and "key \<notin> set (map (get_str ''job_state'') df)"
    and "''Total Jobs'' \<notin> set (map (get_str ''job_state'') df)"
    and "valid_order ord"
  shows "\<exists>t on. job_summary ord key df = Inr t \<and> columns t = key # ''Total Jobs'' # on
           \<and> distinct on \<and> set on = set (map (get_str ''job_state'') df)"
proof -
  define on where "on = remdups (map (\<lambda>((k, s), n). s)
      (agg_len ord (zip (map (get_str key) df) (map (get_str ''job_state'') df))))"
  have keys: "col_str key df = Inr (map (get_str key) df)"
    using assms(1,2) by (rule col_str_present)
  have states: "col_str ''job_state'' df = Inr (map (get_str ''job_state'') df)"
    using assms(1,3) by (rule col_str_present)
  have "\<exists>t. job_summary ord key df = Inr t \<and> columns t = key # ''Total Jobs'' # on"
    using assms(4,5)
    by (simp add: job_summary_def keys states Let_def on_def)
  moreover have "distinct on"
    by (simp add: on_def)
  moreover have "set on = set (map (get_str ''job_state'') df)"
    unfolding on_def set_remdups
    by (rule set_agg_len_states [OF assms(6)]) simp
  ultimately show ?thesis by blast
qed

lemma bindE_InrE:
  assumes "bindE m f = Inr y"
  obtains x where "m = Inr x" and "f x = Inr y"
  using assms by (cases m) simp_all

lemma partition_rollup_columns:
  assumes "partition_rollup ord key_name df = Inr t"
  shows "columns t = [key_name, ''Total Nodes'', ''Idle Nodes'', ''Allocated Nodes'',
                      ''Total CPUs'', ''Free CPUs'', ''Allocated CPUs'']"
  using assms unfolding partition_rollup_def
  by (elim bindE_InrE) (auto simp: partition_aggs_def)

lemma process_partition_summary_columns:
  assumes "process_partition_summary ord x = Inr (Some t)"
  shows "columns t = [''Partition'', ''Total Nodes'', ''Idle Nodes'', ''Allocated Nodes'',
                      ''Total CPUs'', ''Free CPUs'', ''Allocated CPUs'']"
proof (cases "truthy x")
  case True
  with assms show ?thesis
    unfolding process_partition_summary_def
    by (simp, elim bindE_InrE) (auto dest: partition_rollup_columns)
next
  case False
  with assms show ?thesis
    by (simp add: process_partition_summary_def)
qed

lemma guarded_SomeE:
  assumes "(if \<not> truthy x then Inr None
            else bindE (py_in k x) (\<lambda>present.
              if \<not> present then Inr None else bindE (py_getitem x k) body)) = Inr (Some t)"
  obtains v where "body v = Inr (Some t)"
proof -
  from assms have "bindE (py_in k x) (\<lambda>present.
              if \<not> present then Inr None else bindE (py_getitem x k) body) = Inr (Some t)"
    by (simp split: if_splits)
  then obtain present where
    r: "(if \<not> present then Inr None else bindE (py_getitem x k) body) = Inr (Some t)"
    by (rule bindE_InrE)
  then have "bindE (py_getitem x k) body = Inr (Some t)"
    by (simp split: if_splits)
  then obtain v where "body v = Inr (Some t)"
    by (rule bindE_InrE)
  then show ?thesis by (rule that)
qed

lemma guarded_jobsE:
  assumes "(if \<not> truthy x then Inr d
            else bindE (py_in k x) (\<lambda>present.
              if \<not> present then Inr d
              else bindE (py_getitem x k) (\<lambda>jobs.
                if \<not> truthy jobs then Inr d else body jobs))) = Inr r"
  obtains "r = d" | v where "body v = Inr r"
proof (cases "r = d")
  case True
  then show ?thesis by (rule that(1))
next
  case False
  with assms have "bindE (py_in k x) (\<lambda>present.
              if \<not> present then Inr d
              else bindE (py_getitem x k) (\<lambda>jobs.
                if \<not> truthy jobs then Inr d else body jobs)) = Inr r"
    by (simp split: if_splits)
  then obtain present where
    "(if \<not> present then Inr d
      else bindE (py_getitem x k) (\<lambda>jobs. if \<not> truthy jobs then Inr d else body jobs)) = Inr r"
    by (rule bindE_InrE)
  with False have "bindE (py_getitem x k) (\<lambda>jobs. if \<not> truthy jobs then Inr d else body jobs)
                   = Inr r"
    by (simp split: if_splits)
  then obtain v where "(if \<not> truthy v then Inr d else body v) = Inr r"
    by (rule bindE_InrE)
  with False have "body v = Inr r"
    by (simp split: if_splits)
  then show ?thesis by (rule that(2))
qed

lemma process_partition_list_columns:
  assumes "process_partition_list ord x = Inr (Some t)"
  shows "columns t = [''Partition Name'', ''Total Nodes'', ''Idle Nodes'', ''Allocated Nodes'',
                      ''Total CPUs'', ''Free CPUs'', ''Allocated CPUs'']"
  using assms unfolding process_partition_list_def
  by (elim guarded_SomeE bindE_InrE)
     (auto split: if_splits elim!: bindE_InrE simp: partition_rollup_columns)

lemma columns_from_columns [simp]: "columns (from_columns n cs) = map fst cs"
  by (simp add: from_columns_def)

lemma process_node_summary_columns:
  assumes "process_node_summary x = Inr (Some t)"
  shows "columns t = [''Metric'', ''Value'']"
  using assms unfolding process_node_summary_def
  by (elim guarded_SomeE bindE_InrE) (auto simp: Let_def split: option.splits)

lemma process_node_list_columns:
  assumes "process_node_list ord x = Inr (Some t)"
  shows "columns t = [''Node Name'', ''State'', ''Total Cores'', ''Allocated Cores'',
                      ''Total Memory (MB)'', ''Allocated Memory (MB)'', ''Free Memory (MB)'',
                      ''Partitions'', ''CPU Load'']"
  using assms unfolding process_node_list_def
  by (elim guarded_SomeE bindE_InrE) (auto simp: Let_def)

lemma columns_waiting_time_table [simp]: "columns (waiting_time_table vs) = [''Metric'', ''Value'']"
  by (simp add: waiting_time_table_def)

lemma pending_waiting_times_columns:
  assumes "process_pending_job_waiting_times_summary x = Inr t"
  shows "columns t = [''Metric'', ''Value'']"
  using assms unfolding process_pending_job_waiting_times_summary_def
proof (elim guarded_jobsE)
  assume "t = no_waiting_times"
  then show ?thesis by (simp add: no_waiting_times_def)
next
  fix v
  assume "bindE (DataFrame v) (\<lambda>squeue_df.
           bindE (col_str_list ''job_state'' squeue_df) (\<lambda>job_state.
           bindE (col_field_int ''eligible_time'' ''number'' squeue_df) (\<lambda>eligible.
           bindE (col_field_int ''start_time'' ''number'' squeue_df) (\<lambda>start.
             (let pending_jobs_df = waiting_time_seconds job_state eligible start
              in if pending_jobs_df = [] then Inr no_waiting_times
                 else
                   (let max_waiting_time = float_or_zero (of_int (Max (set pending_jobs_df)));
                        median_waiting_time = float_or_zero (median pending_jobs_df);
                        mean_waiting_time = float_or_zero (mean pending_jobs_df)
                    in Inr (waiting_time_table
                         (map (\<lambda>v. format_seconds_to_human_readable (Some v))
                            [max_waiting_time, median_waiting_time, mean_waiting_time])))))))) = Inr t"
  then show ?thesis
    by (elim bindE_InrE) (auto simp: Let_def no_waiting_times_def split: if_splits)
qed

lemma job_summary_leading_columns:
  assumes "job_summary ord key df = Inr t"
  shows "\<exists>states. columns t = key # ''Total Jobs'' # states"
  using assms unfolding job_summary_def
  by (elim bindE_InrE) (auto simp: Let_def split: if_splits)

lemma process_job_summaries_leading_columns:
  assumes "process_job_summaries ord x = Inr (ta, tu)"
  shows "(\<exists>states. columns ta = ''account'' # ''Total Jobs'' # states)
       \<and> (\<exists>states. columns tu = ''user_name'' # ''Total Jobs'' # states)"
  using assms unfolding process_job_summaries_def
proof (elim guarded_jobsE)
  assume "(ta, tu) = (empty_job_summary ''account'', empty_job_summary ''user_name'')"
  then show ?thesis by (simp add: empty_job_summary_def)
next
  fix v
  assume "bindE (DataFrame v) (\<lambda>squeue_df.
           bindE (explode ''job_state'' squeue_df) (\<lambda>squeue_exploded_df.
           bindE (job_summary ord ''account'' squeue_exploded_df) (\<lambda>account_summary_df.
           bindE (job_summary ord ''user_name'' squeue_exploded_df) (\<lambda>user_summary_df.
             Inr (account_summary_df, user_summary_df))))) = Inr (ta, tu)"
  then show ?thesis
    by (elim bindE_InrE) (auto dest: job_summary_leading_columns)
qed

lemma wf_job_states:
  assumes "list_all wf_job jobs"
  shows "''account'' \<notin> set (job_states jobs) \<and> ''user_name'' \<notin> set (job_states jobs)
         \<and> ''Total Jobs'' \<notin> set (job_states jobs)"
  using assms by (auto simp: list_all_iff wf_job_def job_states_def)

lemma process_job_summaries_returns:
  assumes "map_of doc ''jobs'' = Some (JList (map JObj jobs))" and "jobs \<noteq> []"
    and "list_all wf_job jobs" and "valid_order ord"
  shows "\<exists>ta tu sa su. process_job_summaries ord (JObj doc) = Inr (ta, tu)
           \<and> columns ta = ''account'' # ''Total Jobs'' # sa
           \<and> columns tu = ''user_name'' # ''Total Jobs'' # su
           \<and> distinct sa \<and> set sa = set (job_states jobs)
           \<and> distinct su \<and> set su = set (job_states jobs)"
proof -
  have st: "list_all (strs_at ''job_state'') jobs"
    using assms(3) by (simp add: list_all_iff wf_job_def)
  have ex: "explode ''job_state'' jobs = Inr (exploded jobs)"
    using assms(2) st by (rule explode_jobs)
  have ne: "exploded jobs \<noteq> []"
    using assms(2) st by (rule exploded_nonempty)
  have states: "map (get_str ''job_state'') (exploded jobs) = job_states jobs"
    using st by (rule exploded_states)
  have s: "list_all (str_at ''job_state'') (exploded jobs)"
    using st by (auto simp: list_all_iff exploded_def str_at_def strs_at_def cell_set_cell)
  have a: "list_all (str_at ''account'') (exploded jobs)"
    using assms(3) st by (intro exploded_str_at) (simp_all add: list_all_iff wf_job_def)
  have u: "list_all (str_at ''user_name'') (exploded jobs)"
    using assms(3) st by (intro exploded_str_at) (simp_all add: list_all_iff wf_job_def)
  note clash = wf_job_states [OF assms(3), folded states]
  obtain ta sa where ta: "job_summary ord ''account'' (exploded jobs) = Inr ta"
    "columns ta = ''account'' # ''Total Jobs'' # sa" "distinct sa" "set sa = set (job_states jobs)"
    using job_summary_columns [OF ne a s _ _ assms(4)] clash by (auto simp: states)
  obtain tu su where tu: "job_summary ord ''user_name'' (exploded jobs) = Inr tu"
    "columns tu = ''user_name'' # ''Total Jobs'' # su" "distinct su" "set su = set (job_states jobs)"
    using job_summary_columns [OF ne u s _ _ assms(4)] clash by (auto simp: states)
  have tr: "truthy (JList (map JObj jobs))"
    using assms(2) by simp
  have "process_job_summaries ord (JObj doc) = Inr (ta, tu)"
    unfolding process_job_summaries_def
    by (simp add: tr truthy_doc [OF assms(1)] py_in_present [OF assms(1)]
        py_getitem_present [OF assms(1)] DataFrame_records ex ta(1) tu(1)
        del: DataFrame.simps py_in.simps py_getitem.simps truthy.simps)
  with ta(2-) tu(2-) show ?thesis by blast
qed

lemma partition_rollup_returns:
  assumes "recs \<noteq> []" and "list_all wf_partition recs"
  shows "\<exists>t. partition_rollup ord key_name recs = Inr t"
proof -
  have names: "col_field_str ''partition'' ''name'' recs
               = Inr (map (get_field_str ''partition'' ''name'') recs)"
    using assms(1) wf_partition_name [OF assms(2)] by (rule col_field_str_present)
  have fields: "traverse (\<lambda>(c, f, a). col_field_int c f recs) partition_aggs
                = Inr (map (\<lambda>(c, f, a). map (get_field_int c f) recs) partition_aggs)"
  proof (rule traverse_map)
    fix x assume x: "x \<in> set partition_aggs"
    obtain c f a where cfa: "x = (c, f, a)" by (cases x) auto
    from x have "list_all (int_in c f) recs"
      unfolding cfa by (rule wf_partition_field [OF assms(2)])
    with assms(1) have "col_field_int c f recs = Inr (map (get_field_int c f) recs)"
      by (rule col_field_int_present)
    then show "(case x of (c, f, a) \<Rightarrow> col_field_int c f recs)
               = Inr (case x of (c, f, a) \<Rightarrow> map (get_field_int c f) recs)"
      by (simp add: cfa)
  qed
  show ?thesis
    unfolding partition_rollup_def names fields by simp
qed

lemma process_partition_summary_returns:
  assumes "map_of doc ''sinfo'' = Some (JList (map JObj recs))" and "recs \<noteq> []"
    and "list_all wf_partition recs"
  shows "\<exists>t. process_partition_summary ord (JObj doc) = Inr (Some t)"
proof -
  obtain t where "partition_rollup ord ''Partition'' recs = Inr t"
    using partition_rollup_returns [OF assms(2,3)] by blast
  then show ?thesis
    unfolding process_partition_summary_def
    by (simp add: truthy_doc [OF assms(1)] py_getitem_present [OF assms(1)] DataFrame_records
        del: DataFrame.simps py_getitem.simps truthy.simps)
qed

lemma process_partition_list_returns:
  assumes "map_of doc ''sinfo'' = Some (JList (map JObj recs))" and "recs \<noteq> []"
    and "list_all wf_listed_partition recs"
  shows "\<exists>t. process_partition_list ord (JObj doc) = Inr (Some t)"
proof -
  have wf: "list_all wf_partition recs"
    using assms(3) by (simp add: list_all_iff wf_listed_partition_def)
  have no: "in_columns ''availability'' recs = Inr False" "in_columns ''state'' recs = Inr False"
    using assms(3)
    by (simp_all add: in_columns_def list_all_iff list_ex_iff has_column_def
        wf_listed_partition_def)
  obtain t where "partition_rollup ord ''Partition Name'' recs = Inr t"
    using partition_rollup_returns [OF assms(2) wf] by blast
  then show ?thesis
    unfolding process_partition_list_def
    by (simp add: truthy_doc [OF assms(1)] py_in_present [OF assms(1)]
        py_getitem_present [OF assms(1)] DataFrame_records no
        del: DataFrame.simps py_in.simps py_getitem.simps truthy.simps)
qed

text \<open>
  With an \<^verbatim>\<open>availability\<close> or a \<^verbatim>\<open>state\<close> field in its records, \<open>process_partition_list\<close>
  raises \<^verbatim>\<open>TypeError\<close>, whatever else the records hold.
\<close>

lemma process_partition_list_optional_fields:
  assumes "map_of doc ''sinfo'' = Some (JList (map JObj recs))" and "recs \<noteq> []"
    and "list_all (has_key ''availability'') recs
         \<or> list_all (\<lambda>r. \<not> has_key ''availability'' r) recs \<and> list_all (has_key ''state'') recs"
  shows "process_partition_list ord (JObj doc) = Inl TypeError"
proof -
  obtain r rest where recs: "recs = r # rest"
    using assms(2) by (cases recs) auto
  from assms(3) have "in_columns ''availability'' recs = Inr True
      \<or> in_columns ''availability'' recs = Inr False \<and> in_columns ''state'' recs = Inr True"
    unfolding recs by (auto simp: in_columns_def has_column_def list_all_iff list_ex_iff)
  then show ?thesis
    unfolding process_partition_list_def
    by (auto simp add: truthy_doc [OF assms(1)] py_in_present [OF assms(1)]
        py_getitem_present [OF assms(1)] DataFrame_records
        simp del: DataFrame.simps py_in.simps py_getitem.simps truthy.simps)
qed

lemma process_partition_list_availability_example:
  "process_partition_list in_order
     (JObj [(''sinfo'', JList [JObj ((''availability'', JStr ''up'') # mock_partition ''debug'' 1 1 0 4 4 0)])])
   = Inl TypeError"
  by code_simp

lemma process_node_summary_returns:
  assumes "map_of doc ''nodes'' = Some (JList (map JObj nodes))" and "nodes \<noteq> []"
    and "list_all wf_node nodes"
  shows "\<exists>t. process_node_summary (JObj doc) = Inr (Some t)"
proof -
  have cpus: "col_int ''cpus'' nodes = Inr (map (get_int ''cpus'') nodes)"
    using assms(3) by (intro col_int_present assms(2)) (simp add: list_all_iff wf_node_def)
  have real_memory: "col_int ''real_memory'' nodes = Inr (map (get_int ''real_memory'') nodes)"
    using assms(3) by (intro col_int_present assms(2)) (simp add: list_all_iff wf_node_def)
  have alloc_cpus: "col_int ''alloc_cpus'' nodes = Inr (map (get_int ''alloc_cpus'') nodes)"
    using assms(3) by (intro col_int_present assms(2)) (simp add: list_all_iff wf_node_def)
  have alloc_memory: "col_int ''alloc_memory'' nodes = Inr (map (get_int ''alloc_memory'') nodes)"
    using assms(3) by (intro col_int_present assms(2)) (simp add: list_all_iff wf_node_def)
  have state: "col_str_list ''state'' nodes = Inr (map (get_strs ''state'') nodes)"
    using assms(3) by (intro col_str_list_present assms(2)) (simp add: list_all_iff wf_node_def)
  obtain broken where b: "broken_nodes_condition broken_states None = Some broken"
    using broken_nodes_condition_None [of broken_states] by (auto simp: broken_states_def)
  show ?thesis
    unfolding process_node_summary_def
    by (simp add: truthy_doc [OF assms(1)] py_in_present [OF assms(1)]
        py_getitem_present [OF assms(1)] DataFrame_records cpus real_memory alloc_cpus
        alloc_memory state b Let_def
        del: DataFrame.simps py_in.simps py_getitem.simps truthy.simps)
qed

lemma process_node_list_returns:
  assumes "map_of doc ''nodes'' = Some (JList (map JObj nodes))" and "nodes \<noteq> []"
    and "list_all wf_listed_node nodes"
  shows "\<exists>t. process_node_list ord (JObj doc) = Inr (Some t)"
proof -
  have wf: "list_all wf_node nodes"
    using assms(3) by (simp add: list_all_iff wf_listed_node_def)
  have name: "col_str ''name'' nodes = Inr (map (get_str ''name'') nodes)"
    using assms(3) by (intro col_str_present assms(2)) (simp add: list_all_iff wf_listed_node_def)
  have partitions: "col_str_list ''partitions'' nodes = Inr (map (get_strs ''partitions'') nodes)"
    using assms(3)
    by (intro col_str_list_present assms(2)) (simp add: list_all_iff wf_listed_node_def)
  have cpu_load: "col ''cpu_load'' nodes = Inr (map (cell ''cpu_load'') nodes)"
    using assms(3)
    by (intro col_present assms(2)) (simp add: list_all_iff wf_listed_node_def int_at_def)
  have cpus: "col_int ''cpus'' nodes = Inr (map (get_int ''cpus'') nodes)"
    using wf by (intro col_int_present assms(2)) (simp add: list_all_iff wf_node_def)
  have real_memory: "col_int ''real_memory'' nodes = Inr (map (get_int ''real_memory'') nodes)"
    using wf by (intro col_int_present assms(2)) (simp add: list_all_iff wf_node_def)
  have alloc_cpus: "col_int ''alloc_cpus'' nodes = Inr (map (get_int ''alloc_cpus'') nodes)"
    using wf by (intro col_int_present assms(2)) (simp add: list_all_iff wf_node_def)
  have alloc_memory: "col_int ''alloc_memory'' nodes = Inr (map (get_int ''alloc_memory'') nodes)"
    using wf by (intro col_int_present assms(2)) (simp add: list_all_iff wf_node_def)
  have state: "col_str_list ''state'' nodes = Inr (map (get_strs ''state'') nodes)"
    using wf by (intro col_str_list_present assms(2)) (simp add: list_all_iff wf_node_def)
  show ?thesis
    unfolding process_node_list_def
    by (simp add: truthy_doc [OF assms(1)] py_in_present [OF assms(1)]
        py_getitem_present [OF assms(1)] DataFrame_records name partitions cpu_load cpus
        real_memory alloc_cpus alloc_memory state Let_def
        del: DataFrame.simps py_in.simps py_getitem.simps truthy.simps)
qed

lemma pending_waiting_times_returns:
  assumes "map_of doc ''jobs'' = Some (JList (map JObj jobs))" and "jobs \<noteq> []"
    and "list_all wf_timed_job jobs"
  shows "\<exists>t. process_pending_job_waiting_times_summary (JObj doc) = Inr t"
proof -
  have js: "col_str_list ''job_state'' jobs = Inr (map (get_strs ''job_state'') jobs)"
    using assms(3) by (intro col_str_list_present assms(2)) (simp add: list_all_iff wf_timed_job_def)
  have el: "col_field_int ''eligible_time'' ''number'' jobs
            = Inr (map (get_field_int ''eligible_time'' ''number'') jobs)"
    using assms(3) by (intro col_field_int_present assms(2)) (simp add: list_all_iff wf_timed_job_def)
  have st: "col_field_int ''start_time'' ''number'' jobs
            = Inr (map (get_field_int ''start_time'' ''number'') jobs)"
    using assms(3) by (intro col_field_int_present assms(2)) (simp add: list_all_iff wf_timed_job_def)
  have tr: "truthy (JList (map JObj jobs))"
    using assms(2) by simp
  show ?thesis
    unfolding process_pending_job_waiting_times_summary_def
    by (simp add: tr truthy_doc [OF assms(1)] py_in_present [OF assms(1)]
        py_getitem_present [OF assms(1)] DataFrame_records js el st Let_def
        del: DataFrame.simps py_in.simps py_getitem.simps truthy.simps)
qed

lemma py_in_missing: "map_of doc k = None \<Longrightarrow> py_in k (JObj doc) = Inr False"
  by (simp add: map_of_eq_None_iff)

text \<open>
  C2, as the code has it. The claim that every aggregation function returns a table with a
  fixed schema on every input fails: four functions return \<^verbatim>\<open>None\<close> instead of a table on a
  missing document, and the state columns of the job summaries are those of the states that
  occur in the document. What holds: whenever a function returns a table, the partition
  rollup, the partition list, the node summary, the node list and the waiting-time summary
  have their fixed columns, and a job summary starts with its key column and \<^verbatim>\<open>Total Jobs\<close>;
  on well-formed job records the remaining columns of a job summary are exactly the distinct
  states of the document; and on \<^verbatim>\<open>None\<close> the first four functions return \<^verbatim>\<open>None\<close>.
\<close>

theorem summary_table_columns:
  "(process_partition_summary ord x = Inr (Some t) \<longrightarrow>
      columns t = [''Partition'', ''Total Nodes'', ''Idle Nodes'', ''Allocated Nodes'',
                   ''Total CPUs'', ''Free CPUs'', ''Allocated CPUs''])
   \<and> (process_partition_list ord x = Inr (Some t) \<longrightarrow>
      columns t = [''Partition Name'', ''Total Nodes'', ''Idle Nodes'', ''Allocated Nodes'',
                   ''Total CPUs'', ''Free CPUs'', ''Allocated CPUs''])
   \<and> (process_node_summary x = Inr (Some t) \<longrightarrow> columns t = [''Metric'', ''Value''])
   \<and> (process_node_list ord x = Inr (Some t) \<longrightarrow>
      columns t = [''Node Name'', ''State'', ''Total Cores'', ''Allocated Cores'',
                   ''Total Memory (MB)'', ''Allocated Memory (MB)'', ''Free Memory (MB)'',
                   ''Partitions'', ''CPU Load''])
   \<and> (process_pending_job_waiting_times_summary x = Inr t \<longrightarrow>
      columns t = [''Metric'', ''Value''])
   \<and> (process_job_summaries ord x = Inr (ta, tu) \<longrightarrow>
      (\<exists>states. columns ta = ''account'' # ''Total Jobs'' # states)
      \<and> (\<exists>states. columns tu = ''user_name'' # ''Total Jobs'' # states))
   \<and> (valid_order ord \<and> map_of doc ''jobs'' = Some (JList (map JObj jobs)) \<and> jobs \<noteq> []
        \<and> list_all wf_job jobs \<longrightarrow>
      (\<exists>a u sa su. process_job_summaries ord (JObj doc) = Inr (a, u)
         \<and> columns a = ''account'' # ''Total Jobs'' # sa
         \<and> columns u = ''user_name'' # ''Total Jobs'' # su
         \<and> distinct sa \<and> set sa = set (job_states jobs)
         \<and> distinct su \<and> set su = set (job_states jobs)))
   \<and> process_partition_summary ord JNull = Inr None
   \<and> process_partition_list ord JNull = Inr None
   \<and> process_node_summary JNull = Inr None
   \<and> process_node_list ord JNull = Inr None"
proof (intro conjI impI)
  assume "process_partition_summary ord x = Inr (Some t)"
  then show "columns t = [''Partition'', ''Total Nodes'', ''Idle Nodes'', ''Allocated Nodes'',
                   ''Total CPUs'', ''Free CPUs'', ''Allocated CPUs'']"
    by (rule process_partition_summary_columns)
next
  assume "process_partition_list ord x = Inr (Some t)"
  then show "columns t = [''Partition Name'', ''Total Nodes'', ''Idle Nodes'', ''Allocated Nodes'',
                   ''Total CPUs'', ''Free CPUs'', ''Allocated CPUs'']"
    by (rule process_partition_list_columns)
next
  assume "process_node_summary x = Inr (Some t)"
  then show "columns t = [''Metric'', ''Value'']"
    by (rule process_node_summary_columns)
next
  assume "process_node_list ord x = Inr (Some t)"
  then show "columns t = [''Node Name'', ''State'', ''Total Cores'', ''Allocated Cores'',
                   ''Total Memory (MB)'', ''Allocated Memory (MB)'', ''Free Memory (MB)'',
                   ''Partitions'', ''CPU Load'']"
    by (rule process_node_list_columns)
next
  assume "process_pending_job_waiting_times_summary x = Inr t"
  then show "columns t = [''Metric'', ''Value'']"
    by (rule pending_waiting_times_columns)
next
  assume a: "process_job_summaries ord x = Inr (ta, tu)"
  from process_job_summaries_leading_columns [OF a]
  show "\<exists>states. columns ta = ''account'' # ''Total Jobs'' # states" by simp
  from process_job_summaries_leading_columns [OF a]
  show "\<exists>states. columns tu = ''user_name'' # ''Total Jobs'' # states" by simp
next
  assume "valid_order ord \<and> map_of doc ''jobs'' = Some (JList (map JObj jobs)) \<and> jobs \<noteq> []
        \<and> list_all wf_job jobs"
  then show "\<exists>a u sa su. process_job_summaries ord (JObj doc) = Inr (a, u)
         \<and> columns a = ''account'' # ''Total Jobs'' # sa
         \<and> columns u = ''user_name'' # ''Total Jobs'' # su
         \<and> distinct sa \<and> set sa = set (job_states jobs)
         \<and> distinct su \<and> set su = set (job_states jobs)"
    using process_job_summaries_returns [of doc jobs ord] by simp
next
  show "process_partition_summary ord JNull = Inr None"
    by (simp add: process_partition_summary_def)
  show "process_partition_list ord JNull = Inr None"
    by (simp add: process_partition_list_def)
  show "process_node_summary JNull = Inr None"
    by (simp add: process_node_summary_def)
  show "process_node_list ord JNull = Inr None"
    by (simp add: process_node_list_def)
qed

theorem summary_schema_counterexample:
  "process_partition_summary in_order JNull = Inr None
   \<and> process_job_summaries in_order
        (JObj [(''jobs'', JList [JObj (mock_job ''a'' [''RUNNING''] ''u'' 0 0)])])
       = Inr (\<lparr>columns = [''account'', ''Total Jobs'', ''RUNNING''],
               rows = [[JStr ''a'', JInt 1, JInt 1]]\<rparr>,
              \<lparr>columns = [''user_name'', ''Total Jobs'', ''RUNNING''],
               rows = [[JStr ''u'', JInt 1, JInt 1]]\<rparr>)
   \<and> process_job_summaries in_order
        (JObj [(''jobs'', JList [JObj (mock_job ''a'' [''FAILED''] ''u'' 0 0)])])
       = Inr (\<lparr>columns = [''account'', ''Total Jobs'', ''FAILED''],
               rows = [[JStr ''a'', JInt 1, JInt 1]]\<rparr>,
              \<lparr>columns = [''user_name'', ''Total Jobs'', ''FAILED''],
               rows = [[JStr ''u'', JInt 1, JInt 1]]\<rparr>)"
  by code_simp

theorem summary_table_columns_witness:
  "(\<exists>t. process_partition_summary in_order MOCK_SINFO_JSON = Inr (Some t)
        \<and> columns t = [''Partition'', ''Total Nodes'', ''Idle Nodes'', ''Allocated Nodes'',
                         ''Total CPUs'', ''Free CPUs'', ''Allocated CPUs''])
   \<and> (\<exists>t. process_partition_list in_order MOCK_SINFO_JSON = Inr (Some t)
        \<and> columns t = [''Partition Name'', ''Total Nodes'', ''Idle Nodes'', ''Allocated Nodes'',
                         ''Total CPUs'', ''Free CPUs'', ''Allocated CPUs''])
   \<and> (\<exists>t. process_node_summary MOCK_SCONTROL_JSON = Inr (Some t)
        \<and> columns t = [''Metric'', ''Value''])
   \<and> (\<exists>t. process_node_list in_order (JObj [(''nodes'', JList (map JObj EXAMPLE_NODES))])
          = Inr (Some t)
        \<and> columns t = [''Node Name'', ''State'', ''Total Cores'', ''Allocated Cores'',
                   ''Total Memory (MB)'', ''Allocated Memory (MB)'', ''Free Memory (MB)'',
                   ''Partitions'', ''CPU Load''])
   \<and> (\<exists>t. process_pending_job_waiting_times_summary MOCK_SQUEUE_JSON = Inr t
        \<and> columns t = [''Metric'', ''Value''])
   \<and> valid_order backwards \<and> MOCK_SQUEUE \<noteq> [] \<and> list_all wf_job MOCK_SQUEUE
   \<and> (\<exists>a u sa su. process_job_summaries backwards MOCK_SQUEUE_JSON = Inr (a, u)
         \<and> columns a = ''account'' # ''Total Jobs'' # sa
         \<and> columns u = ''user_name'' # ''Total Jobs'' # su
         \<and> distinct sa \<and> set sa = {''RUNNING'', ''PENDING'', ''COMPLETED''}
         \<and> distinct su \<and> set su = {''RUNNING'', ''PENDING'', ''COMPLETED''})"
proof -
  have e1: "process_partition_summary in_order MOCK_SINFO_JSON =
       Inr (Some \<lparr>columns = [''Partition'', ''Total Nodes'', ''Idle Nodes'', ''Allocated Nodes'',
                             ''Total CPUs'', ''Free CPUs'', ''Allocated CPUs''],
            rows = [[JStr ''normal'', JInt 2, JInt 1, JInt 1, JInt 8, JInt 4, JInt 4],
                    [JStr ''debug'', JInt 1, JInt 1, JInt 0, JInt 4, JInt 4, JInt 0]]\<rparr>)"
    by code_simp
  have e2: "process_partition_list in_order MOCK_SINFO_JSON =
       Inr (Some \<lparr>columns = [''Partition Name'', ''Total Nodes'', ''Idle Nodes'',
                             ''Allocated Nodes'', ''Total CPUs'', ''Free CPUs'', ''Allocated CPUs''],
            rows = [[JStr ''debug'', JInt 1, JInt 1, JInt 0, JInt 4, JInt 4, JInt 0],
                    [JStr ''normal'', JInt 2, JInt 1, JInt 1, JInt 8, JInt 4, JInt 4]]\<rparr>)"
    by code_simp
  have e3: "process_node_summary MOCK_SCONTROL_JSON =
       Inr (Some \<lparr>columns = [''Metric'', ''Value''],
          rows = [[JStr ''Total Nodes'', JInt 5], [JStr ''Total CPUs'', JInt 32],
                  [JStr ''Total Memory (MB)'', JInt 128000], [JStr ''Allocated CPUs'', JInt 10],
                  [JStr ''Allocated Memory (MB)'', JInt 40000], [JStr ''Broken Nodes'', JInt 1],
                  [JStr ''Nodes in Reservation'', JInt 1], [JStr ''Mixed Nodes'', JInt 3]]\<rparr>)"
    by code_simp
  have e4: "process_node_list in_order (JObj [(''nodes'', JList (map JObj EXAMPLE_NODES))]) =
       Inr (Some \<lparr>columns = [''Node Name'', ''State'', ''Total Cores'', ''Allocated Cores'',
                   ''Total Memory (MB)'', ''Allocated Memory (MB)'', ''Free Memory (MB)'',
                   ''Partitions'', ''CPU Load''],
          rows = [[JStr ''node1'', JStr ''IDLE'', JInt 4, JInt 0, JInt 16000, JInt 0, JInt 16000,
                   JStr ''debug, normal'', JInt 0],
                  [JStr ''node2'', JStr ''MIXED'', JInt 8, JInt 4, JInt 32000, JInt 16000,
                   JInt 16000, JStr ''normal'', JInt 250]]\<rparr>)"
    by code_simp
  have e5: "process_pending_job_waiting_times_summary MOCK_SQUEUE_JSON =
        Inr \<lparr>columns = [''Metric'', ''Value''],
             rows = [[JStr ''Max Waiting Time'', JStr ''0d 0h 23m 20s''],
                     [JStr ''Median Waiting Time'', JStr ''0d 0h 15m 0s''],
                     [JStr ''Mean Waiting Time'', JStr ''0d 0h 15m 0s'']]\<rparr>"
    by code_simp
  note c1 = summary_table_columns [THEN conjunct1, THEN mp, OF e1]
  note c2 = summary_table_columns [THEN conjunct2, THEN conjunct1, THEN mp, OF e2]
  note c3 = summary_table_columns [THEN conjunct2, THEN conjunct2, THEN conjunct1, THEN mp, OF e3]
  note c4 = summary_table_columns [THEN conjunct2, THEN conjunct2, THEN conjunct2,
      THEN conjunct1, THEN mp, OF e4]
  note c5 = summary_table_columns [THEN conjunct2, THEN conjunct2, THEN conjunct2,
      THEN conjunct2, THEN conjunct1, THEN mp, OF e5]
  have h1: "map_of [(''jobs'', JList (map JObj MOCK_SQUEUE))] ''jobs''
            = Some (JList (map JObj MOCK_SQUEUE))"
    by simp
  have h2: "MOCK_SQUEUE \<noteq> []"
    by (simp add: MOCK_SQUEUE_def)
  have h3: "list_all wf_job MOCK_SQUEUE"
    by code_simp
  have js: "set (job_states MOCK_SQUEUE) = {''RUNNING'', ''PENDING'', ''COMPLETED''}"
    by code_simp
  note c7 = summary_table_columns [THEN conjunct2, THEN conjunct2, THEN conjunct2,
      THEN conjunct2, THEN conjunct2, THEN conjunct2, THEN conjunct1, THEN mp,
      OF conjI [OF valid_backwards conjI [OF h1 conjI [OF h2 h3]]],
      folded MOCK_SQUEUE_JSON_def, unfolded js]
  from e1 c1 e2 c2 e3 c3 e4 c4 e5 c5 valid_backwards h2 h3 c7 show ?thesis
    by blast
qed

lemma job_summaries_degraded:
  assumes "squeue_data = JNull
           \<or> squeue_data = JObj doc \<and> (map_of doc ''jobs'' = None \<or> map_of doc ''jobs'' = Some (JList []))"
  shows "process_job_summaries ord squeue_data
         = Inr (empty_job_summary ''account'', empty_job_summary ''user_name'')"
proof -
  consider (none) "squeue_data = JNull"
    | (missing) "squeue_data = JObj doc" "map_of doc ''jobs'' = None"
    | (empty) "squeue_data = JObj doc" "map_of doc ''jobs'' = Some (JList [])"
    using assms by auto
  then show ?thesis
  proof cases
    case none
    then show ?thesis
      by (simp add: process_job_summaries_def)
  next
    case missing
    then have "''jobs'' \<notin> set (map fst doc)"
      by (simp add: map_of_eq_None_iff)
    with missing show ?thesis
      by (simp add: process_job_summaries_def)
  next
    case empty
    then have "''jobs'' \<in> set (map fst doc)"
      by (metis map_of_eq_None_iff option.distinct(1) set_map)
    with empty show ?thesis
      by (simp add: process_job_summaries_def)
  qed
qed

lemma falsy_document:
  assumes "\<not> truthy x"
  shows "process_partition_summary ord x = Inr None"
    and "process_partition_list ord x = Inr None"
    and "process_node_summary x = Inr None"
    and "process_node_list ord x = Inr None"
    and "process_job_summaries ord x
         = Inr (empty_job_summary ''account'', empty_job_summary ''user_name'')"
    and "process_pending_job_waiting_times_summary x = Inr no_waiting_times"
  using assms
  by (simp_all add: process_partition_summary_def process_partition_list_def
      process_node_summary_def process_node_list_def process_job_summaries_def
      process_pending_job_waiting_times_summary_def)

lemma document_without_key:
  assumes "map_of doc k = None"
  shows "k = ''sinfo'' \<Longrightarrow> process_partition_list ord (JObj doc) = Inr None"
    and "k = ''nodes'' \<Longrightarrow> process_node_summary (JObj doc) = Inr None"
    and "k = ''nodes'' \<Longrightarrow> process_node_list ord (JObj doc) = Inr None"
    and "k = ''jobs'' \<Longrightarrow> process_job_summaries ord (JObj doc)
         = Inr (empty_job_summary ''account'', empty_job_summary ''user_name'')"
    and "k = ''jobs'' \<Longrightarrow> process_pending_job_waiting_times_summary (JObj doc)
         = Inr no_waiting_times"
  using py_in_missing [OF assms]
  by (simp_all add: process_partition_list_def process_node_summary_def process_node_list_def
      process_job_summaries_def process_pending_job_waiting_times_summary_def
      del: py_in.simps)

text \<open>
  C3, as the code has it. The aggregation functions are not total: they neither check their
  records nor catch what the data-frame library raises, so that for instance
  \<open>process_node_summary\<close> raises \<^verbatim>\<open>ColumnNotFoundError\<close> on an empty node list and on nodes
  without a \<^verbatim>\<open>cpus\<close> field. What holds: every function returns normally on a document that
  Python counts as false (\<^verbatim>\<open>None\<close>, an empty dictionary): \<^verbatim>\<open>None\<close> from the partition and
  node functions, the empty tables from the job summaries, the zero statistics from the
  waiting-time summary; the five functions that test for their key return the same on a
  dictionary without it; the two job functions also on an empty job list; and every function
  returns a table on a well-formed document, that is a non-empty list of records that carry
  the fields the function reads with the scheduler's types; for the partition list these are
  records without an \<^verbatim>\<open>availability\<close> and without a \<^verbatim>\<open>state\<close> field, and for the job summaries
  no state is called \<^verbatim>\<open>account\<close>, \<^verbatim>\<open>user_name\<close> or \<^verbatim>\<open>Total Jobs\<close>.
\<close>

theorem aggregation_returns:
  "(\<not> truthy x \<longrightarrow>
      process_partition_summary ord x = Inr None
      \<and> process_partition_list ord x = Inr None
      \<and> process_node_summary x = Inr None
      \<and> process_node_list ord x = Inr None
      \<and> process_job_summaries ord x
          = Inr (empty_job_summary ''account'', empty_job_summary ''user_name'')
      \<and> process_pending_job_waiting_times_summary x = Inr no_waiting_times)
   \<and> (map_of doc ''sinfo'' = None \<longrightarrow> process_partition_list ord (JObj doc) = Inr None)
   \<and> (map_of doc ''nodes'' = None \<longrightarrow>
        process_node_summary (JObj doc) = Inr None \<and> process_node_list ord (JObj doc) = Inr None)
   \<and> (map_of doc ''jobs'' = None \<or> map_of doc ''jobs'' = Some (JList []) \<longrightarrow>
        process_job_summaries ord (JObj doc)
          = Inr (empty_job_summary ''account'', empty_job_summary ''user_name'')
        \<and> process_pending_job_waiting_times_summary (JObj doc) = Inr no_waiting_times)
   \<and> (map_of doc ''sinfo'' = Some (JList (map JObj recs)) \<and> recs \<noteq> []
        \<and> list_all wf_partition recs \<longrightarrow>
        (\<exists>t. process_partition_summary ord (JObj doc) = Inr (Some t)))
   \<and> (map_of doc ''sinfo'' = Some (JList (map JObj recs)) \<and> recs \<noteq> []
        \<and> list_all wf_listed_partition recs \<longrightarrow>
        (\<exists>t. process_partition_list ord (JObj doc) = Inr (Some t)))
   \<and> (map_of doc ''nodes'' = Some (JList (map JObj recs)) \<and> recs \<noteq> []
        \<and> list_all wf_node recs \<longrightarrow>
        (\<exists>t. process_node_summary (JObj doc) = Inr (Some t)))
   \<and> (map_of doc ''nodes'' = Some (JList (map JObj recs)) \<and> recs \<noteq> []
        \<and> list_all wf_listed_node recs \<longrightarrow>
        (\<exists>t. process_node_list ord (JObj doc) = Inr (Some t)))
   \<and> (valid_order ord \<and> map_of doc ''jobs'' = Some (JList (map JObj recs)) \<and> recs \<noteq> []
        \<and> list_all wf_job recs \<longrightarrow>
        (\<exists>a u. process_job_summaries ord (JObj doc) = Inr (a, u)))
   \<and> (map_of doc ''jobs'' = Some (JList (map JObj recs)) \<and> recs \<noteq> []
        \<and> list_all wf_timed_job recs \<longrightarrow>
        (\<exists>t. process_pending_job_waiting_times_summary (JObj doc) = Inr t))"
proof (intro conjI impI)
  assume f: "\<not> truthy x"
  from f show "process_partition_summary ord x = Inr None" by (rule falsy_document)
  from f show "process_partition_list ord x = Inr None" by (rule falsy_document)
  from f show "process_node_summary x = Inr None" by (rule falsy_document)
  from f show "process_node_list ord x = Inr None" by (rule falsy_document)
  from f show "process_job_summaries ord x
          = Inr (empty_job_summary ''account'', empty_job_summary ''user_name'')"
    by (rule falsy_document)
  from f show "process_pending_job_waiting_times_summary x = Inr no_waiting_times"
    by (rule falsy_document)
next
  assume "map_of doc ''sinfo'' = None"
  then show "process_partition_list ord (JObj doc) = Inr None"
    by (rule document_without_key) simp
next
  assume m: "map_of doc ''nodes'' = None"
  from m show "process_node_summary (JObj doc) = Inr None"
    by (rule document_without_key) simp
  from m show "process_node_list ord (JObj doc) = Inr None"
    by (rule document_without_key) simp
next
  assume m: "map_of doc ''jobs'' = None \<or> map_of doc ''jobs'' = Some (JList [])"
  then show "process_job_summaries ord (JObj doc)
          = Inr (empty_job_summary ''account'', empty_job_summary ''user_name'')"
    using job_summaries_degraded [of "JObj doc" doc ord] by simp
  from m show "process_pending_job_waiting_times_summary (JObj doc) = Inr no_waiting_times"
    using pending_jobs_degraded [of "JObj doc" doc] by simp
next
  assume "map_of doc ''sinfo'' = Some (JList (map JObj recs)) \<and> recs \<noteq> []
        \<and> list_all wf_partition recs"
  then show "\<exists>t. process_partition_summary ord (JObj doc) = Inr (Some t)"
    using process_partition_summary_returns [of doc recs] by simp
next
  assume "map_of doc ''sinfo'' = Some (JList (map JObj recs)) \<and> recs \<noteq> []
        \<and> list_all wf_listed_partition recs"
  then show "\<exists>t. process_partition_list ord (JObj doc) = Inr (Some t)"
    using process_partition_list_returns [of doc recs] by simp
next
  assume "map_of doc ''nodes'' = Some (JList (map JObj recs)) \<and> recs \<noteq> []
        \<and> list_all wf_node recs"
  then show "\<exists>t. process_node_summary (JObj doc) = Inr (Some t)"
    using process_node_summary_returns [of doc recs] by simp
next
  assume "map_of doc ''nodes'' = Some (JList (map JObj recs)) \<and> recs \<noteq> []
        \<and> list_all wf_listed_node recs"
  then show "\<exists>t. process_node_list ord (JObj doc) = Inr (Some t)"
    using process_node_list_returns [of doc recs] by simp
next
  assume "valid_order ord \<and> map_of doc ''jobs'' = Some (JList (map JObj recs)) \<and> recs \<noteq> []
        \<and> list_all wf_job recs"
  then have "\<exists>ta tu sa su. process_job_summaries ord (JObj doc) = Inr (ta, tu)
           \<and> columns ta = ''account'' # ''Total Jobs'' # sa
           \<and> columns tu = ''user_name'' # ''Total Jobs'' # su
           \<and> distinct sa \<and> set sa = set (job_states recs)
           \<and> distinct su \<and> set su = set (job_states recs)"
    using process_job_summaries_returns [of doc recs ord] by simp
  then show "\<exists>a u. process_job_summaries ord (JObj doc) = Inr (a, u)"
    by blast
next
  assume "map_of doc ''jobs'' = Some (JList (map JObj recs)) \<and> recs \<noteq> []
        \<and> list_all wf_timed_job recs"
  then show "\<exists>t. process_pending_job_waiting_times_summary (JObj doc) = Inr t"
    using pending_waiting_times_returns [of doc recs] by simp
qed

theorem aggregation_raises_counterexample:
  "process_node_summary (JObj [(''nodes'', JList [JObj [(''name'', JStr ''n1'')]])])
     = Inl (ColumnNotFoundError ''cpus'')
   \<and> process_node_summary (JObj [(''nodes'', JList [])]) = Inl (ColumnNotFoundError ''cpus'')
   \<and> process_pending_job_waiting_times_summary
        (JObj [(''jobs'', JList [JObj [(''eligible_time'', JObj [(''number'', JInt 1)]),
                                      (''start_time'', JObj [(''number'', JInt 2)])]])])
     = Inl (ColumnNotFoundError ''job_state'')"
  by code_simp

theorem aggregation_returns_witness:
  "\<not> truthy JNull
   \<and> process_partition_summary in_order JNull = Inr None
   \<and> process_job_summaries in_order JNull
       = Inr (empty_job_summary ''account'', empty_job_summary ''user_name'')
   \<and> map_of [(''errors'', JList [])] ''nodes'' = None
   \<and> process_node_summary (JObj [(''errors'', JList [])]) = Inr None
   \<and> MOCK_SINFO \<noteq> [] \<and> list_all wf_listed_partition MOCK_SINFO
   \<and> (\<exists>t. process_partition_summary backwards MOCK_SINFO_JSON = Inr (Some t))
   \<and> (\<exists>t. process_partition_list backwards MOCK_SINFO_JSON = Inr (Some t))
   \<and> MOCK_SCONTROL \<noteq> [] \<and> list_all wf_node MOCK_SCONTROL
   \<and> (\<exists>t. process_node_summary MOCK_SCONTROL_JSON = Inr (Some t))
   \<and> EXAMPLE_NODES \<noteq> [] \<and> list_all wf_listed_node EXAMPLE_NODES
   \<and> (\<exists>t. process_node_list backwards (JObj [(''nodes'', JList (map JObj EXAMPLE_NODES))])
          = Inr (Some t))
   \<and> valid_order backwards \<and> MOCK_SQUEUE \<noteq> []
   \<and> list_all wf_job MOCK_SQUEUE \<and> list_all wf_timed_job MOCK_SQUEUE
   \<and> (\<exists>a u. process_job_summaries backwards MOCK_SQUEUE_JSON = Inr (a, u))
   \<and> (\<exists>t. process_pending_job_waiting_times_summary MOCK_SQUEUE_JSON = Inr t)"
proof -
  note r = aggregation_returns
  have f: "\<not> truthy JNull" by simp
  note r1 = r [THEN conjunct1, THEN mp, OF f, of in_order]
  have m: "map_of [(''errors'', JList [])] ''nodes'' = None" by simp
  note r3 = r [THEN conjunct2, THEN conjunct2, THEN conjunct1, THEN mp, OF m]
  have p1: "map_of [(''sinfo'', JList (map JObj MOCK_SINFO))] ''sinfo''
            = Some (JList (map JObj MOCK_SINFO))" by simp
  have p2: "MOCK_SINFO \<noteq> []" by (simp add: MOCK_SINFO_def)
  have p3: "list_all wf_listed_partition MOCK_SINFO" by code_simp
  have p4: "list_all wf_partition MOCK_SINFO" by code_simp
  note r5 = r [THEN conjunct2, THEN conjunct2, THEN conjunct2, THEN conjunct2, THEN conjunct1,
      THEN mp, OF conjI [OF p1 conjI [OF p2 p4]], of backwards, folded MOCK_SINFO_JSON_def]
  note r6 = r [THEN conjunct2, THEN conjunct2, THEN conjunct2, THEN conjunct2, THEN conjunct2,
      THEN conjunct1, THEN mp, OF conjI [OF p1 conjI [OF p2 p3]], of backwards,
      folded MOCK_SINFO_JSON_def]
  have n1: "map_of [(''nodes'', JList (map JObj MOCK_SCONTROL))] ''nodes''
            = Some (JList (map JObj MOCK_SCONTROL))" by simp
  have n2: "MOCK_SCONTROL \<noteq> []" by (simp add: MOCK_SCONTROL_def)
  have n3: "list_all wf_node MOCK_SCONTROL" by code_simp
  note r7 = r [THEN conjunct2, THEN conjunct2, THEN conjunct2, THEN conjunct2, THEN conjunct2,
      THEN conjunct2, THEN conjunct1, THEN mp, OF conjI [OF n1 conjI [OF n2 n3]],
      folded MOCK_SCONTROL_JSON_def]
  have l1: "map_of [(''nodes'', JList (map JObj EXAMPLE_NODES))] ''nodes''
            = Some (JList (map JObj EXAMPLE_NODES))" by simp
  have l2: "EXAMPLE_NODES \<noteq> []" by (simp add: EXAMPLE_NODES_def)
  have l3: "list_all wf_listed_node EXAMPLE_NODES" by code_simp
  note r8 = r [THEN conjunct2, THEN conjunct2, THEN conjunct2, THEN conjunct2, THEN conjunct2,
      THEN conjunct2, THEN conjunct2, THEN conjunct1, THEN mp,
      OF conjI [OF l1 conjI [OF l2 l3]], of backwards]
  have j1: "map_of [(''jobs'', JList (map JObj MOCK_SQUEUE))] ''jobs''
            = Some (JList (map JObj MOCK_SQUEUE))" by simp
  have j2: "MOCK_SQUEUE \<noteq> []" by (simp add: MOCK_SQUEUE_def)
  have j3: "list_all wf_job MOCK_SQUEUE" by code_simp
  have j4: "list_all wf_timed_job MOCK_SQUEUE" by code_simp
  note r9 = r [THEN conjunct2, THEN conjunct2, THEN conjunct2, THEN conjunct2, THEN conjunct2,
      THEN conjunct2, THEN conjunct2, THEN conjunct2, THEN conjunct1, THEN mp,
      OF conjI [OF valid_backwards conjI [OF j1 conjI [OF j2 j3]]],
      folded MOCK_SQUEUE_JSON_def]
  note r10 = r [THEN conjunct2, THEN conjunct2, THEN conjunct2, THEN conjunct2, THEN conjunct2,
      THEN conjunct2, THEN conjunct2, THEN conjunct2, THEN conjunct2, THEN mp,
      OF conjI [OF j1 conjI [OF j2 j4]], folded MOCK_SQUEUE_JSON_def]
  from f r1 m r3 p2 p3 r5 r6 n2 n3 r7 l2 l3 r8 valid_backwards j2 j3 j4 r9 r10
  show ?thesis by blast
qed

subsection \<open>The rows of the job summaries\<close>

text \<open>
  For well-formed jobs each summary has one row per account (or user). Its \<^verbatim>\<open>Total Jobs\<close>
  cell is the number of rows of the exploded frame with that account, which is the sum over
  the account's jobs of the number of states each job reports; the cell of a state column
  is the number of times the account's jobs report that state.
\<close>

lemma map_of_tabulate:
  "map_of (map (\<lambda>k. (k, f k)) ys) x = (if x \<in> set ys then Some (f x) else None)"
  by (induction ys) auto

lemma map_of_agg_len:
  assumes "valid_order ord"
  shows "map_of (agg_len ord xs) x = (if x \<in> set xs then Some (count_list xs x) else None)"
  by (simp add: agg_len_def map_of_tabulate set_group_by [OF assms])

lemma fill_null_count:
  assumes "valid_order ord"
  shows "fill_null 0 (map_of (agg_len ord xs) x) = JInt (int (count_list xs x))"
  by (simp add: map_of_agg_len [OF assms] count_list_0_iff)

lemma joined_cell_count:
  assumes "valid_order ord" and "x \<in> set xs"
  shows "joined_cell (map_of (agg_len ord xs) x) = JInt (int (count_list xs x))"
  using assms(2) by (simp add: map_of_agg_len [OF assms(1)])

lemma set_agg_len_keys:
  assumes "valid_order ord" and "length keys = length states"
  shows "set (map (\<lambda>((k, s), n). k) (agg_len ord (zip keys states))) = set keys"
proof -
  have "set (map (\<lambda>((k, s), n). k) (agg_len ord (zip keys states)))
        = fst ` set (group_by ord (zip keys states))"
    by (auto simp: agg_len_def image_iff split_def)
  also have "\<dots> = fst ` set (zip keys states)"
    by (simp add: set_group_by [OF assms(1)])
  also have "\<dots> = set keys"
    using assms(2) by (metis map_fst_zip set_map)
  finally show ?thesis .
qed

lemma job_summary_rows:
  assumes "df \<noteq> []" and "list_all (str_at key) df" and "list_all (str_at ''job_state'') df"
    and "key \<notin> set (map (get_str ''job_state'') df)"
    and "''Total Jobs'' \<notin> set (map (get_str ''job_state'') df)"
    and "key \<noteq> ''Total Jobs''"
    and "valid_order ord"
  shows "\<exists>ks on. job_summary ord key df =
           Inr \<lparr>columns = key # ''Total Jobs'' # on,
                rows = map (\<lambda>k. JStr k # JInt (int (count_list (map (get_str key) df) k))
                              # map (\<lambda>s. JInt (int (count_list
                                      (zip (map (get_str key) df) (map (get_str ''job_state'') df))
                                      (k, s)))) on) ks\<rparr>
         \<and> distinct ks \<and> set ks = set (map (get_str key) df)
         \<and> sorted (rev (map (\<lambda>k. int (count_list (map (get_str key) df) k)) ks))
         \<and> distinct on \<and> set on = set (map (get_str ''job_state'') df)"
proof -
  define keys where "keys = map (get_str key) df"
  define states where "states = map (get_str ''job_state'') df"
  define counts where "counts = agg_len ord (zip keys states)"
  define index where "index = remdups (map (\<lambda>((k, s), n). k) counts)"
  define on where "on = remdups (map (\<lambda>((k, s), n). s) counts)"
  define mk where "mk = (\<lambda>k. JStr k # JInt (int (count_list keys k))
                              # map (\<lambda>s. JInt (int (count_list (zip keys states) (k, s)))) on)"
  define ks where "ks = sort_key (\<lambda>k. - int (count_list keys k)) (unordered ord index)"
  note v = assms(7)
  have len: "length keys = length states"
    by (simp add: keys_def states_def)
  have ck: "col_str key df = Inr keys"
    unfolding keys_def using assms(1,2) by (rule col_str_present)
  have cs: "col_str ''job_state'' df = Inr states"
    unfolding states_def using assms(1,3) by (rule col_str_present)
  have index_set: "set index = set keys"
    unfolding index_def counts_def set_remdups by (rule set_agg_len_keys [OF v len])
  have on_set: "set on = set states"
    unfolding on_def counts_def set_remdups by (rule set_agg_len_states [OF v len])
  have rows0: "map (\<lambda>k. JStr k # joined_cell (map_of (agg_len ord keys) k)
                        # map (\<lambda>s. fill_null 0 (map_of counts (k, s))) on) index
               = map mk index"
  proof (rule map_cong [OF refl])
    fix k assume "k \<in> set index"
    then have "k \<in> set keys" by (simp add: index_set)
    then show "JStr k # joined_cell (map_of (agg_len ord keys) k)
                 # map (\<lambda>s. fill_null 0 (map_of counts (k, s))) on = mk k"
      by (simp add: mk_def counts_def joined_cell_count [OF v] fill_null_count [OF v])
  qed
  have i: "column_index ''Total Jobs'' \<lparr>columns = key # ''Total Jobs'' # on, rows = map mk index\<rparr>
           = 1"
    using assms(6) by (simp add: column_index_def)
  have sorted_rows: "sort_descending ord ''Total Jobs''
          \<lparr>columns = key # ''Total Jobs'' # on, rows = map mk index\<rparr>
        = \<lparr>columns = key # ''Total Jobs'' # on, rows = map mk ks\<rparr>"
    unfolding sort_descending_rows [OF v i] ks_def by (simp add: mk_def)
  have result: "job_summary ord key df
                = Inr \<lparr>columns = key # ''Total Jobs'' # on, rows = map mk ks\<rparr>"
    unfolding job_summary_def ck cs
    using assms(4,5)
    by (simp add: Let_def rows0 sorted_rows
        flip: states_def counts_def index_def on_def)
  have m: "mset ks = mset index"
    by (simp add: ks_def mset_unordered [OF v])
  have d: "distinct ks"
    using mset_eq_imp_distinct_iff [OF m] by (simp add: index_def)
  have s: "set ks = set keys"
    using mset_eq_setD [OF m] by (simp add: index_set)
  have "sorted (map (\<lambda>k. - int (count_list keys k)) ks)"
    unfolding ks_def by (rule sorted_sort_key)
  then have sd: "sorted (rev (map (\<lambda>k. int (count_list keys k)) ks))"
    by (rule sorted_uminus_rev)
  from result d s sd on_set show ?thesis
    unfolding mk_def keys_def states_def
    by (intro exI [of _ ks] exI [of _ on]) (simp add: on_def)
qed


lemma count_list_const:
  "count_list (map (\<lambda>s. a) ss) k = (if a = k then length ss else 0)"
  by (induction ss) auto

lemma count_list_pair:
  "count_list (map (\<lambda>s. (a, s)) ss) (k, s) = (if a = k then count_list ss s else 0)"
  by (induction ss) auto

lemma count_exploded:
  assumes "c \<noteq> ''job_state''"
  shows "count_list (map (get_str c) (exploded jobs)) k
         = sum_list (map (\<lambda>r. length (get_strs ''job_state'' r))
                      (filter (\<lambda>r. get_str c r = k) jobs))"
  unfolding exploded_get_str [OF assms]
  by (induction jobs) (simp_all add: count_list_const)

lemma exploded_pairs:
  assumes "c \<noteq> ''job_state''" and "list_all (strs_at ''job_state'') jobs"
  shows "zip (map (get_str c) (exploded jobs)) (map (get_str ''job_state'') (exploded jobs))
         = concat (map (\<lambda>r. map (\<lambda>s. (get_str c r, s)) (get_strs ''job_state'' r)) jobs)"
proof -
  have "map (\<lambda>x. (get_str c x, get_str ''job_state'' x))
          (map (\<lambda>s. set_cell ''job_state'' (JStr s) r) (get_strs ''job_state'' r))
        = map (\<lambda>s. (get_str c r, s)) (get_strs ''job_state'' r)" if "r \<in> set jobs" for r
  proof -
    from that assms(2) have "has_key ''job_state'' r"
      by (simp add: list_all_iff strs_at_def)
    with assms(1) show ?thesis
      by (simp add: comp_def get_str_def cell_set_cell)
  qed
  then show ?thesis
    unfolding zip_map_same by (simp add: exploded_def map_concat comp_def cong: map_cong)
qed

lemma count_exploded_pairs:
  assumes "c \<noteq> ''job_state''" and "list_all (strs_at ''job_state'') jobs"
  shows "count_list (zip (map (get_str c) (exploded jobs))
                         (map (get_str ''job_state'') (exploded jobs))) (k, s)
         = sum_list (map (\<lambda>r. count_list (get_strs ''job_state'' r) s)
                      (filter (\<lambda>r. get_str c r = k) jobs))"
  unfolding exploded_pairs [OF assms]
  by (induction jobs) (simp_all add: count_list_pair)

lemma exploded_keys:
  assumes "c \<noteq> ''job_state''" and "list_all (strs_at ''job_state'') jobs"
  shows "set (map (get_str c) (exploded jobs)) = set (map (get_str c) jobs)"
proof -
  have "get_strs ''job_state'' r \<noteq> []" if "r \<in> set jobs" for r
    using that assms(2) by (simp add: list_all_iff strs_at_def get_strs_def is_str_list_nonempty)
  then have "\<exists>s. s \<in> set (get_strs ''job_state'' r)" if "r \<in> set jobs" for r
    using that by (meson hd_in_set)
  then show ?thesis
    unfolding exploded_get_str [OF assms(1)] by (fastforce simp: image_iff)
qed

lemma job_summary_exploded:
  assumes "jobs \<noteq> []" and "list_all (str_at key) jobs" and "list_all (strs_at ''job_state'') jobs"
    and "key \<notin> set (job_states jobs)" and "''Total Jobs'' \<notin> set (job_states jobs)"
    and "key \<noteq> ''Total Jobs''" and "key \<noteq> ''job_state''"
    and "valid_order ord"
  shows "\<exists>ks on. job_summary ord key (exploded jobs) =
           Inr \<lparr>columns = key # ''Total Jobs'' # on,
                rows = map (\<lambda>k. JStr k
                              # JInt (int (sum_list (map (\<lambda>r. length (get_strs ''job_state'' r))
                                             (filter (\<lambda>r. get_str key r = k) jobs))))
                              # map (\<lambda>s. JInt (int (sum_list
                                             (map (\<lambda>r. count_list (get_strs ''job_state'' r) s)
                                               (filter (\<lambda>r. get_str key r = k) jobs))))) on) ks\<rparr>
         \<and> distinct ks \<and> set ks = set (map (get_str key) jobs)
         \<and> distinct on \<and> set on = set (job_states jobs)"
proof -
  note st = assms(3)
  have ne: "exploded jobs \<noteq> []"
    using assms(1) st by (rule exploded_nonempty)
  have states: "map (get_str ''job_state'') (exploded jobs) = job_states jobs"
    using st by (rule exploded_states)
  have s: "list_all (str_at ''job_state'') (exploded jobs)"
    using st by (auto simp: list_all_iff exploded_def str_at_def strs_at_def cell_set_cell)
  have k: "list_all (str_at key) (exploded jobs)"
    using assms(2) st by (rule exploded_str_at)
  from job_summary_rows [OF ne k s _ _ assms(6) assms(8)] assms(4,5) [folded states]
  obtain ks on where r: "job_summary ord key (exploded jobs) =
           Inr \<lparr>columns = key # ''Total Jobs'' # on,
                rows = map (\<lambda>k. JStr k
                              # JInt (int (count_list (map (get_str key) (exploded jobs)) k))
                              # map (\<lambda>s. JInt (int (count_list
                                      (zip (map (get_str key) (exploded jobs))
                                           (map (get_str ''job_state'') (exploded jobs)))
                                      (k, s)))) on) ks\<rparr>"
      and d: "distinct ks" "set ks = set (map (get_str key) (exploded jobs))"
        "distinct on" "set on = set (map (get_str ''job_state'') (exploded jobs))"
    by blast
  note r' = r [unfolded count_exploded [OF assms(7)] count_exploded_pairs [OF assms(7) st]]
  note d' = d [unfolded exploded_keys [OF assms(7) st] states]
  from r' d' show ?thesis
    by blast
qed

lemma process_job_summaries_rows:
  assumes "map_of doc ''jobs'' = Some (JList (map JObj jobs))" and "jobs \<noteq> []"
    and "list_all wf_job jobs" and "valid_order ord"
  shows "\<exists>ta tu. process_job_summaries ord (JObj doc) = Inr (ta, tu)
           \<and> (\<exists>ks on. ta =
                 \<lparr>columns = ''account'' # ''Total Jobs'' # on,
                  rows = map (\<lambda>k. JStr k
                     # JInt (int (sum_list (map (\<lambda>r. length (get_strs ''job_state'' r))
                                    (filter (\<lambda>r. get_str ''account'' r = k) jobs))))
                     # map (\<lambda>s. JInt (int (sum_list
                                    (map (\<lambda>r. count_list (get_strs ''job_state'' r) s)
                                      (filter (\<lambda>r. get_str ''account'' r = k) jobs))))) on) ks\<rparr>
                 \<and> distinct ks \<and> set ks = set (map (get_str ''account'') jobs)
                 \<and> distinct on \<and> set on = set (job_states jobs))
           \<and> (\<exists>ks on. tu =
                 \<lparr>columns = ''user_name'' # ''Total Jobs'' # on,
                  rows = map (\<lambda>k. JStr k
                     # JInt (int (sum_list (map (\<lambda>r. length (get_strs ''job_state'' r))
                                    (filter (\<lambda>r. get_str ''user_name'' r = k) jobs))))
                     # map (\<lambda>s. JInt (int (sum_list
                                    (map (\<lambda>r. count_list (get_strs ''job_state'' r) s)
                                      (filter (\<lambda>r. get_str ''user_name'' r = k) jobs))))) on) ks\<rparr>
                 \<and> distinct ks \<and> set ks = set (map (get_str ''user_name'') jobs)
                 \<and> distinct on \<and> set on = set (job_states jobs))"
proof -
  have st: "list_all (strs_at ''job_state'') jobs"
    using assms(3) by (simp add: list_all_iff wf_job_def)
  have a: "list_all (str_at ''account'') jobs" and u: "list_all (str_at ''user_name'') jobs"
    using assms(3) by (simp_all add: list_all_iff wf_job_def)
  have ex: "explode ''job_state'' jobs = Inr (exploded jobs)"
    using assms(2) st by (rule explode_jobs)
  note clash = wf_job_states [OF assms(3)]
  from job_summary_exploded [OF assms(2) a st _ _ _ _ assms(4)] clash
  obtain ka sa where ta: "job_summary ord ''account'' (exploded jobs) =
           Inr \<lparr>columns = ''account'' # ''Total Jobs'' # sa,
                rows = map (\<lambda>k. JStr k
                     # JInt (int (sum_list (map (\<lambda>r. length (get_strs ''job_state'' r))
                                    (filter (\<lambda>r. get_str ''account'' r = k) jobs))))
                     # map (\<lambda>s. JInt (int (sum_list
                                    (map (\<lambda>r. count_list (get_strs ''job_state'' r) s)
                                      (filter (\<lambda>r. get_str ''account'' r = k) jobs))))) sa) ka\<rparr>"
      and da: "distinct ka" "set ka = set (map (get_str ''account'') jobs)"
        "distinct sa" "set sa = set (job_states jobs)"
    by (auto simp del: set_map)
  from job_summary_exploded [OF assms(2) u st _ _ _ _ assms(4)] clash
  obtain ku su where tu: "job_summary ord ''user_name'' (exploded jobs) =
           Inr \<lparr>columns = ''user_name'' # ''Total Jobs'' # su,
                rows = map (\<lambda>k. JStr k
                     # JInt (int (sum_list (map (\<lambda>r. length (get_strs ''job_state'' r))
                                    (filter (\<lambda>r. get_str ''user_name'' r = k) jobs))))
                     # map (\<lambda>s. JInt (int (sum_list
                                    (map (\<lambda>r. count_list (get_strs ''job_state'' r) s)
                                      (filter (\<lambda>r. get_str ''user_name'' r = k) jobs))))) su) ku\<rparr>"
      and du: "distinct ku" "set ku = set (map (get_str ''user_name'') jobs)"
        "distinct su" "set su = set (job_states jobs)"
    by (auto simp del: set_map)
  have tr: "truthy (JList (map JObj jobs))"
    using assms(2) by simp
  have p: "process_job_summaries ord (JObj doc)
        = bindE (job_summary ord ''account'' (exploded jobs)) (\<lambda>account_summary_df.
          bindE (job_summary ord ''user_name'' (exploded jobs)) (\<lambda>user_summary_df.
            Inr (account_summary_df, user_summary_df)))"
    unfolding process_job_summaries_def
    by (simp add: tr truthy_doc [OF assms(1)] py_in_present [OF assms(1)]
        py_getitem_present [OF assms(1)] DataFrame_records ex
        del: DataFrame.simps py_in.simps py_getitem.simps truthy.simps)
  show ?thesis
    unfolding p ta tu using da du by (simp del: set_map) blast
qed

text \<open>
  C1. One job that reports two states at once is counted twice under \<^verbatim>\<open>Total Jobs\<close>, for
  its account and for its user: the total is taken over the exploded frame, which holds one
  row per state of a job, not one row per job. The per-state columns count the job once
  each. The order in which the library returns the groups changes the order of the state
  columns only.
\<close>

theorem total_jobs_counts_states:
  "process_job_summaries in_order
      (JObj [(''jobs'', JList [JObj (mock_job ''acct'' [''RUNNING'', ''COMPLETING''] ''user'' 0 0)])])
     = Inr (\<lparr>columns = [''account'', ''Total Jobs'', ''RUNNING'', ''COMPLETING''],
             rows = [[JStr ''acct'', JInt 2, JInt 1, JInt 1]]\<rparr>,
            \<lparr>columns = [''user_name'', ''Total Jobs'', ''RUNNING'', ''COMPLETING''],
             rows = [[JStr ''user'', JInt 2, JInt 1, JInt 1]]\<rparr>)
   \<and> process_job_summaries backwards
      (JObj [(''jobs'', JList [JObj (mock_job ''acct'' [''RUNNING'', ''COMPLETING''] ''user'' 0 0)])])
     = Inr (\<lparr>columns = [''account'', ''Total Jobs'', ''COMPLETING'', ''RUNNING''],
             rows = [[JStr ''acct'', JInt 2, JInt 1, JInt 1]]\<rparr>,
            \<lparr>columns = [''user_name'', ''Total Jobs'', ''COMPLETING'', ''RUNNING''],
             rows = [[JStr ''user'', JInt 2, JInt 1, JInt 1]]\<rparr>)"
  by code_simp

end
